theory Spec2Isabelle
  imports Main "HOL-Library.Word"
begin

section \<open>The SQLite store behind \<open>TskDbSqlite\<close> (tsk3/auto/db_sqlite.cpp)\<close>

text \<open>
  The class \<open>TskDbSqlite\<close> talks to SQLite by formatting SQL text into a 1024 byte
  buffer with \<open>snprintf\<close> and handing the text to \<open>sqlite3_exec\<close>, and by one prepared
  \<open>SELECT\<close> statement. The model below has three layers:

  \<^item> the text the code formats (decimal conversions, the quote-doubling loop, the
    buffer the name is built in);
  \<^item> an ideal SQLite engine over the tables that \<open>initialize\<close> creates: no I/O
    faults, rows kept in insertion order, the constraints of the \<open>CREATE TABLE\<close>
    statements and nothing more;
  \<^item> the member functions of \<open>TskDbSqlite\<close>, each returning its \<open>int\<close> result, the
    value it wrote to its \<open>objId\<close> reference parameter (if it wrote one) and the
    object's new state.
\<close>

subsection \<open>Values and rows\<close>

text \<open>
  A cell of a table. A decimal numeral in SQL text that does not fit a signed 64-bit
  integer is read by SQLite as a floating-point number, and an \<open>INTEGER\<close> column keeps
  it as \<open>REAL\<close>: \<open>SReal n\<close> stands for the double nearest to the numeral \<open>n\<close>
  (\<open>n \<ge> 2^63\<close>); it is never equal to an integer cell.

  Text comes out of a string literal of a statement, which is a sequence of bytes.
  A database whose text encoding is UTF-8 keeps the bytes as they are, valid UTF-8 or
  not: \<open>SText b\<close> is the text with the bytes \<open>b\<close>. A database whose text encoding is
  UTF-16 stores the engine's conversion of the bytes to UTF-16, which puts U+FFFD in
  the place of every part that is not valid UTF-8: \<open>SText16 b\<close> stands for the
  UTF-16 text converted from the bytes \<open>b\<close>. The bytes \<open>b\<close> of \<open>SText16 b\<close> are what
  the statement held, not what reads back; the code never compares or reads a text
  cell.
\<close>

datatype sqlval = SNull | SInt int | SReal nat | SText string | SText16 string

datatype text_encoding = UTF8 | UTF16

fun text_cell :: "text_encoding \<Rightarrow> string \<Rightarrow> sqlval" where
  "text_cell UTF8 b = SText b"
| "text_cell UTF16 b = SText16 b"

text \<open>Table \<open>tsk_objects (obj_id INTEGER PRIMARY KEY, par_obj_id INTEGER, type INTEGER)\<close>.\<close>

record object_row =
  o_obj_id :: int
  o_par_obj_id :: sqlval
  o_type :: int

text \<open>
  Table \<open>tsk_files\<close>, the columns in the order of the \<open>INSERT\<close> statements of
  \<open>addFile\<close> and \<open>addCarvedFileInfo\<close>; \<open>has_layout\<close> and \<open>has_path\<close> are never
  written by this file and stay \<open>NULL\<close>.
\<close>

record file_row =
  fr_fs_obj_id :: sqlval
  fr_obj_id :: int
  fr_type :: sqlval
  fr_attr_type :: sqlval
  fr_attr_id :: sqlval
  fr_name :: sqlval
  fr_meta_addr :: sqlval
  fr_dir_type :: sqlval
  fr_meta_type :: sqlval
  fr_dir_flags :: sqlval
  fr_meta_flags :: sqlval
  fr_size :: sqlval
  fr_crtime :: sqlval
  fr_ctime :: sqlval
  fr_atime :: sqlval
  fr_mtime :: sqlval
  fr_mode :: sqlval
  fr_gid :: sqlval
  fr_uid :: sqlval

text \<open>Table \<open>tsk_file_layout (fs_id, byte_start, byte_len, obj_id)\<close>.\<close>

record layout_row =
  l_fs_id :: sqlval
  l_byte_start :: sqlval
  l_byte_len :: sqlval
  l_obj_id :: sqlval

text \<open>
  The connection \<open>m_db\<close> points to: the database and the engine's random generator.
  \<open>tsk_db_info\<close> holds the column \<open>schema_ver\<close> of its rows once that table
  exists; the column \<open>tsk_ver\<close> is not modelled (see \<open>initialize\<close>).
  \<open>has_tables\<close> says that the other tables of \<open>initialize\<close> exist; \<open>tsk_file_layout\<close>
  exists only when \<open>initialize\<close> ran with \<open>m_blkMapFlag\<close> set. The rows of the image,
  volume-system, volume and file-system tables are kept as lists of cells in column
  order. The code deletes no row, and the rows of every table but \<open>tsk_objects\<close>
  have the rowids 1, 2, ... in insertion order.

  \<open>rowid_draws s ids k\<close> is the \<open>k\<close>-th 64-bit value that \<open>sqlite3_randomness\<close>
  would give the engine, were it to look for an unused rowid at random while the
  rowids \<open>ids\<close> are in use (see \<open>next_rowid\<close>).
\<close>

record sqlite3 =
  encoding :: text_encoding
  rowid_draws :: "int list \<Rightarrow> nat \<Rightarrow> int"
  tsk_db_info :: "int list option"
  has_tables :: bool
  tsk_objects :: "object_row list"
  tsk_image_info :: "sqlval list list"
  tsk_vs_info :: "sqlval list list"
  tsk_vs_parts :: "sqlval list list"
  tsk_fs_info :: "sqlval list list"
  tsk_files :: "file_row list"
  tsk_file_layout :: "layout_row list option"
  last_insert_rowid :: int

text \<open>
  The prepared statement
  \<open>SELECT obj_id FROM tsk_files WHERE meta_addr IS ? AND fs_obj_id IS ?\<close>:
  its two bound parameters, how often it was stepped, and the row it stands on.
\<close>

record sqlite3_stmt =
  bound1 :: "int option"
  bound2 :: "int option"
  steps :: nat
  current_row :: "file_row option"

record TskDbSqlite =
  m_utf8 :: bool
  m_blkMapFlag :: bool
  m_db :: "sqlite3 option"
  m_selectFileIdByMetaAddr :: "sqlite3_stmt option"

subsection \<open>Enumerations and constants of the headers\<close>

text \<open>
  The headers \<open>tsk_db_sqlite.h\<close> and \<open>tsk_fs.h\<close> are not among the sources. The
  enumerations are taken in their declaration order; the theorems below name the
  constants and do not depend on their numeric values.
\<close>

datatype DB_OBJECT_TYPES =
  DB_OBJECT_TYPE_IMG | DB_OBJECT_TYPE_VS | DB_OBJECT_TYPE_VOL | DB_OBJECT_TYPE_FS
  | DB_OBJECT_TYPE_FILE

fun object_type_code :: "DB_OBJECT_TYPES \<Rightarrow> int" where
  "object_type_code DB_OBJECT_TYPE_IMG = 0"
| "object_type_code DB_OBJECT_TYPE_VS = 1"
| "object_type_code DB_OBJECT_TYPE_VOL = 2"
| "object_type_code DB_OBJECT_TYPE_FS = 3"
| "object_type_code DB_OBJECT_TYPE_FILE = 4"

definition DB_FILES_TYPE_FS :: int where "DB_FILES_TYPE_FS = 0"
definition DB_FILES_TYPE_CARVED :: int where "DB_FILES_TYPE_CARVED = 1"
definition TSK_FS_NAME_TYPE_REG :: int where "TSK_FS_NAME_TYPE_REG = 5"
definition TSK_FS_META_TYPE_REG :: int where "TSK_FS_META_TYPE_REG = 1"
definition TSK_FS_NAME_FLAG_UNALLOC :: int where "TSK_FS_NAME_FLAG_UNALLOC = 2"
definition TSK_FS_ATTR_TYPE_NTFS_IDXROOT :: "32 word" where
  "TSK_FS_ATTR_TYPE_NTFS_IDXROOT = 144"

subsection \<open>Formatting\<close>

definition quote :: char where "quote = CHR 0x27"
definition NUL :: char where "NUL = CHR 0x00"

definition digit_char :: "nat \<Rightarrow> char" where
  "digit_char d = ''0123456789'' ! d"

text \<open>The conversions \<open>%u\<close>, \<open>%llu\<close> (\<open>dec_nat\<close>) and \<open>%d\<close>, \<open>%lld\<close> (\<open>dec_int\<close>).\<close>

fun dec_nat :: "nat \<Rightarrow> string" where
  "dec_nat n =
     (if n < 10 then [digit_char n] else dec_nat (n div 10) @ [digit_char (n mod 10)])"

declare dec_nat.simps [simp del]

definition dec_int :: "int \<Rightarrow> string" where
  "dec_int i = (if i < 0 then CHR ''-'' # dec_nat (nat (- i)) else dec_nat (nat i))"

text \<open>
  What the engine stores for a numeral printed by an unsigned conversion. The signed
  conversions print values of \<open>int\<close> and \<open>int64_t\<close>, which always fit.
\<close>

definition sql_unsigned :: "nat \<Rightarrow> sqlval" where
  "sql_unsigned n = (if n < 2 ^ 63 then SInt (int n) else SReal n)"

text \<open>
  The body of a single-quoted SQL string literal, decoded: a doubled quote stands for
  one quote. A lone quote ends the literal early; the text that follows is then not
  the statement the code meant, and the model gives no value (\<open>None\<close>).
\<close>

fun sql_string_body :: "string \<Rightarrow> string option" where
  "sql_string_body [] = Some []"
| "sql_string_body (c # cs) =
     (if c = quote then
        (case cs of
           [] \<Rightarrow> None
         | d # ds \<Rightarrow> if d = quote then map_option (Cons quote) (sql_string_body ds) else None)
      else map_option (Cons c) (sql_string_body cs))"

subsection \<open>The engine\<close>

text \<open>
  \<open>obj_id INTEGER PRIMARY KEY\<close> inserted as \<open>NULL\<close>: SQLite gives the row one more
  than the largest rowid in the table, 1 in an empty table. With the largest rowid at
  \<open>2^63 - 1\<close> the engine draws candidates at random, each masked to 62 bits and
  raised by one, and takes the first that is not in use; after 100 draws in use it
  gives up and the insert fails (\<open>SQLITE_FULL\<close>).
\<close>

definition next_rowid :: "int list \<Rightarrow> (nat \<Rightarrow> int) \<Rightarrow> int option" where
  "next_rowid ids draws =
     (if ids = [] then Some 1
      else if Max (set ids) < 2 ^ 63 - 1 then Some (Max (set ids) + 1)
      else find (\<lambda>v. v \<notin> set ids) (map (\<lambda>k. draws k mod 2 ^ 62 + 1) [0..<100]))"

text \<open>The rowid that the next row of \<open>tsk_objects\<close> gets.\<close>

definition new_obj_id :: "sqlite3 \<Rightarrow> int option" where
  "new_obj_id s =
     next_rowid (map o_obj_id (tsk_objects s)) (rowid_draws s (map o_obj_id (tsk_objects s)))"

text \<open>
  \<open>INSERT INTO tsk_objects (obj_id, par_obj_id, type) VALUES (NULL, par, ty)\<close>. The
  table declares no foreign key: \<open>par\<close> is stored whatever it is.
\<close>

definition insert_objects :: "sqlval \<Rightarrow> int \<Rightarrow> sqlite3 \<Rightarrow> sqlite3 option" where
  "insert_objects par ty s =
     (if \<not> has_tables s then None
      else case new_obj_id s of
             None \<Rightarrow> None
           | Some r \<Rightarrow>
               Some (s\<lparr>tsk_objects :=
                          tsk_objects s @ [\<lparr>o_obj_id = r, o_par_obj_id = par, o_type = ty\<rparr>],
                        last_insert_rowid := r\<rparr>))"

text \<open>Inserts into tables without constraints on the row: image and volume-system rows.\<close>

definition insert_image_info :: "sqlval list \<Rightarrow> sqlite3 \<Rightarrow> sqlite3 option" where
  "insert_image_info row s =
     (if \<not> has_tables s then None
      else Some (s\<lparr>tsk_image_info := tsk_image_info s @ [row],
                    last_insert_rowid := int (length (tsk_image_info s)) + 1\<rparr>))"

definition insert_vs_info :: "sqlval list \<Rightarrow> sqlite3 \<Rightarrow> sqlite3 option" where
  "insert_vs_info row s =
     (if \<not> has_tables s then None
      else Some (s\<lparr>tsk_vs_info := tsk_vs_info s @ [row],
                    last_insert_rowid := int (length (tsk_vs_info s)) + 1\<rparr>))"

text \<open>
  \<open>tsk_vs_parts\<close> and \<open>tsk_fs_info\<close> declare \<open>obj_id INTEGER PRIMARY KEY\<close>: a second
  row with the same \<open>obj_id\<close> (the first cell) is refused.
\<close>

fun row_key :: "sqlval list \<Rightarrow> sqlval" where
  "row_key [] = SNull"
| "row_key (v # vs) = v"

definition insert_vs_parts :: "int \<Rightarrow> sqlval list \<Rightarrow> sqlite3 \<Rightarrow> sqlite3 option" where
  "insert_vs_parts objId row s =
     (if \<not> has_tables s \<or> SInt objId \<in> set (map row_key (tsk_vs_parts s)) then None
      else Some (s\<lparr>tsk_vs_parts := tsk_vs_parts s @ [SInt objId # row],
                    last_insert_rowid := objId\<rparr>))"

definition insert_fs_info :: "int \<Rightarrow> sqlval list \<Rightarrow> sqlite3 \<Rightarrow> sqlite3 option" where
  "insert_fs_info objId row s =
     (if \<not> has_tables s \<or> SInt objId \<in> set (map row_key (tsk_fs_info s)) then None
      else Some (s\<lparr>tsk_fs_info := tsk_fs_info s @ [SInt objId # row],
                    last_insert_rowid := objId\<rparr>))"

text \<open>\<open>tsk_files\<close> declares \<open>obj_id INTEGER NOT NULL UNIQUE\<close>.\<close>

definition insert_files :: "file_row \<Rightarrow> sqlite3 \<Rightarrow> sqlite3 option" where
  "insert_files row s =
     (if \<not> has_tables s \<or> fr_obj_id row \<in> set (map fr_obj_id (tsk_files s)) then None
      else Some (s\<lparr>tsk_files := tsk_files s @ [row],
                    last_insert_rowid := int (length (tsk_files s)) + 1\<rparr>))"

definition insert_file_layout :: "layout_row \<Rightarrow> sqlite3 \<Rightarrow> sqlite3 option" where
  "insert_file_layout row s =
     (case tsk_file_layout s of
        None \<Rightarrow> None
      | Some rows \<Rightarrow>
          Some (s\<lparr>tsk_file_layout := Some (rows @ [row]),
                   last_insert_rowid := int (length rows) + 1\<rparr>))"

text \<open>
  The rows the prepared statement selects: \<open>meta_addr IS ?1 AND fs_obj_id IS ?2\<close>, in
  table order. A parameter is an integer bound with \<open>sqlite3_bind_int64\<close>, or
  \<open>NULL\<close> while unbound; \<open>IS\<close> holds between two \<open>NULL\<close>s and between equal
  integers, and never between an integer and a \<open>REAL\<close> cell of \<open>2^63\<close> or more.
\<close>

fun param_cell :: "int option \<Rightarrow> sqlval" where
  "param_cell None = SNull"
| "param_cell (Some i) = SInt i"

definition select_file_id_rows :: "int option \<Rightarrow> int option \<Rightarrow> sqlite3 \<Rightarrow> file_row list" where
  "select_file_id_rows p1 p2 s =
     filter (\<lambda>r. fr_meta_addr r = param_cell p1 \<and> fr_fs_obj_id r = param_cell p2)
       (tsk_files s)"

definition SQLITE_OK :: int where "SQLITE_OK = 0"
definition SQLITE_MISUSE :: int where "SQLITE_MISUSE = 21"
definition SQLITE_RANGE :: int where "SQLITE_RANGE = 25"
definition SQLITE_ROW :: int where "SQLITE_ROW = 100"
definition SQLITE_DONE :: int where "SQLITE_DONE = 101"

text \<open>\<open>sqlite3_reset\<close> on a null statement is a harmless no-op that returns \<open>SQLITE_OK\<close>.\<close>

definition sqlite3_reset :: "sqlite3_stmt option \<Rightarrow> int \<times> sqlite3_stmt option" where
  "sqlite3_reset st =
     (case st of
        None \<Rightarrow> (SQLITE_OK, None)
      | Some t \<Rightarrow> (SQLITE_OK, Some (t\<lparr>current_row := None\<rparr>)))"

definition sqlite3_bind_int64 ::
  "sqlite3_stmt option \<Rightarrow> nat \<Rightarrow> 64 word \<Rightarrow> int \<times> sqlite3_stmt option" where
  "sqlite3_bind_int64 st idx v =
     (case st of
        None \<Rightarrow> (SQLITE_MISUSE, None)
      | Some t \<Rightarrow>
          if idx = 1 then (SQLITE_OK, Some (t\<lparr>bound1 := Some (sint v)\<rparr>))
          else if idx = 2 then (SQLITE_OK, Some (t\<lparr>bound2 := Some (sint v)\<rparr>))
          else (SQLITE_RANGE, Some t))"

definition sqlite3_step ::
  "sqlite3 option \<Rightarrow> sqlite3_stmt option \<Rightarrow> int \<times> sqlite3_stmt option" where
  "sqlite3_step d st =
     (case (d, st) of
        (Some s, Some t) \<Rightarrow>
          (case select_file_id_rows (bound1 t) (bound2 t) s of
             [] \<Rightarrow> (SQLITE_DONE, Some (t\<lparr>steps := Suc (steps t), current_row := None\<rparr>))
           | r # _ \<Rightarrow> (SQLITE_ROW, Some (t\<lparr>steps := Suc (steps t), current_row := Some r\<rparr>)))
      | _ \<Rightarrow> (SQLITE_MISUSE, st))"

text \<open>Column 0 of the row the statement stands on (\<open>obj_id\<close>); 0 without a row.\<close>

definition sqlite3_column_int64 :: "sqlite3_stmt option \<Rightarrow> 64 word" where
  "sqlite3_column_int64 st =
     (case st of
        Some t \<Rightarrow> (case current_row t of Some r \<Rightarrow> word_of_int (fr_obj_id r) | None \<Rightarrow> 0)
      | None \<Rightarrow> 0)"

section \<open>\<open>TskDbSqlite\<close>\<close>

subsection \<open>Session\<close>

text \<open>
  The two constructors: the one that takes a UTF-8 path, and the one that takes a
  path of wide characters, compiled under \<open>TSK_WIN32\<close>. The paths are not modelled;
  \<open>open_db\<close> is told what is found there.
\<close>

definition TskDbSqlite_new :: "bool \<Rightarrow> TskDbSqlite" where
  "TskDbSqlite_new a_blkMapFlag =
     \<lparr>m_utf8 = True, m_blkMapFlag = a_blkMapFlag, m_db = None,
      m_selectFileIdByMetaAddr = None\<rparr>"

definition TskDbSqlite_new_wide :: "bool \<Rightarrow> TskDbSqlite" where
  "TskDbSqlite_new_wide a_blkMapFlag =
     \<lparr>m_utf8 = False, m_blkMapFlag = a_blkMapFlag, m_db = None,
      m_selectFileIdByMetaAddr = None\<rparr>"

definition empty_database :: "text_encoding \<Rightarrow> (int list \<Rightarrow> nat \<Rightarrow> int) \<Rightarrow> sqlite3" where
  "empty_database enc draws =
     \<lparr>encoding = enc, rowid_draws = draws, tsk_db_info = None,
      has_tables = False, tsk_objects = [], tsk_image_info = [], tsk_vs_info = [],
      tsk_vs_parts = [], tsk_fs_info = [], tsk_files = [], tsk_file_layout = None,
      last_insert_rowid = 0\<rparr>"

text \<open>
  What \<open>sqlite3_open\<close> and \<open>sqlite3_open16\<close> meet at the path: a file that cannot be
  opened; no file, so that a database is created, with the random generator the
  engine has; or a database.
\<close>

datatype at_path = Unopenable | NoFile "int list \<Rightarrow> nat \<Rightarrow> int" | Database sqlite3

text \<open>
  \<open>open\<close>: a database created by \<open>sqlite3_open\<close> has the text encoding UTF-8 and one
  created by \<open>sqlite3_open16\<close> UTF-16; a database that exists keeps its encoding.
  When the file cannot be opened, \<open>open\<close> closes the connection and returns 1 with
  \<open>m_db\<close> still pointing to it: there is no object to go on with (\<open>None\<close>).
\<close>

definition open_db :: "TskDbSqlite \<Rightarrow> at_path \<Rightarrow> int \<times> TskDbSqlite option" where
  "open_db db found =
     (if m_utf8 db then
        (case found of
           Unopenable \<Rightarrow> (1, None)
         | NoFile draws \<Rightarrow> (0, Some (db\<lparr>m_db := Some (empty_database UTF8 draws)\<rparr>))
         | Database s \<Rightarrow> (0, Some (db\<lparr>m_db := Some s\<rparr>)))
      else
        (case found of
           Unopenable \<Rightarrow> (1, None)
         | NoFile draws \<Rightarrow> (0, Some (db\<lparr>m_db := Some (empty_database UTF16 draws)\<rparr>))
         | Database s \<Rightarrow> (0, Some (db\<lparr>m_db := Some s\<rparr>))))"

definition attempt :: "int \<Rightarrow> int \<Rightarrow> int" where
  "attempt resultCode expectedResultCode = (if resultCode \<noteq> expectedResultCode then 1 else 0)"

text \<open>
  \<open>attempt_exec\<close> after \<open>snprintf (buf, 1024, ...)\<close>: \<open>sql\<close> is the complete formatted
  text and \<open>run\<close> what the engine does with that text. A text of 1024 characters or
  more reaches the engine cut to 1023 characters; every statement of this file ends
  with its closing parenthesis, so the cut text is incomplete and the engine refuses it.
\<close>

definition attempt_exec ::
  "TskDbSqlite \<Rightarrow> string \<Rightarrow> (sqlite3 \<Rightarrow> sqlite3 option) \<Rightarrow> int \<times> TskDbSqlite" where
  "attempt_exec db sql run =
     (case m_db db of
        None \<Rightarrow> (1, db)
      | Some s \<Rightarrow>
          if 1024 \<le> length sql then (1, db)
          else (case run s of
                  None \<Rightarrow> (1, db)
                | Some s' \<Rightarrow> (0, db\<lparr>m_db := Some s'\<rparr>)))"

text \<open>
  \<open>initialize\<close>: the pragma, the table \<open>tsk_db_info\<close> and its one row, the ten tables
  that always exist, the layout table with \<open>m_blkMapFlag\<close>, and the index. A
  \<open>CREATE TABLE\<close> fails when the table exists already. The ten \<open>CREATE TABLE\<close>
  statements chained by \<open>||\<close> are constant texts far shorter than the buffer; the
  model runs them as one step under the text of the first. \<open>TSK_VERSION_NUM\<close>, the
  number of the release, comes from \<open>tsk_base.h\<close>, which is not among the sources:
  the text of the \<open>INSERT\<close> stands with the name of the macro where the code prints
  its digits (an \<open>int\<close> prints in at most 11 characters, fewer than the name has),
  and the row is kept without that column.
\<close>

definition TSK_SCHEMA_VER :: int where "TSK_SCHEMA_VER = 2"

definition pragma_synchronous :: "sqlite3 \<Rightarrow> sqlite3 option" where
  "pragma_synchronous s = Some s"

definition create_db_info :: "sqlite3 \<Rightarrow> sqlite3 option" where
  "create_db_info s =
     (case tsk_db_info s of
        Some _ \<Rightarrow> None
      | None \<Rightarrow> Some (s\<lparr>tsk_db_info := Some []\<rparr>))"

definition insert_db_info :: "int \<Rightarrow> sqlite3 \<Rightarrow> sqlite3 option" where
  "insert_db_info row s =
     (case tsk_db_info s of
        None \<Rightarrow> None
      | Some rows \<Rightarrow>
          Some (s\<lparr>tsk_db_info := Some (rows @ [row]),
                   last_insert_rowid := int (length rows) + 1\<rparr>))"

definition create_tables :: "sqlite3 \<Rightarrow> sqlite3 option" where
  "create_tables s =
     (if has_tables s then None
      else Some (s\<lparr>has_tables := True, tsk_objects := [], tsk_image_info := [],
                    tsk_vs_info := [], tsk_vs_parts := [], tsk_fs_info := [],
                    tsk_files := []\<rparr>))"

definition create_file_layout :: "sqlite3 \<Rightarrow> sqlite3 option" where
  "create_file_layout s =
     (case tsk_file_layout s of
        Some _ \<Rightarrow> None
      | None \<Rightarrow> Some (s\<lparr>tsk_file_layout := Some []\<rparr>))"

text \<open>\<open>CREATE INDEX parObjId ON tsk_objects(par_obj_id)\<close>, on the table just created.\<close>

definition create_index :: "sqlite3 \<Rightarrow> sqlite3 option" where
  "create_index s = (if has_tables s then Some s else None)"

definition createIndexes :: "TskDbSqlite \<Rightarrow> int \<times> TskDbSqlite" where
  "createIndexes db =
     attempt_exec db ''CREATE INDEX parObjId ON tsk_objects(par_obj_id);'' create_index"

definition initialize :: "TskDbSqlite \<Rightarrow> int \<times> TskDbSqlite" where
  "initialize db =
     (case attempt_exec db ''PRAGMA synchronous =  OFF;'' pragma_synchronous of
        (rc0, db0) \<Rightarrow>
          if rc0 \<noteq> 0 then (1, db0)
          else
     (case attempt_exec db0
             ''CREATE TABLE tsk_db_info (schema_ver INTEGER, tsk_ver INTEGER);''
             create_db_info of
        (rc1, db1) \<Rightarrow>
          if rc1 \<noteq> 0 then (1, db1)
          else
     (case attempt_exec db1
             (''INSERT INTO tsk_db_info (schema_ver, tsk_ver) VALUES (''
                @ dec_int TSK_SCHEMA_VER @ '', TSK_VERSION_NUM);'')
             (insert_db_info TSK_SCHEMA_VER) of
        (rc2, db2) \<Rightarrow>
          if rc2 \<noteq> 0 then (1, db2)
          else
     (case attempt_exec db2
             ''CREATE TABLE tsk_objects (obj_id INTEGER PRIMARY KEY, par_obj_id INTEGER, type INTEGER);''
             create_tables of
        (rc3, db3) \<Rightarrow>
          if rc3 \<noteq> 0 then (1, db3)
          else
     (case (if m_blkMapFlag db3 then
              attempt_exec db3
                ''CREATE TABLE tsk_file_layout (fs_id INTEGER NOT NULL, byte_start INTEGER NOT NULL, byte_len INTEGER NOT NULL, obj_id);''
                create_file_layout
            else (0, db3)) of
        (rc4, db4) \<Rightarrow>
          if rc4 \<noteq> 0 then (1, db4)
          else
     (case createIndexes db4 of
        (rc5, db5) \<Rightarrow> if rc5 \<noteq> 0 then (1, db5) else (0, db5)))))))"

text \<open>\<open>setup\<close>: preparing the statement needs an open database with \<open>tsk_files\<close>.\<close>

definition setup_stmt :: "TskDbSqlite \<Rightarrow> int \<times> TskDbSqlite" where
  "setup_stmt db =
     (case m_db db of
        None \<Rightarrow> (1, db)
      | Some s \<Rightarrow>
          if has_tables s then
            (0, db\<lparr>m_selectFileIdByMetaAddr :=
                     Some \<lparr>bound1 = None, bound2 = None, steps = 0, current_row = None\<rparr>\<rparr>)
          else (1, db))"

definition cleanup :: "TskDbSqlite \<Rightarrow> int \<times> TskDbSqlite" where
  "cleanup db =
     (if m_selectFileIdByMetaAddr db \<noteq> None
      then (1, db\<lparr>m_selectFileIdByMetaAddr := None\<rparr>)
      else (1, db))"

subsection \<open>Object registry\<close>

definition addObject_sql :: "DB_OBJECT_TYPES \<Rightarrow> 64 word \<Rightarrow> string" where
  "addObject_sql type parObjId =
     ''INSERT INTO tsk_objects (obj_id, par_obj_id, type) VALUES (NULL, ''
       @ dec_int (sint parObjId) @ '', '' @ dec_int (object_type_code type) @ '');''"

text \<open>
  \<open>addObject\<close>: the result, the value assigned to \<open>objId\<close> (none on failure) and the
  new state.
\<close>

definition addObject ::
  "TskDbSqlite \<Rightarrow> DB_OBJECT_TYPES \<Rightarrow> 64 word \<Rightarrow> int \<times> int option \<times> TskDbSqlite" where
  "addObject db type parObjId =
     (case attempt_exec db (addObject_sql type parObjId)
             (insert_objects (SInt (sint parObjId)) (object_type_code type)) of
        (rc, db') \<Rightarrow>
          if rc \<noteq> 0 then (1, None, db')
          else (0, map_option last_insert_rowid (m_db db'), db'))"

subsection \<open>Records of the analysis library\<close>

text \<open>
  The fields this file reads from the structures of \<open>tsk_fs.h\<close> and \<open>tsk_vs.h\<close>.
  A null pointer is \<open>None\<close>. A C string is the list of its bytes before the
  terminator. Fields that \<open>addFile\<close> first copies into an \<open>int\<close> local are given with
  the value of that local.
\<close>

record TSK_FS_INFO =
  fsi_offset :: "64 word"
  fsi_ftype :: "32 word"
  fsi_block_size :: "32 word"
  fsi_block_count :: "64 word"
  fsi_root_inum :: "64 word"
  fsi_first_inum :: "64 word"
  fsi_last_inum :: "64 word"

record TSK_FS_NAME =
  fn_name :: string
  fn_meta_addr :: "64 word"
  fn_par_addr :: "64 word"
  fn_type :: "32 word"
  fn_flags :: "32 word"

record TSK_FS_META =
  fm_mtime :: "32 word"
  fm_atime :: "32 word"
  fm_ctime :: "32 word"
  fm_crtime :: "32 word"
  fm_size :: "64 word"
  fm_type :: "32 word"
  fm_flags :: "32 word"
  fm_mode :: "32 word"
  fm_gid :: "32 word"
  fm_uid :: "32 word"

record TSK_FS_ATTR =
  fa_type :: "32 word"
  fa_id :: "32 word"
  fa_name :: "string option"

record TSK_FS_FILE =
  f_name :: "TSK_FS_NAME option"
  f_meta :: "TSK_FS_META option"
  f_fs_info :: TSK_FS_INFO

record TSK_VS_INFO =
  vs_vstype :: "32 word"
  vs_offset :: "64 word"
  vs_block_size :: "32 word"

record TSK_VS_PART_INFO =
  vp_addr :: "32 word"
  vp_start :: "64 word"
  vp_len :: "64 word"
  vp_desc :: string
  vp_flags :: "32 word"

subsection \<open>Attribute writers\<close>

fun commas :: "string list \<Rightarrow> string" where
  "commas [] = []"
| "commas [x] = x"
| "commas (x # y # zs) = x @ '','' @ commas (y # zs)"

definition addImageInfo ::
  "TskDbSqlite \<Rightarrow> 32 word \<Rightarrow> 32 word \<Rightarrow> int \<times> int option \<times> TskDbSqlite" where
  "addImageInfo db type ssize =
     (case attempt_exec db
             (''INSERT INTO tsk_objects (obj_id, par_obj_id, type) VALUES (NULL, NULL, ''
                @ dec_int (object_type_code DB_OBJECT_TYPE_IMG) @ '');'')
             (insert_objects SNull (object_type_code DB_OBJECT_TYPE_IMG)) of
        (rc, db1) \<Rightarrow>
          if rc \<noteq> 0 then (1, None, db1)
          else
            (case map_option last_insert_rowid (m_db db1) of
               None \<Rightarrow> (1, None, db1)
             | Some objId \<Rightarrow>
                 (case attempt_exec db1
                         (''INSERT INTO tsk_image_info (obj_id, type, ssize) VALUES (''
                            @ dec_int objId @ '', '' @ dec_int (sint type) @ '', ''
                            @ dec_int (sint ssize) @ '');'')
                         (insert_image_info [SInt objId, SInt (sint type), SInt (sint ssize)]) of
                    (rc2, db2) \<Rightarrow> (rc2, Some objId, db2))))"

definition addVsInfo ::
  "TskDbSqlite \<Rightarrow> TSK_VS_INFO \<Rightarrow> 64 word \<Rightarrow> int \<times> int option \<times> TskDbSqlite" where
  "addVsInfo db vs_info parObjId =
     (case addObject db DB_OBJECT_TYPE_VS parObjId of
        (rc, Some objId, db1) \<Rightarrow>
          if rc \<noteq> 0 then (1, Some objId, db1)
          else
            (case attempt_exec db1
                    (''INSERT INTO tsk_vs_info (obj_id, vs_type, img_offset, block_size) VALUES (''
                       @ dec_int objId @ '', '' @ dec_int (sint (vs_vstype vs_info)) @ '',''
                       @ dec_nat (unat (vs_offset vs_info)) @ '',''
                       @ dec_int (sint (vs_block_size vs_info)) @ '')'')
                    (insert_vs_info
                       [SInt objId, SInt (sint (vs_vstype vs_info)),
                        sql_unsigned (unat (vs_offset vs_info)),
                        SInt (sint (vs_block_size vs_info))]) of
               (rc2, db2) \<Rightarrow> (rc2, Some objId, db2))
      | (rc, None, db1) \<Rightarrow> (1, None, db1))"

text \<open>
  Two ways in which a call leaves what this model determines: \<open>snprintf\<close> reads a name
  buffer that has no terminator, or the text handed to \<open>sqlite3_exec\<close> holds SQL that
  the code did not write.
\<close>

datatype fault = ReadPastAllocation | ForeignStatement

text \<open>
  \<open>addVolumeInfo\<close> puts the partition description between quotes as it is. In a
  description with a lone quote the literal ends at that quote and the engine parses
  the rest of the description as SQL (\<open>sqlite3_exec\<close> runs every statement of its
  text). What the engine makes of that text, the model tells in one case only: a
  description of letters, digits, spaces and quotes with an odd number of quotes,
  such as \<open>it's\<close>. Such a text has no semicolon, so it is one statement; its only
  tokens are words, numbers and literals, the tokenizer pairs its quotes from left to
  right, and the last quote of the text opens a literal that never ends: the engine
  refuses the statement and runs nothing. Every other description with a lone
  quote has the outcome \<open>ForeignStatement\<close>.
\<close>

definition odd_quotes :: "string \<Rightarrow> bool" where
  "odd_quotes s = odd (length (filter (\<lambda>c. c = quote) s))"

definition plain_text :: "string \<Rightarrow> bool" where
  "plain_text s =
     list_all
       (\<lambda>c. c = quote \<or> c = CHR '' ''
          \<or> c \<in> set ''abcdefghijklmnopqrstuvwxyzABCDEFGHIJKLMNOPQRSTUVWXYZ0123456789'')
       s"

definition addVolumeInfo_sql :: "int \<Rightarrow> TSK_VS_PART_INFO \<Rightarrow> string" where
  "addVolumeInfo_sql objId vs_part =
     ''INSERT INTO tsk_vs_parts (obj_id, addr, start, length, desc, flags)VALUES (''
       @ dec_int objId @ '', '' @ dec_nat (unat (vp_addr vs_part)) @ '',''
       @ dec_nat (unat (vp_start vs_part)) @ '',''
       @ dec_nat (unat (vp_len vs_part)) @ '','' @ [quote] @ vp_desc vs_part
       @ [quote] @ '','' @ dec_int (sint (vp_flags vs_part)) @ '')''"

definition addVolumeInfo ::
  "TskDbSqlite \<Rightarrow> TSK_VS_PART_INFO \<Rightarrow> 64 word \<Rightarrow> fault + (int \<times> int option \<times> TskDbSqlite)" where
  "addVolumeInfo db vs_part parObjId =
     (case addObject db DB_OBJECT_TYPE_VOL parObjId of
        (rc, Some objId, db1) \<Rightarrow>
          if rc \<noteq> 0 then Inr (1, Some objId, db1)
          else
            (case sql_string_body (vp_desc vs_part) of
               None \<Rightarrow>
                 if odd_quotes (vp_desc vs_part) \<and> plain_text (vp_desc vs_part)
                    \<and> length (addVolumeInfo_sql objId vs_part) < 1024
                 then (case attempt_exec db1 (addVolumeInfo_sql objId vs_part) (\<lambda>s. None) of
                         (rc2, db2) \<Rightarrow> Inr (rc2, Some objId, db2))
                 else Inl ForeignStatement
             | Some desc \<Rightarrow>
                 (case attempt_exec db1 (addVolumeInfo_sql objId vs_part)
                         (\<lambda>s. insert_vs_parts objId
                            [sql_unsigned (unat (vp_addr vs_part)),
                             sql_unsigned (unat (vp_start vs_part)),
                             sql_unsigned (unat (vp_len vs_part)),
                             text_cell (encoding s) desc,
                             SInt (sint (vp_flags vs_part))] s) of
                    (rc2, db2) \<Rightarrow> Inr (rc2, Some objId, db2)))
      | (rc, None, db1) \<Rightarrow> Inr (1, None, db1))"

definition addFsInfo ::
  "TskDbSqlite \<Rightarrow> TSK_FS_INFO \<Rightarrow> 64 word \<Rightarrow> int \<times> int option \<times> TskDbSqlite" where
  "addFsInfo db fs_info parObjId =
     (case addObject db DB_OBJECT_TYPE_FS parObjId of
        (rc, Some objId, db1) \<Rightarrow>
          if rc \<noteq> 0 then (1, Some objId, db1)
          else
            (case attempt_exec db1
                    (''INSERT INTO tsk_fs_info (obj_id, img_offset, fs_type, block_size, block_count, root_inum, first_inum, last_inum) VALUES (''
                       @ commas
                           [dec_int objId, dec_nat (unat (fsi_offset fs_info)),
                            dec_int (sint (fsi_ftype fs_info)),
                            dec_nat (unat (fsi_block_size fs_info)),
                            dec_nat (unat (fsi_block_count fs_info)),
                            dec_nat (unat (fsi_root_inum fs_info)),
                            dec_nat (unat (fsi_first_inum fs_info)),
                            dec_nat (unat (fsi_last_inum fs_info))] @ '')'')
                    (insert_fs_info objId
                       [sql_unsigned (unat (fsi_offset fs_info)),
                        SInt (sint (fsi_ftype fs_info)),
                        sql_unsigned (unat (fsi_block_size fs_info)),
                        sql_unsigned (unat (fsi_block_count fs_info)),
                        sql_unsigned (unat (fsi_root_inum fs_info)),
                        sql_unsigned (unat (fsi_first_inum fs_info)),
                        sql_unsigned (unat (fsi_last_inum fs_info))]) of
               (rc2, db2) \<Rightarrow> (rc2, Some objId, db2))
      | (rc, None, db1) \<Rightarrow> (1, None, db1))"

subsection \<open>Block layout\<close>

text \<open>
  \<open>addFsBlockInfo\<close> prints \<open>a_fsObjId\<close> (\<open>int64_t\<close>) and \<open>a_byteStart\<close> (\<open>uint64_t\<close>)
  with \<open>%lld\<close>, and \<open>a_byteLen\<close> (\<open>uint64_t\<close>) and \<open>a_fileObjId\<close> (\<open>int64_t\<close>) with
  \<open>%llu\<close>.
\<close>

definition addFsBlockInfo ::
  "TskDbSqlite \<Rightarrow> 64 word \<Rightarrow> 64 word \<Rightarrow> 64 word \<Rightarrow> 64 word \<Rightarrow> int \<times> TskDbSqlite" where
  "addFsBlockInfo db a_fsObjId a_fileObjId a_byteStart a_byteLen =
     attempt_exec db
       (''INSERT INTO tsk_file_layout (fs_id, byte_start, byte_len, obj_id) VALUES (''
          @ dec_int (sint a_fsObjId) @ '', '' @ dec_int (sint a_byteStart) @ '', ''
          @ dec_nat (unat a_byteLen) @ '', '' @ dec_nat (unat a_fileObjId) @ '')'')
       (insert_file_layout
          \<lparr>l_fs_id = SInt (sint a_fsObjId), l_byte_start = SInt (sint a_byteStart),
           l_byte_len = sql_unsigned (unat a_byteLen),
           l_obj_id = sql_unsigned (unat a_fileObjId)\<rparr>)"

subsection \<open>File ingestion\<close>

text \<open>
  \<open>tsk_malloc\<close> is not among the sources; it returns zero-filled memory, which the
  code relies on for the terminator of the name it builds. The model's heap never runs
  out.
\<close>

definition tsk_malloc :: "nat \<Rightarrow> string option" where
  "tsk_malloc n = Some (replicate n NUL)"

text \<open>
  The loop that \<open>addFile\<close> runs over the file name and over the attribute name, and
  \<open>addCarvedFileInfo\<close> over the file name:

  \<^verbatim>\<open>for (i = 0; i < len && j < nlen; i++) {
    if (src[i] == '\'') { name[j++] = '\''; name[j++] = '\''; }
    else { name[j++] = src[i]; } }\<close>

  The first argument holds the bytes \<open>src[i], ..., src[len - 1]\<close> still to copy; the
  result is the buffer and \<open>j\<close> after the loop.
\<close>

fun copy_escaped :: "string \<Rightarrow> nat \<Rightarrow> string \<times> nat \<Rightarrow> string \<times> nat" where
  "copy_escaped [] nlen (name, j) = (name, j)"
| "copy_escaped (c # cs) nlen (name, j) =
     (if j < nlen then
        (if c = quote then copy_escaped cs nlen (name[j := quote, Suc j := quote], j + 2)
         else copy_escaped cs nlen (name[j := c], Suc j))
      else (name, j))"

text \<open>
  Reading the buffer as a C string (\<open>%s\<close>): the bytes before the first \<open>NUL\<close>. A
  buffer without a \<open>NUL\<close> makes \<open>snprintf\<close> read past the allocation
  (\<open>ReadPastAllocation\<close>).
\<close>

definition c_str :: "string \<Rightarrow> string option" where
  "c_str buf = (if NUL \<in> set buf then Some (takeWhile (\<lambda>c. c \<noteq> NUL) buf) else None)"

definition files_insert_head :: string where
  "files_insert_head =
     ''INSERT INTO tsk_files (fs_obj_id, obj_id, type, attr_type, attr_id, name, meta_addr, dir_type, meta_type, dir_flags, meta_flags, size, crtime, ctime, atime, mtime, mode, gid, uid) VALUES (''"

definition no_meta :: TSK_FS_META where
  "no_meta =
     \<lparr>fm_mtime = 0, fm_atime = 0, fm_ctime = 0, fm_crtime = 0, fm_size = 0, fm_type = 0,
      fm_flags = 0, fm_mode = 0, fm_gid = 0, fm_uid = 0\<rparr>"

text \<open>
  The locals of \<open>addFile\<close>: the metadata fields stay 0 without \<open>fs_file->meta\<close>, and
  \<open>type\<close> and \<open>idx\<close> stay 0 without \<open>fs_attr\<close>.
\<close>

definition addFile_meta :: "TSK_FS_FILE \<Rightarrow> TSK_FS_META" where
  "addFile_meta fs_file = (case f_meta fs_file of None \<Rightarrow> no_meta | Some m \<Rightarrow> m)"

definition addFile_type :: "TSK_FS_ATTR option \<Rightarrow> 32 word" where
  "addFile_type fs_attr = (case fs_attr of None \<Rightarrow> 0 | Some a \<Rightarrow> fa_type a)"

definition addFile_idx :: "TSK_FS_ATTR option \<Rightarrow> 32 word" where
  "addFile_idx fs_attr = (case fs_attr of None \<Rightarrow> 0 | Some a \<Rightarrow> fa_id a)"

text \<open>\<open>attr_nlen\<close> as \<open>addFile\<close> computes it, and the bytes \<open>fs_attr->name[0 .. attr_nlen - 1]\<close>.\<close>

definition attr_nlen_of :: "TSK_FS_ATTR option \<Rightarrow> nat" where
  "attr_nlen_of fs_attr =
     (case fs_attr of
        None \<Rightarrow> 0
      | Some a \<Rightarrow>
          (case fa_name a of
             None \<Rightarrow> 0
           | Some an \<Rightarrow>
               if fa_type a \<noteq> TSK_FS_ATTR_TYPE_NTFS_IDXROOT \<or> an \<noteq> ''$I30''
               then length an else 0))"

definition attr_chars :: "TSK_FS_ATTR option \<Rightarrow> string" where
  "attr_chars fs_attr =
     (case fs_attr of
        None \<Rightarrow> []
      | Some a \<Rightarrow> (case fa_name a of None \<Rightarrow> [] | Some an \<Rightarrow> take (attr_nlen_of fs_attr) an))"

text \<open>The name buffer of \<open>addFile\<close> after both loops.\<close>

definition addFile_name :: "string \<Rightarrow> TSK_FS_ATTR option \<Rightarrow> string option" where
  "addFile_name fname fs_attr =
     (let attr_nlen = attr_nlen_of fs_attr;
          len = length fname;
          nlen = 2 * (len + attr_nlen)
      in case tsk_malloc (nlen + 1) of
           None \<Rightarrow> None
         | Some name0 \<Rightarrow>
             (case copy_escaped fname nlen (name0, 0) of
                (name1, j1) \<Rightarrow>
                  if attr_nlen > 0
                  then Some (fst (copy_escaped (attr_chars fs_attr) nlen
                                    (name1[j1 := CHR '':''], Suc j1)))
                  else Some name1))"

definition addFile_sql ::
  "64 word \<Rightarrow> int \<Rightarrow> 32 word \<Rightarrow> 32 word \<Rightarrow> string \<Rightarrow> TSK_FS_NAME \<Rightarrow> TSK_FS_META \<Rightarrow> string" where
  "addFile_sql fsObjId objId type idx name nm meta =
     files_insert_head
     @ commas
         [dec_int (sint fsObjId), dec_int objId, dec_int DB_FILES_TYPE_FS,
          dec_int (sint type), dec_int (sint idx), [quote] @ name @ [quote],
          dec_nat (unat (fn_meta_addr nm)),
          dec_int (sint (fn_type nm)), dec_int (sint (fm_type meta)),
          dec_int (sint (fn_flags nm)), dec_int (sint (fm_flags meta)),
          dec_nat (unat (fm_size meta)),
          dec_int (sint (fm_crtime meta)), dec_int (sint (fm_ctime meta)),
          dec_int (sint (fm_atime meta)), dec_int (sint (fm_mtime meta)),
          dec_int (sint (fm_mode meta)), dec_int (sint (fm_gid meta)),
          dec_int (sint (fm_uid meta))]
     @ '')''"

definition addFile_row ::
  "64 word \<Rightarrow> int \<Rightarrow> 32 word \<Rightarrow> 32 word \<Rightarrow> sqlval \<Rightarrow> TSK_FS_NAME \<Rightarrow> TSK_FS_META \<Rightarrow> file_row" where
  "addFile_row fsObjId objId type idx name nm meta =
     \<lparr>fr_fs_obj_id = SInt (sint fsObjId), fr_obj_id = objId,
      fr_type = SInt DB_FILES_TYPE_FS,
      fr_attr_type = SInt (sint type), fr_attr_id = SInt (sint idx), fr_name = name,
      fr_meta_addr = sql_unsigned (unat (fn_meta_addr nm)),
      fr_dir_type = SInt (sint (fn_type nm)), fr_meta_type = SInt (sint (fm_type meta)),
      fr_dir_flags = SInt (sint (fn_flags nm)), fr_meta_flags = SInt (sint (fm_flags meta)),
      fr_size = sql_unsigned (unat (fm_size meta)),
      fr_crtime = SInt (sint (fm_crtime meta)), fr_ctime = SInt (sint (fm_ctime meta)),
      fr_atime = SInt (sint (fm_atime meta)), fr_mtime = SInt (sint (fm_mtime meta)),
      fr_mode = SInt (sint (fm_mode meta)), fr_gid = SInt (sint (fm_gid meta)),
      fr_uid = SInt (sint (fm_uid meta))\<rparr>"

text \<open>
  The engine's part of an \<open>INSERT INTO tsk_files\<close> whose name literal has the body
  \<open>name\<close>: the literal is decoded, stored in the text encoding of the database, and
  the row built from it is inserted.
\<close>

definition exec_insert_files :: "string \<Rightarrow> (sqlval \<Rightarrow> file_row) \<Rightarrow> sqlite3 \<Rightarrow> sqlite3 option" where
  "exec_insert_files name row s =
     (case sql_string_body name of
        None \<Rightarrow> None
      | Some decoded \<Rightarrow> insert_files (row (text_cell (encoding s) decoded)) s)"

definition addFile ::
  "TskDbSqlite \<Rightarrow> TSK_FS_FILE \<Rightarrow> TSK_FS_ATTR option \<Rightarrow> string \<Rightarrow> 64 word \<Rightarrow> 64 word
     \<Rightarrow> fault + (int \<times> int option \<times> TskDbSqlite)" where
  "addFile db fs_file fs_attr path fsObjId parObjId =
     (case f_name fs_file of
        None \<Rightarrow> Inr (0, None, db)
      | Some nm \<Rightarrow>
         (let meta = addFile_meta fs_file;
              type = addFile_type fs_attr;
              idx = addFile_idx fs_attr
          in (case addFile_name (fn_name nm) fs_attr of
               None \<Rightarrow> Inr (1, None, db)
             | Some name_buf \<Rightarrow>
                 (case addObject db DB_OBJECT_TYPE_FILE parObjId of
                    (rc, None, db1) \<Rightarrow> Inr (1, None, db1)
                  | (rc, Some objId, db1) \<Rightarrow>
                      if rc \<noteq> 0 then Inr (1, Some objId, db1)
                      else
                        (case c_str name_buf of
                           None \<Rightarrow> Inl ReadPastAllocation
                         | Some name \<Rightarrow>
                             (case attempt_exec db1
                                     (addFile_sql fsObjId objId type idx name nm meta)
                                     (exec_insert_files name
                                        (\<lambda>n. addFile_row fsObjId objId type idx n nm meta)) of
                                (rc2, db2) \<Rightarrow>
                                  if rc2 \<noteq> 0 then Inr (1, Some objId, db2)
                                  else Inr (0, Some objId, db2)))))))"

text \<open>
  \<open>addFsFile\<close>: the parent is the file system for the root directory, and otherwise
  the \<open>obj_id\<close> of the first row the prepared statement finds for the parent address
  \<open>par_addr\<close> in this file system. The chain of \<open>||\<close> stops at the first call that
  \<open>attempt\<close> reports as failed.
\<close>

definition addFsFile ::
  "TskDbSqlite \<Rightarrow> TSK_FS_FILE \<Rightarrow> TSK_FS_ATTR option \<Rightarrow> string \<Rightarrow> 64 word
     \<Rightarrow> fault + (int \<times> int option \<times> TskDbSqlite)" where
  "addFsFile db fs_file fs_attr path fsObjId =
     (case f_name fs_file of
        None \<Rightarrow> Inr (0, None, db)
      | Some nm \<Rightarrow>
          if fsi_root_inum (f_fs_info fs_file) = fn_meta_addr nm
          then addFile db fs_file fs_attr path fsObjId fsObjId
          else
            (case sqlite3_reset (m_selectFileIdByMetaAddr db) of
               (r1, st1) \<Rightarrow>
                 if attempt r1 SQLITE_OK \<noteq> 0
                 then Inr (1, None, db\<lparr>m_selectFileIdByMetaAddr := st1\<rparr>)
                 else
                   (case sqlite3_bind_int64 st1 1 (fn_par_addr nm) of
                      (r2, st2) \<Rightarrow>
                        if attempt r2 SQLITE_OK \<noteq> 0
                        then Inr (1, None, db\<lparr>m_selectFileIdByMetaAddr := st2\<rparr>)
                        else
                          (case sqlite3_bind_int64 st2 2 fsObjId of
                             (r3, st3) \<Rightarrow>
                               if attempt r3 SQLITE_OK \<noteq> 0
                               then Inr (1, None, db\<lparr>m_selectFileIdByMetaAddr := st3\<rparr>)
                               else
                                 (case sqlite3_step (m_db db) st3 of
                                    (r4, st4) \<Rightarrow>
                                      if attempt r4 SQLITE_ROW \<noteq> 0
                                      then Inr (1, None, db\<lparr>m_selectFileIdByMetaAddr := st4\<rparr>)
                                      else addFile (db\<lparr>m_selectFileIdByMetaAddr := st4\<rparr>)
                                             fs_file fs_attr path fsObjId
                                             (sqlite3_column_int64 st4))))))"

definition addCarved_sql :: "32 word \<Rightarrow> int \<Rightarrow> string \<Rightarrow> 64 word \<Rightarrow> string" where
  "addCarved_sql fsObjId objId name size' =
     files_insert_head
     @ commas
         [dec_int (sint fsObjId), dec_int objId, dec_int DB_FILES_TYPE_CARVED,
          ''NULL'', ''NULL'', [quote] @ name @ [quote], ''NULL'',
          dec_int TSK_FS_NAME_TYPE_REG, dec_int TSK_FS_META_TYPE_REG,
          dec_int TSK_FS_NAME_FLAG_UNALLOC, dec_int TSK_FS_NAME_FLAG_UNALLOC,
          dec_nat (unat size'),
          ''NULL'', ''NULL'', ''NULL'', ''NULL'', ''NULL'', ''NULL'', ''NULL'']
     @ '')''"

definition addCarved_row :: "32 word \<Rightarrow> int \<Rightarrow> sqlval \<Rightarrow> 64 word \<Rightarrow> file_row" where
  "addCarved_row fsObjId objId name size' =
     \<lparr>fr_fs_obj_id = SInt (sint fsObjId), fr_obj_id = objId,
      fr_type = SInt DB_FILES_TYPE_CARVED,
      fr_attr_type = SNull, fr_attr_id = SNull, fr_name = name, fr_meta_addr = SNull,
      fr_dir_type = SInt TSK_FS_NAME_TYPE_REG, fr_meta_type = SInt TSK_FS_META_TYPE_REG,
      fr_dir_flags = SInt TSK_FS_NAME_FLAG_UNALLOC,
      fr_meta_flags = SInt TSK_FS_NAME_FLAG_UNALLOC,
      fr_size = sql_unsigned (unat size'),
      fr_crtime = SNull, fr_ctime = SNull, fr_atime = SNull, fr_mtime = SNull,
      fr_mode = SNull, fr_gid = SNull, fr_uid = SNull\<rparr>"

text \<open>The name buffer of \<open>addCarvedFileInfo\<close> after its loop.\<close>

definition addCarved_name :: "string \<Rightarrow> string option" where
  "addCarved_name fileName =
     (let len = length fileName; nlen = 2 * len
      in case tsk_malloc (nlen + 1) of
           None \<Rightarrow> None
         | Some name0 \<Rightarrow> Some (fst (copy_escaped fileName nlen (name0, 0))))"

text \<open>
  \<open>addCarvedFileInfo\<close> takes the file system's object id as an \<open>int\<close> and passes it
  to \<open>addObject\<close> as the parent (converted to \<open>int64_t\<close>).
\<close>

definition addCarvedFileInfo ::
  "TskDbSqlite \<Rightarrow> 32 word \<Rightarrow> string \<Rightarrow> 64 word \<Rightarrow> fault + (int \<times> int option \<times> TskDbSqlite)" where
  "addCarvedFileInfo db fsObjId fileName size' =
     (case addCarved_name fileName of
        None \<Rightarrow> Inr (1, None, db)
      | Some name_buf \<Rightarrow>
          (case addObject db DB_OBJECT_TYPE_FILE (scast fsObjId) of
             (rc, None, db1) \<Rightarrow> Inr (1, None, db1)
           | (rc, Some objId, db1) \<Rightarrow>
               if rc \<noteq> 0 then Inr (1, Some objId, db1)
               else
                 (case c_str name_buf of
                    None \<Rightarrow> Inl ReadPastAllocation
                  | Some name \<Rightarrow>
                      (case attempt_exec db1 (addCarved_sql fsObjId objId name size')
                              (exec_insert_files name
                                 (\<lambda>n. addCarved_row fsObjId objId n size')) of
                         (rc2, db2) \<Rightarrow>
                           if rc2 \<noteq> 0 then Inr (1, Some objId, db2)
                           else Inr (0, Some objId, db2)))))"

section \<open>Notions used in the statements\<close>

text \<open>
  A session as the class comment prescribes it: constructed, opened, initialized, and
  set up. When the file cannot be opened the caller has no session; \<open>session_on\<close>
  then gives the object back as it was constructed, a case the sessions below, which
  are on new files, never meet.
\<close>

definition session_on :: "TskDbSqlite \<Rightarrow> at_path \<Rightarrow> TskDbSqlite" where
  "session_on db found =
     (case open_db db found of
        (_, Some db1) \<Rightarrow> snd (setup_stmt (snd (initialize db1)))
      | (_, None) \<Rightarrow> db)"

text \<open>
  The sessions of the examples are on a new file. Their random generator yields 0 at
  every draw; it is never asked, as the examples stay far from the largest rowid.
\<close>

definition no_draws :: "int list \<Rightarrow> nat \<Rightarrow> int" where
  "no_draws ids k = 0"

definition fresh_session :: "bool \<Rightarrow> TskDbSqlite" where
  "fresh_session a_blkMapFlag = session_on (TskDbSqlite_new a_blkMapFlag) (NoFile no_draws)"

definition fresh_session_wide :: "bool \<Rightarrow> TskDbSqlite" where
  "fresh_session_wide a_blkMapFlag =
     session_on (TskDbSqlite_new_wide a_blkMapFlag) (NoFile no_draws)"

text \<open>A text with every quote doubled and every other byte kept.\<close>

definition doubled_quotes :: "string \<Rightarrow> string" where
  "doubled_quotes s = concat (map (\<lambda>c. if c = quote then [quote, quote] else [c]) s)"

text \<open>What \<open>addFile\<close> appends to the file name: a colon and the stream name it counted.\<close>

definition display_suffix :: "TSK_FS_ATTR option \<Rightarrow> string" where
  "display_suffix fs_attr =
     (if 0 < attr_nlen_of fs_attr then CHR '':'' # attr_chars fs_attr else [])"

definition all_quotes :: "string \<Rightarrow> bool" where
  "all_quotes s = list_all (\<lambda>c. c = quote) s"

definition example_vs :: TSK_VS_INFO where
  "example_vs = \<lparr>vs_vstype = 1, vs_offset = 0, vs_block_size = 512\<rparr>"

definition example_part :: TSK_VS_PART_INFO where
  "example_part =
     \<lparr>vp_addr = 2, vp_start = 2048, vp_len = 204800, vp_desc = ''NTFS (0x07)'', vp_flags = 1\<rparr>"

definition example_fs :: TSK_FS_INFO where
  "example_fs =
     \<lparr>fsi_offset = 1048576, fsi_ftype = 1, fsi_block_size = 4096, fsi_block_count = 25600,
      fsi_root_inum = 5, fsi_first_inum = 0, fsi_last_inum = 1000\<rparr>"

definition example_root :: TSK_FS_FILE where
  "example_root =
     \<lparr>f_name = Some \<lparr>fn_name = ''.'', fn_meta_addr = 5, fn_par_addr = 5, fn_type = 3,
                      fn_flags = 1\<rparr>,
      f_meta = None, f_fs_info = example_fs\<rparr>"

definition example_child :: TSK_FS_FILE where
  "example_child =
     \<lparr>f_name = Some \<lparr>fn_name = ''report.docx'', fn_meta_addr = 64, fn_par_addr = 5,
                      fn_type = 5, fn_flags = 1\<rparr>,
      f_meta = None, f_fs_info = example_fs\<rparr>"

definition example_orphan :: TSK_FS_FILE where
  "example_orphan =
     \<lparr>f_name = Some \<lparr>fn_name = ''lost.txt'', fn_meta_addr = 70, fn_par_addr = 77,
                      fn_type = 5, fn_flags = 1\<rparr>,
      f_meta = None, f_fs_info = example_fs\<rparr>"

definition example_unnamed :: TSK_FS_FILE where
  "example_unnamed = \<lparr>f_name = None, f_meta = None, f_fs_info = example_fs\<rparr>"

text \<open>Image, volume system, volume and file system allocated in a fresh session.\<close>

definition example_session :: TskDbSqlite where
  "example_session =
     (case addImageInfo (fresh_session False) 0 512 of
        (_, _, db1) \<Rightarrow>
          (case addVsInfo db1 example_vs 1 of
             (_, _, db2) \<Rightarrow>
               (case addVolumeInfo db2 example_part 2 of
                  Inr (_, _, db3) \<Rightarrow>
                    (case addFsInfo db3 example_fs 3 of (_, _, db4) \<Rightarrow> db4)
                | Inl _ \<Rightarrow> db2)))"

definition example_tables :: sqlite3 where
  "example_tables =
     \<lparr>encoding = UTF8, rowid_draws = no_draws,
      tsk_db_info = Some [TSK_SCHEMA_VER], has_tables = True,
      tsk_objects =
        [\<lparr>o_obj_id = 1, o_par_obj_id = SNull, o_type = 0\<rparr>,
         \<lparr>o_obj_id = 2, o_par_obj_id = SInt 1, o_type = 1\<rparr>,
         \<lparr>o_obj_id = 3, o_par_obj_id = SInt 2, o_type = 2\<rparr>,
         \<lparr>o_obj_id = 4, o_par_obj_id = SInt 3, o_type = 3\<rparr>],
      tsk_image_info = [[SInt 1, SInt 0, SInt 512]],
      tsk_vs_info = [[SInt 2, SInt 1, SInt 0, SInt 512]],
      tsk_vs_parts = [[SInt 3, SInt 2, SInt 2048, SInt 204800, SText ''NTFS (0x07)'', SInt 1]],
      tsk_fs_info =
        [[SInt 4, SInt 1048576, SInt 1, SInt 4096, SInt 25600, SInt 5, SInt 0, SInt 1000]],
      tsk_files = [], tsk_file_layout = None, last_insert_rowid = 4\<rparr>"

definition example_root_row :: file_row where
  "example_root_row =
     \<lparr>fr_fs_obj_id = SInt 4, fr_obj_id = 5, fr_type = SInt DB_FILES_TYPE_FS,
      fr_attr_type = SInt 0, fr_attr_id = SInt 0, fr_name = SText ''.'',
      fr_meta_addr = SInt 5, fr_dir_type = SInt 3, fr_meta_type = SInt 0,
      fr_dir_flags = SInt 1, fr_meta_flags = SInt 0, fr_size = SInt 0,
      fr_crtime = SInt 0, fr_ctime = SInt 0, fr_atime = SInt 0, fr_mtime = SInt 0,
      fr_mode = SInt 0, fr_gid = SInt 0, fr_uid = SInt 0\<rparr>"

text \<open>The example session after the root directory of file system 4 was ingested.\<close>

definition example_session_root :: TskDbSqlite where
  "example_session_root =
     example_session\<lparr>m_db := Some (example_tables\<lparr>tsk_objects := tsk_objects example_tables @
             [\<lparr>o_obj_id = 5, o_par_obj_id = SInt 4, o_type = 4\<rparr>],
           tsk_files := [example_root_row], last_insert_rowid := 1\<rparr>)\<rparr>"

definition example_quote_file :: TSK_FS_FILE where
  "example_quote_file =
     \<lparr>f_name = Some \<lparr>fn_name = [quote], fn_meta_addr = 65, fn_par_addr = 5, fn_type = 5,
                      fn_flags = 1\<rparr>,
      f_meta = None, f_fs_info = example_fs\<rparr>"

definition example_quote_stream :: TSK_FS_ATTR where
  "example_quote_stream = \<lparr>fa_type = 128, fa_id = 3, fa_name = Some [quote]\<rparr>"

definition example_quoted_name :: string where
  "example_quoted_name = ''it'' @ [quote] @ ''s''"

definition example_stream :: TSK_FS_ATTR where
  "example_stream = \<lparr>fa_type = 128, fa_id = 1, fa_name = Some (''user'' @ [quote] @ ''s'')\<rparr>"

definition example_quoted_file :: TSK_FS_FILE where
  "example_quoted_file =
     \<lparr>f_name = Some \<lparr>fn_name = example_quoted_name, fn_meta_addr = 66, fn_par_addr = 5,
                      fn_type = 5, fn_flags = 1\<rparr>,
      f_meta = None, f_fs_info = example_fs\<rparr>"

text \<open>
  The calls that allocate an object id, and a session as a list of such calls. A call
  that ends in a \<open>fault\<close> ends the run: what follows is not determined.
\<close>

datatype allocation =
    ImageInfo "32 word" "32 word"
  | VsInfo TSK_VS_INFO "64 word"
  | VolumeInfo TSK_VS_PART_INFO "64 word"
  | FsInfo TSK_FS_INFO "64 word"
  | FsFile TSK_FS_FILE "TSK_FS_ATTR option" string "64 word"
  | File TSK_FS_FILE "TSK_FS_ATTR option" string "64 word" "64 word"
  | CarvedFileInfo "32 word" string "64 word"

fun allocate :: "TskDbSqlite \<Rightarrow> allocation \<Rightarrow> fault + (int \<times> int option \<times> TskDbSqlite)" where
  "allocate db (ImageInfo type ssize) = Inr (addImageInfo db type ssize)"
| "allocate db (VsInfo vs_info parObjId) = Inr (addVsInfo db vs_info parObjId)"
| "allocate db (VolumeInfo vs_part parObjId) = addVolumeInfo db vs_part parObjId"
| "allocate db (FsInfo fs_info parObjId) = Inr (addFsInfo db fs_info parObjId)"
| "allocate db (FsFile fs_file fs_attr path fsObjId) = addFsFile db fs_file fs_attr path fsObjId"
| "allocate db (File fs_file fs_attr path fsObjId parObjId) =
     addFile db fs_file fs_attr path fsObjId parObjId"
| "allocate db (CarvedFileInfo fsObjId fileName size') =
     addCarvedFileInfo db fsObjId fileName size'"

text \<open>The object ids that the calls of a run assign, in the order of the calls.\<close>

fun returned_ids :: "TskDbSqlite \<Rightarrow> allocation list \<Rightarrow> int list" where
  "returned_ids db [] = []"
| "returned_ids db (a # as) =
     (case allocate db a of
        Inl _ \<Rightarrow> []
      | Inr (rc, None, db') \<Rightarrow> returned_ids db' as
      | Inr (rc, Some objId, db') \<Rightarrow> objId # returned_ids db' as)"

definition object_ids :: "TskDbSqlite \<Rightarrow> int list" where
  "object_ids db = (case m_db db of None \<Rightarrow> [] | Some s \<Rightarrow> map o_obj_id (tsk_objects s))"

text \<open>A partition whose description closes the literal and adds a statement of its own.\<close>

definition example_hostile_part :: TSK_VS_PART_INFO where
  "example_hostile_part =
     \<lparr>vp_addr = 2, vp_start = 2048, vp_len = 204800,
      vp_desc = ''x'' @ [quote] @ '',0);DELETE FROM tsk_objects;--'', vp_flags = 1\<rparr>"

text \<open>A partition whose description holds one apostrophe.\<close>

definition example_apostrophe_part :: TSK_VS_PART_INFO where
  "example_apostrophe_part =
     \<lparr>vp_addr = 2, vp_start = 2048, vp_len = 204800,
      vp_desc = ''it'' @ [quote] @ ''s'', vp_flags = 1\<rparr>"

text \<open>
  What one allocating call does to the registry: nothing when it assigns no id, and
  otherwise it assigns the next row id and appends it.
\<close>

definition allocation_step :: "TskDbSqlite \<Rightarrow> int option \<Rightarrow> TskDbSqlite \<Rightarrow> bool" where
  "allocation_step db objId db' =
     (case objId of
        None \<Rightarrow> object_ids db' = object_ids db
      | Some r \<Rightarrow>
          map_option new_obj_id (m_db db) = Some (Some r)
          \<and> object_ids db' = object_ids db @ [r])"

section \<open>Formatting lemmas\<close>

lemma dec_nat_0: "dec_nat 0 = ''0''"
  by (simp add: dec_nat.simps [of 0] digit_char_def)

lemma dec_nat_1: "dec_nat (Suc 0) = ''1''"
  by (simp add: dec_nat.simps [of "Suc 0"] digit_char_def)

lemma dec_nat_numeral:
  "dec_nat (numeral k) =
     (if (numeral k :: nat) < 10 then [digit_char (numeral k)]
      else dec_nat (numeral k div 10) @ [digit_char (numeral k mod 10)])"
  by (rule dec_nat.simps)

lemmas dec_eval = dec_nat_0 dec_nat_1 dec_nat_numeral dec_int_def digit_char_def

text \<open>A number below \<open>10^k\<close> prints with at most \<open>k\<close> digits.\<close>

lemma dec_nat_length: "n < 10 ^ k \<Longrightarrow> 0 < k \<Longrightarrow> length (dec_nat n) \<le> k"
proof (induction n arbitrary: k rule: dec_nat.induct)
  case (1 n)
  show ?case
  proof (cases "n < 10")
    case True
    with 1 show ?thesis by (simp add: dec_nat.simps [of n])
  next
    case False
    then obtain k' where k: "k = Suc k'"
      using 1(3) by (cases k) auto
    have "0 < k'"
      using False 1(2) k by (cases k') auto
    moreover have "n div 10 < 10 ^ k'"
      using 1(2) k by (simp add: less_mult_imp_div_less mult.commute)
    ultimately have "length (dec_nat (n div 10)) \<le> k'"
      using 1(1) [OF False] by blast
    with False k show ?thesis by (simp add: dec_nat.simps [of n])
  qed
qed

lemma dec_int_sint64_length: "length (dec_int (sint (w :: 64 word))) \<le> 20"
proof -
  have "- (2 ^ 63) \<le> sint w" "sint w < 2 ^ 63"
    using sint_ge [of w] sint_lt [of w] by simp_all
  then have "nat (- sint w) < 10 ^ 19" "nat (sint w) < 10 ^ 19"
    by simp_all
  then have "length (dec_nat (nat (- sint w))) \<le> 19" "length (dec_nat (nat (sint w))) \<le> 19"
    by (simp_all add: dec_nat_length)
  then show ?thesis by (simp add: dec_int_def)
qed

lemma dec_nat_unat64_length: "length (dec_nat (unat (w :: 64 word))) \<le> 20"
proof -
  have "unat w < 2 ^ 64" using unsigned_less [of w, where ?'a = nat] by simp
  then have "unat w < 10 ^ 20" by simp
  then show ?thesis by (simp add: dec_nat_length)
qed

lemma dec_type_code_length: "length (dec_int (object_type_code t)) = 1"
  by (cases t) (simp_all add: dec_eval)

lemma addObject_sql_fits: "length (addObject_sql type parObjId) < 1024"
  using dec_int_sint64_length [of parObjId]
  by (simp add: addObject_sql_def dec_type_code_length)

lemma addFsBlockInfo_sql_fits:
  "length (''INSERT INTO tsk_file_layout (fs_id, byte_start, byte_len, obj_id) VALUES (''
          @ dec_int (sint (a :: 64 word)) @ '', '' @ dec_int (sint (b :: 64 word)) @ '', ''
          @ dec_nat (unat (c :: 64 word)) @ '', '' @ dec_nat (unat (d :: 64 word)) @ '')'') < 1024"
  using dec_int_sint64_length [of a] dec_int_sint64_length [of b]
    dec_nat_unat64_length [of c] dec_nat_unat64_length [of d]
  by simp

lemma sint64_of_small: "unat (w :: 64 word) < 2 ^ 63 \<Longrightarrow> sint w = int (unat w)"
proof -
  assume "unat w < 2 ^ 63"
  then have "int (unat w) < int (2 ^ 63)" by (simp only: of_nat_less_iff)
  then have u: "uint w < 2 ^ 63" by simp
  have "0 \<le> uint w" by simp
  with u have "- (2 ^ 63) \<le> uint w" "uint w < 2 ^ 63" by linarith+
  then have "signed_take_bit 63 (uint w) = uint w"
    by (rule signed_take_bit_int_eq_self)
  then show ?thesis by (simp add: sint_uint)
qed

section \<open>The name buffer\<close>

lemma doubled_quotes_Nil [simp]: "doubled_quotes [] = []"
  by (simp add: doubled_quotes_def)

lemma doubled_quotes_Cons [simp]:
  "doubled_quotes (c # cs) = (if c = quote then [quote, quote] else [c]) @ doubled_quotes cs"
  by (simp add: doubled_quotes_def)

lemma doubled_quotes_append [simp]:
  "doubled_quotes (xs @ ys) = doubled_quotes xs @ doubled_quotes ys"
  by (simp add: doubled_quotes_def)

lemma doubled_quotes_plain: "quote \<notin> set s \<Longrightarrow> doubled_quotes s = s"
  by (induction s) auto

lemma doubled_quotes_all_quotes:
  "doubled_quotes (replicate n quote) = replicate (2 * n) quote"
  by (induction n) simp_all

lemma sql_string_body_doubled: "sql_string_body (doubled_quotes s) = Some s"
  by (induction s) simp_all

lemma length_doubled_quotes:
  "length (doubled_quotes s) = length s + length (filter (\<lambda>c. c = quote) s)"
  by (induction s) simp_all

lemma length_doubled_quotes_le: "length (doubled_quotes s) \<le> 2 * length s"
  using length_filter_le [of "\<lambda>c. c = quote" s] by (simp add: length_doubled_quotes)

lemma length_doubled_quotes_ge: "length s \<le> length (doubled_quotes s)"
  by (simp add: length_doubled_quotes)

lemma set_doubled_quotes [simp]: "set (doubled_quotes s) = set s"
  by (induction s) auto

lemma length_doubled_all_quotes:
  "length (doubled_quotes s) = 2 * length s \<longleftrightarrow> all_quotes s"
proof (induction s)
  case Nil
  then show ?case by (simp add: all_quotes_def)
next
  case (Cons c cs)
  have "length (doubled_quotes cs) \<le> 2 * length cs" by (rule length_doubled_quotes_le)
  with Cons show ?case by (auto simp: all_quotes_def)
qed

lemma take_Suc_update: "j < length buf \<Longrightarrow> take (Suc j) (buf[j := c]) = take j buf @ [c]"
  by (simp add: take_Suc_conv_app_nth)

lemma copy_escaped_result:
  "j + 2 * length src \<le> nlen + 1 \<Longrightarrow> nlen < length buf \<Longrightarrow>
   copy_escaped src nlen (buf, j) =
     (take j buf @ doubled_quotes src @ drop (j + length (doubled_quotes src)) buf,
      j + length (doubled_quotes src))"
proof (induction src arbitrary: buf j)
  case Nil
  then show ?case by simp
next
  case (Cons c cs)
  from Cons.prems have j: "j < nlen" "Suc j < length buf" "j < length buf" by simp_all
  show ?case
  proof (cases "c = quote")
    case True
    let ?b = "buf[j := quote, Suc j := quote]"
    have t: "take (j + 2) ?b = take j buf @ [quote, quote]"
      using j by (simp add: take_Suc_conv_app_nth nth_list_update)
    have d: "drop (j + 2 + k) ?b = drop (j + 2 + k) buf" for k
      by (simp add: drop_update_cancel)
    have "copy_escaped cs nlen (?b, j + 2) =
            (take (j + 2) ?b @ doubled_quotes cs @ drop (j + 2 + length (doubled_quotes cs)) ?b,
             j + 2 + length (doubled_quotes cs))"
      using Cons.prems by (intro Cons.IH) simp_all
    with True j t d show ?thesis by (simp add: add.assoc)
  next
    case False
    let ?b = "buf[j := c]"
    have t: "take (Suc j) ?b = take j buf @ [c]"
      using j by (simp add: take_Suc_update)
    have d: "drop (Suc j + k) ?b = drop (Suc j + k) buf" for k
      by (simp add: drop_update_cancel)
    have "copy_escaped cs nlen (?b, Suc j) =
            (take (Suc j) ?b @ doubled_quotes cs @ drop (Suc j + length (doubled_quotes cs)) ?b,
             Suc j + length (doubled_quotes cs))"
      using Cons.prems by (intro Cons.IH) simp_all
    with False j t d show ?thesis by simp
  qed
qed

lemma copy_escaped_fresh:
  "j + 2 * length src \<le> nlen + 1 \<Longrightarrow> j \<le> length pre \<Longrightarrow> length pre = j \<Longrightarrow>
   copy_escaped src nlen (pre @ replicate (nlen + 1 - j) NUL, j) =
     (pre @ doubled_quotes src @ replicate (nlen + 1 - j - length (doubled_quotes src)) NUL,
      j + length (doubled_quotes src))"
proof -
  assume a: "j + 2 * length src \<le> nlen + 1" and l: "length pre = j"
  have j: "j \<le> nlen + 1" using a by simp
  have "copy_escaped src nlen (pre @ replicate (nlen + 1 - j) NUL, j) =
     (take j (pre @ replicate (nlen + 1 - j) NUL) @ doubled_quotes src
        @ drop (j + length (doubled_quotes src)) (pre @ replicate (nlen + 1 - j) NUL),
      j + length (doubled_quotes src))"
    using a l j by (intro copy_escaped_result) simp_all
  moreover have "take j (pre @ replicate (nlen + 1 - j) NUL) = pre"
    using l by simp
  moreover have "drop (j + length (doubled_quotes src)) (pre @ replicate (nlen + 1 - j) NUL)
      = replicate (nlen + 1 - j - length (doubled_quotes src)) NUL"
    using l by (simp only: drop_append drop_replicate) simp
  ultimately show ?thesis by (simp only:)
qed

lemma c_str_padded:
  "NUL \<notin> set content \<Longrightarrow> 0 < k \<Longrightarrow> c_str (content @ replicate k NUL) = Some content"
proof -
  assume a: "NUL \<notin> set content" and k: "0 < k"
  from k obtain k' where k': "k = Suc k'" by (cases k) auto
  have "takeWhile (\<lambda>c. c \<noteq> NUL) (content @ NUL # replicate k' NUL)
          = takeWhile (\<lambda>c. c \<noteq> NUL) content"
    by (rule takeWhile_tail) simp
  also have "\<dots> = content"
    using a by (auto simp: takeWhile_eq_all_conv)
  finally show ?thesis
    by (simp add: c_str_def k')
qed

lemma c_str_full: "NUL \<notin> set buf \<Longrightarrow> c_str buf = None"
  by (simp add: c_str_def)

lemma addCarved_name_eq:
  "addCarved_name fileName =
     Some (doubled_quotes fileName
           @ replicate (2 * length fileName + 1 - length (doubled_quotes fileName)) NUL)"
proof -
  have "copy_escaped fileName (2 * length fileName)
          ([] @ replicate (2 * length fileName + 1 - 0) NUL, 0) =
        ([] @ doubled_quotes fileName
          @ replicate (2 * length fileName + 1 - 0 - length (doubled_quotes fileName)) NUL,
         0 + length (doubled_quotes fileName))"
    by (rule copy_escaped_fresh) simp_all
  then have "fst (copy_escaped fileName (2 * length fileName)
          (replicate (2 * length fileName + 1) NUL, 0)) =
        doubled_quotes fileName
          @ replicate (2 * length fileName + 1 - length (doubled_quotes fileName)) NUL"
    by (simp only: append_Nil diff_zero fst_conv)
  then show ?thesis
    by (simp only: addCarved_name_def tsk_malloc_def Let_def option.case)
qed

lemma addCarved_name_c_str:
  "NUL \<notin> set fileName \<Longrightarrow>
   \<exists>buf. addCarved_name fileName = Some buf \<and> c_str buf = Some (doubled_quotes fileName)"
  using length_doubled_quotes_le [of fileName]
  by (simp add: addCarved_name_eq c_str_padded del: replicate_Suc)

lemma addCarved_name_buf:
  "\<exists>buf. addCarved_name fileName = Some buf
     \<and> c_str buf = Some (takeWhile (\<lambda>c. c \<noteq> NUL) buf)"
proof -
  have "0 < 2 * length fileName + 1 - length (doubled_quotes fileName)"
    using length_doubled_quotes_le [of fileName] by simp
  then obtain k where "2 * length fileName + 1 - length (doubled_quotes fileName) = Suc k"
    by (cases "2 * length fileName + 1 - length (doubled_quotes fileName)") auto
  then have "addCarved_name fileName = Some (doubled_quotes fileName @ replicate (Suc k) NUL)"
    by (simp only: addCarved_name_eq)
  then show ?thesis by (simp add: c_str_def)
qed

lemma length_attr_chars: "length (attr_chars fs_attr) = attr_nlen_of fs_attr"
  by (simp add: attr_chars_def attr_nlen_of_def split: option.splits)

lemma colon_not_quote: "CHR '':'' \<noteq> quote"
  by (simp add: quote_def)

lemma colon_not_NUL: "CHR '':'' \<noteq> NUL"
  by (simp add: NUL_def)

lemma doubled_quotes_display:
  "doubled_quotes (display_suffix fs_attr) =
     (if 0 < attr_nlen_of fs_attr then CHR '':'' # doubled_quotes (attr_chars fs_attr) else [])"
  by (simp add: display_suffix_def colon_not_quote)

text \<open>
  The buffer of \<open>addFile\<close> after both loops: the doubled text, then what is left of
  the zeroed allocation.
\<close>

lemma addFile_name_eq:
  "addFile_name fname fs_attr =
     Some (doubled_quotes (fname @ display_suffix fs_attr)
           @ replicate (2 * (length fname + attr_nlen_of fs_attr) + 1
                        - length (doubled_quotes (fname @ display_suffix fs_attr))) NUL)"
proof -
  let ?n = "attr_nlen_of fs_attr"
  let ?nlen = "2 * (length fname + ?n)"
  let ?d = "doubled_quotes fname"
  have first: "copy_escaped fname ?nlen ([] @ replicate (?nlen + 1 - 0) NUL, 0) =
        ([] @ ?d @ replicate (?nlen + 1 - 0 - length ?d) NUL, 0 + length ?d)"
    by (rule copy_escaped_fresh) simp_all
  then have first': "copy_escaped fname ?nlen (replicate (?nlen + 1) NUL, 0) =
        (?d @ replicate (?nlen + 1 - length ?d) NUL, length ?d)"
    by (simp only: append_Nil diff_zero add_0)
  show ?thesis
  proof (cases "0 < ?n")
    case False
    then show ?thesis
      using first'
      by (simp add: addFile_name_def tsk_malloc_def Let_def display_suffix_def
          del: replicate_Suc)
  next
    case True
    let ?a = "attr_chars fs_attr"
    have dl: "length ?d \<le> 2 * length fname" by (rule length_doubled_quotes_le)
    have pos: "0 < ?nlen + 1 - length ?d" using dl by simp
    then obtain m where m: "?nlen + 1 - length ?d = Suc m" by (cases "?nlen + 1 - length ?d") auto
    have upd: "(?d @ replicate (?nlen + 1 - length ?d) NUL)[length ?d := CHR '':'']
        = (?d @ [CHR '':'']) @ replicate (?nlen + 1 - Suc (length ?d)) NUL"
      using m by (simp add: list_update_append del: replicate_Suc) (simp add: m)
    have second: "copy_escaped ?a ?nlen
            ((?d @ [CHR '':'']) @ replicate (?nlen + 1 - Suc (length ?d)) NUL, Suc (length ?d)) =
          ((?d @ [CHR '':'']) @ doubled_quotes ?a
             @ replicate (?nlen + 1 - Suc (length ?d) - length (doubled_quotes ?a)) NUL,
           Suc (length ?d) + length (doubled_quotes ?a))"
      using dl by (intro copy_escaped_fresh) (simp_all add: length_attr_chars)
    have "addFile_name fname fs_attr =
        Some ((?d @ [CHR '':'']) @ doubled_quotes ?a
             @ replicate (?nlen + 1 - Suc (length ?d) - length (doubled_quotes ?a)) NUL)"
      using True first' upd second
      by (simp add: addFile_name_def tsk_malloc_def Let_def del: replicate_Suc)
    then show ?thesis
      using True by (simp add: display_suffix_def colon_not_quote del: replicate_Suc)
  qed
qed

lemma addFile_name_Some: "\<exists>buf. addFile_name fname fs_attr = Some buf"
  by (simp add: addFile_name_eq)

text \<open>
  The terminator survives unless a stream name is appended and every byte of both
  names is a quote: then the colon takes the last byte of the allocation.
\<close>

lemma addFile_name_c_str:
  assumes "NUL \<notin> set fname" and "NUL \<notin> set (attr_chars fs_attr)"
  shows "\<exists>buf. addFile_name fname fs_attr = Some buf \<and>
           c_str buf =
             (if 0 < attr_nlen_of fs_attr \<and> all_quotes fname \<and> all_quotes (attr_chars fs_attr)
              then None else Some (doubled_quotes (fname @ display_suffix fs_attr)))"
proof -
  let ?t = "doubled_quotes (fname @ display_suffix fs_attr)"
  let ?k = "2 * (length fname + attr_nlen_of fs_attr) + 1 - length ?t"
  have nn: "NUL \<notin> set ?t"
    using assms colon_not_NUL by (auto simp: display_suffix_def)
  have l1: "length (doubled_quotes fname) \<le> 2 * length fname"
    and l2: "length (doubled_quotes (attr_chars fs_attr)) \<le> 2 * attr_nlen_of fs_attr"
    using length_doubled_quotes_le [of fname] length_doubled_quotes_le [of "attr_chars fs_attr"]
    by (simp_all add: length_attr_chars)
  show ?thesis
  proof (cases "0 < attr_nlen_of fs_attr \<and> all_quotes fname \<and> all_quotes (attr_chars fs_attr)")
    case True
    then have "length ?t = 2 * (length fname + attr_nlen_of fs_attr) + 1"
      using length_doubled_all_quotes [of fname] length_doubled_all_quotes [of "attr_chars fs_attr"]
      by (simp add: doubled_quotes_display length_attr_chars)
    then have "?k = 0" by simp
    then have "addFile_name fname fs_attr = Some ?t"
      by (simp add: addFile_name_eq)
    moreover have "c_str ?t = None" using nn by (rule c_str_full)
    moreover have "(if 0 < attr_nlen_of fs_attr \<and> all_quotes fname \<and> all_quotes (attr_chars fs_attr)
           then None else Some ?t) = None"
      using True by simp
    ultimately show ?thesis by metis
  next
    case False
    have "0 < ?k"
    proof (cases "0 < attr_nlen_of fs_attr")
      case False
      then show ?thesis using l1 by (simp add: display_suffix_def)
    next
      case True
      with \<open>\<not> (0 < attr_nlen_of fs_attr \<and> all_quotes fname \<and> all_quotes (attr_chars fs_attr))\<close>
      have "\<not> all_quotes fname \<or> \<not> all_quotes (attr_chars fs_attr)" by simp
      then have "length (doubled_quotes fname) \<noteq> 2 * length fname
          \<or> length (doubled_quotes (attr_chars fs_attr)) \<noteq> 2 * attr_nlen_of fs_attr"
        using length_doubled_all_quotes [of fname]
          length_doubled_all_quotes [of "attr_chars fs_attr"]
        by (simp add: length_attr_chars)
      with l1 l2 True show ?thesis
        by (simp add: doubled_quotes_display) linarith
    qed
    with nn have cs: "c_str (?t @ replicate ?k NUL) = Some ?t"
      by (rule c_str_padded)
    have eq: "addFile_name fname fs_attr = Some (?t @ replicate ?k NUL)"
      by (rule addFile_name_eq)
    have "(if 0 < attr_nlen_of fs_attr \<and> all_quotes fname \<and> all_quotes (attr_chars fs_attr)
           then None else Some ?t) = Some ?t"
      using False by simp
    with eq cs show ?thesis by metis
  qed
qed

section \<open>Session and object registry\<close>

lemma initialize_insert_fits:
  "length (''INSERT INTO tsk_db_info (schema_ver, tsk_ver) VALUES (''
             @ dec_int TSK_SCHEMA_VER @ '', TSK_VERSION_NUM);'') < 1024"
  by (simp add: TSK_SCHEMA_VER_def dec_eval)

lemma initialize_new_file:
  assumes "m_db db = Some (empty_database enc draws)"
  shows "initialize db =
     (0, db\<lparr>m_db := Some
           \<lparr>encoding = enc, rowid_draws = draws,
            tsk_db_info = Some [TSK_SCHEMA_VER],
            has_tables = True, tsk_objects = [], tsk_image_info = [], tsk_vs_info = [],
            tsk_vs_parts = [], tsk_fs_info = [], tsk_files = [],
            tsk_file_layout = (if m_blkMapFlag db then Some [] else None),
            last_insert_rowid = 1\<rparr>\<rparr>)"
  using assms initialize_insert_fits
  by (simp add: initialize_def attempt_exec_def pragma_synchronous_def create_db_info_def
      insert_db_info_def create_tables_def create_file_layout_def createIndexes_def
      create_index_def empty_database_def)

lemma session_on_new_file:
  "session_on db (NoFile draws) =
     db\<lparr>m_db := Some
           \<lparr>encoding = (if m_utf8 db then UTF8 else UTF16), rowid_draws = draws,
            tsk_db_info = Some [TSK_SCHEMA_VER],
            has_tables = True, tsk_objects = [], tsk_image_info = [], tsk_vs_info = [],
            tsk_vs_parts = [], tsk_fs_info = [], tsk_files = [],
            tsk_file_layout = (if m_blkMapFlag db then Some [] else None),
            last_insert_rowid = 1\<rparr>,
        m_selectFileIdByMetaAddr :=
          Some \<lparr>bound1 = None, bound2 = None, steps = 0, current_row = None\<rparr>\<rparr>"
proof -
  let ?e = "if m_utf8 db then UTF8 else UTF16"
  let ?d = "db\<lparr>m_db := Some (empty_database ?e draws)\<rparr>"
  have o: "open_db db (NoFile draws) = (0, Some ?d)"
    by (simp add: open_db_def)
  have m: "m_db ?d = Some (empty_database ?e draws)" by simp
  show ?thesis
    unfolding session_on_def o
    by (simp add: initialize_new_file [OF m] setup_stmt_def)
qed

lemma fresh_session_eq:
  "fresh_session b =
     \<lparr>m_utf8 = True, m_blkMapFlag = b,
      m_db = Some \<lparr>encoding = UTF8, rowid_draws = no_draws,
                   tsk_db_info = Some [TSK_SCHEMA_VER],
                   has_tables = True, tsk_objects = [], tsk_image_info = [], tsk_vs_info = [],
                   tsk_vs_parts = [], tsk_fs_info = [], tsk_files = [],
                   tsk_file_layout = (if b then Some [] else None), last_insert_rowid = 1\<rparr>,
      m_selectFileIdByMetaAddr =
        Some \<lparr>bound1 = None, bound2 = None, steps = 0, current_row = None\<rparr>\<rparr>"
  by (simp add: fresh_session_def session_on_new_file TskDbSqlite_new_def)

lemma fresh_session_wide_eq:
  "fresh_session_wide b =
     \<lparr>m_utf8 = False, m_blkMapFlag = b,
      m_db = Some \<lparr>encoding = UTF16, rowid_draws = no_draws,
                   tsk_db_info = Some [TSK_SCHEMA_VER],
                   has_tables = True, tsk_objects = [], tsk_image_info = [], tsk_vs_info = [],
                   tsk_vs_parts = [], tsk_fs_info = [], tsk_files = [],
                   tsk_file_layout = (if b then Some [] else None), last_insert_rowid = 1\<rparr>,
      m_selectFileIdByMetaAddr =
        Some \<lparr>bound1 = None, bound2 = None, steps = 0, current_row = None\<rparr>\<rparr>"
  by (simp add: fresh_session_wide_def session_on_new_file TskDbSqlite_new_wide_def)

text \<open>An empty registry gives the rowid 1, and below the largest rowid the next one.\<close>

lemma new_obj_id_empty: "tsk_objects s = [] \<Longrightarrow> new_obj_id s = Some 1"
  by (simp add: new_obj_id_def next_rowid_def)

lemma addObject_ok:
  assumes "m_db db = Some s" and "has_tables s"
    and "new_obj_id s = Some r"
  shows "addObject db type parObjId =
           (0, Some r,
            db\<lparr>m_db := Some (s\<lparr>tsk_objects := tsk_objects s @
                                  [\<lparr>o_obj_id = r, o_par_obj_id = SInt (sint parObjId),
                                    o_type = object_type_code type\<rparr>],
                                last_insert_rowid := r\<rparr>)\<rparr>)"
  using assms addObject_sql_fits [of type parObjId]
  by (simp add: addObject_def attempt_exec_def insert_objects_def)

lemma addObject_refused:
  assumes "case m_db db of None \<Rightarrow> True | Some s \<Rightarrow> \<not> has_tables s \<or> new_obj_id s = None"
  shows "addObject db type par = (1, None, db)"
  using assms
  by (auto simp: addObject_def attempt_exec_def insert_objects_def split: option.splits)

lemma addObject_cases:
  obtains (fail) "addObject db type par = (1, None, db)"
  | (ok) s r where "m_db db = Some s" "has_tables s"
      "new_obj_id s = Some r"
      "addObject db type par =
         (0, Some r,
          db\<lparr>m_db := Some (s\<lparr>tsk_objects := tsk_objects s @
                                [\<lparr>o_obj_id = r, o_par_obj_id = SInt (sint par),
                                  o_type = object_type_code type\<rparr>],
                              last_insert_rowid := r\<rparr>)\<rparr>)"
proof (cases "m_db db")
  case None
  then have "addObject db type par = (1, None, db)"
    by (simp add: addObject_def attempt_exec_def)
  then show ?thesis by (rule fail)
next
  case (Some s)
  show ?thesis
  proof (cases "has_tables s \<and> new_obj_id s \<noteq> None")
    case True
    then obtain r where "new_obj_id s = Some r" by auto
    with Some True show ?thesis
      by (intro ok [of s r] addObject_ok) simp_all
  next
    case False
    with Some have "addObject db type par = (1, None, db)"
      using addObject_sql_fits [of type par]
      by (auto simp: addObject_def attempt_exec_def insert_objects_def)
    then show ?thesis by (rule fail)
  qed
qed

text \<open>
  C10. \<open>cleanup\<close> returns 1 on every call: when it releases the prepared statement,
  and when the statement was released before (a second call returns 1 again).
\<close>

theorem cleanup_always_returns_1:
  "fst (cleanup db) = 1
   \<and> m_selectFileIdByMetaAddr (snd (cleanup db)) = None
   \<and> fst (cleanup (snd (cleanup db))) = 1"
  by (simp add: cleanup_def)

text \<open>
  C3, as the specification states it, fails: in a fresh session, where no object
  exists, allocating a volume system under the parent id 999 returns 0, assigns the
  object id 1 and records the row \<open>(1, 999, 1)\<close>.
\<close>

theorem addObject_unknown_parent_accepted:
  "map_option tsk_objects (m_db (fresh_session False)) = Some []
   \<and> (case addObject (fresh_session False) DB_OBJECT_TYPE_VS 999 of
        (rc, objId, db') \<Rightarrow>
          rc = 0 \<and> objId = Some 1
          \<and> map_option tsk_objects (m_db db')
              = Some [\<lparr>o_obj_id = 1, o_par_obj_id = SInt 999, o_type = 1\<rparr>])"
  by (simp add: fresh_session_eq addObject_def attempt_exec_def insert_objects_def
      new_obj_id_def next_rowid_def addObject_sql_def dec_eval)

text \<open>
  C3, amended. \<open>addObject\<close> makes no check of the parent: on an open store whose
  tables exist, an allocation of any kind under any parent id, allocated before or
  not, returns 0, assigns the row id that the engine gives and records the object
  with that parent.
\<close>

theorem addObject_records_any_parent:
  assumes "m_db db = Some s" and "has_tables s"
    and "new_obj_id s = Some r"
  shows "addObject db type parObjId =
           (0, Some r,
            db\<lparr>m_db := Some (s\<lparr>tsk_objects := tsk_objects s @
                                  [\<lparr>o_obj_id = r, o_par_obj_id = SInt (sint parObjId),
                                    o_type = object_type_code type\<rparr>],
                                last_insert_rowid := r\<rparr>)\<rparr>)"
  using assms by (rule addObject_ok)

theorem addObject_records_any_parent_witness:
  "\<exists>s. m_db (fresh_session False) = Some s \<and> has_tables s
       \<and> new_obj_id s = Some 1
       \<and> addObject (fresh_session False) DB_OBJECT_TYPE_FILE 12345 =
           (0, Some 1,
            (fresh_session False)\<lparr>m_db := Some (s\<lparr>tsk_objects :=
                  [\<lparr>o_obj_id = 1, o_par_obj_id = SInt 12345, o_type = 4\<rparr>],
                last_insert_rowid := 1\<rparr>)\<rparr>)"
proof -
  let ?s = "\<lparr>encoding = UTF8, rowid_draws = no_draws,
             tsk_db_info = Some [TSK_SCHEMA_VER],
             has_tables = True, tsk_objects = [], tsk_image_info = [], tsk_vs_info = [],
             tsk_vs_parts = [], tsk_fs_info = [], tsk_files = [],
             tsk_file_layout = None, last_insert_rowid = 1\<rparr>"
  have a: "m_db (fresh_session False) = Some ?s" by (simp add: fresh_session_eq)
  have b: "has_tables ?s" by simp
  have c: "new_obj_id ?s = Some 1" by (simp add: new_obj_id_def next_rowid_def)
  show ?thesis
    using a b c addObject_records_any_parent [OF a b c, of DB_OBJECT_TYPE_FILE 12345]
    by simp
qed

section \<open>Block layout\<close>

text \<open>
  C9, as the specification states it, fails. With block mapping off, \<open>initialize\<close>
  creates no \<open>tsk_file_layout\<close> table and a run of length zero is refused with 1. With
  the table present, a byte length of \<open>2^64 - 1\<close> is printed as an unsigned numeral
  beyond the engine's integers and is stored as a floating-point value, not as passed.
\<close>

theorem addFsBlockInfo_not_every_call:
  "fst (addFsBlockInfo (fresh_session False) 4 6 0 0) = 1
   \<and> (case addFsBlockInfo (fresh_session True) 4 6 0 18446744073709551615 of
        (rc, db') \<Rightarrow>
          rc = 0
          \<and> map_option tsk_file_layout (m_db db')
              = Some (Some [\<lparr>l_fs_id = SInt 4, l_byte_start = SInt 0,
                              l_byte_len = SReal 18446744073709551615, l_obj_id = SInt 6\<rparr>]))"
  by (simp add: fresh_session_eq addFsBlockInfo_def attempt_exec_def insert_file_layout_def
      sql_unsigned_def dec_eval)

text \<open>
  C9, amended. On an open store with the layout table, a call whose byte offset, byte
  length and file object id are below \<open>2^63\<close> returns 0, a length of zero included,
  and appends one row that holds the file system id, the offset, the length and the
  file id exactly as passed.
\<close>

theorem addFsBlockInfo_stores_run:
  assumes "m_db db = Some s" and "tsk_file_layout s = Some rows"
    and "unat a_byteStart < 2 ^ 63" and "unat a_byteLen < 2 ^ 63"
    and "unat a_fileObjId < 2 ^ 63"
  shows "addFsBlockInfo db a_fsObjId a_fileObjId a_byteStart a_byteLen =
           (0, db\<lparr>m_db := Some (s\<lparr>tsk_file_layout :=
                     Some (rows @ [\<lparr>l_fs_id = SInt (sint a_fsObjId),
                                     l_byte_start = SInt (int (unat a_byteStart)),
                                     l_byte_len = SInt (int (unat a_byteLen)),
                                     l_obj_id = SInt (int (unat a_fileObjId))\<rparr>]),
                   last_insert_rowid := int (length rows) + 1\<rparr>)\<rparr>)"
  using assms addFsBlockInfo_sql_fits [of a_fsObjId a_byteStart a_byteLen a_fileObjId]
  by (simp add: addFsBlockInfo_def attempt_exec_def insert_file_layout_def sql_unsigned_def
      sint64_of_small)

theorem addFsBlockInfo_stores_run_witness:
  "addFsBlockInfo (fresh_session True) 4 6 1048576 0 =
     (0, (fresh_session True)\<lparr>m_db := Some
           \<lparr>encoding = UTF8, rowid_draws = no_draws,
             tsk_db_info = Some [TSK_SCHEMA_VER],
             has_tables = True, tsk_objects = [], tsk_image_info = [], tsk_vs_info = [],
            tsk_vs_parts = [], tsk_fs_info = [], tsk_files = [],
            tsk_file_layout = Some [\<lparr>l_fs_id = SInt 4, l_byte_start = SInt 1048576,
                                     l_byte_len = SInt 0, l_obj_id = SInt 6\<rparr>],
            last_insert_rowid = 1\<rparr>\<rparr>)"
proof -
  let ?s = "\<lparr>encoding = UTF8, rowid_draws = no_draws,
             tsk_db_info = Some [TSK_SCHEMA_VER],
             has_tables = True, tsk_objects = [], tsk_image_info = [], tsk_vs_info = [],
             tsk_vs_parts = [], tsk_fs_info = [], tsk_files = [],
             tsk_file_layout = Some [], last_insert_rowid = 1\<rparr>"
  have a: "m_db (fresh_session True) = Some ?s" by (simp add: fresh_session_eq)
  have b: "tsk_file_layout ?s = Some []" by simp
  have c: "unat (1048576 :: 64 word) < 2 ^ 63" by simp
  have d: "unat (0 :: 64 word) < 2 ^ 63" by simp
  have e: "unat (6 :: 64 word) < 2 ^ 63" by simp
  show ?thesis
    using addFsBlockInfo_stores_run [OF a b c d e, of 4]
    by simp
qed

section \<open>Results of the ingestion functions\<close>

lemma attempt_exec_insert_files:
  assumes "m_db db1 = Some s1"
  shows "attempt_exec db1 sql (exec_insert_files name row) =
     (case sql_string_body name of
        None \<Rightarrow> (1, db1)
      | Some d \<Rightarrow>
          if length sql < 1024 \<and> has_tables s1
             \<and> fr_obj_id (row (text_cell (encoding s1) d)) \<notin> set (map fr_obj_id (tsk_files s1))
          then (0, db1\<lparr>m_db := Some (s1\<lparr>tsk_files := tsk_files s1 @ [row (text_cell (encoding s1) d)],
                                        last_insert_rowid := int (length (tsk_files s1)) + 1\<rparr>)\<rparr>)
          else (1, db1))"
  using assms
  by (auto simp: attempt_exec_def exec_insert_files_def insert_files_def split: option.splits)

lemma text_cell_cases:
  "text_cell enc b = (case enc of UTF8 \<Rightarrow> SText b | UTF16 \<Rightarrow> SText16 b)"
  by (cases enc) simp_all

text \<open>What \<open>addCarvedFileInfo\<close> does on an open store with tables.\<close>

lemma addCarvedFileInfo_result:
  assumes "NUL \<notin> set fileName" and "m_db db = Some s" and "has_tables s"
    and "new_obj_id s = Some r"
  shows "addCarvedFileInfo db fsObjId fileName sz =
     (let s1 = s\<lparr>tsk_objects := tsk_objects s @
                    [\<lparr>o_obj_id = r, o_par_obj_id = SInt (sint fsObjId),
                      o_type = object_type_code DB_OBJECT_TYPE_FILE\<rparr>],
                  last_insert_rowid := r\<rparr>
      in if length (addCarved_sql fsObjId r (doubled_quotes fileName) sz) < 1024
            \<and> r \<notin> set (map fr_obj_id (tsk_files s))
         then Inr (0, Some r,
                   db\<lparr>m_db := Some (s1\<lparr>tsk_files := tsk_files s @
                                          [addCarved_row fsObjId r (text_cell (encoding s) fileName) sz],
                                        last_insert_rowid := int (length (tsk_files s)) + 1\<rparr>)\<rparr>)
         else Inr (1, Some r, db\<lparr>m_db := Some s1\<rparr>))"
proof -
  obtain buf where buf: "addCarved_name fileName = Some buf"
      "c_str buf = Some (doubled_quotes fileName)"
    using addCarved_name_c_str [OF assms(1)] by blast
  have obj: "addObject db DB_OBJECT_TYPE_FILE (scast fsObjId) =
         (0, Some r,
          db\<lparr>m_db := Some (s\<lparr>tsk_objects := tsk_objects s @
                                [\<lparr>o_obj_id = r, o_par_obj_id = SInt (sint fsObjId),
                                  o_type = object_type_code DB_OBJECT_TYPE_FILE\<rparr>],
                              last_insert_rowid := r\<rparr>)\<rparr>)"
    using addObject_ok [OF assms(2-4), of DB_OBJECT_TYPE_FILE "scast fsObjId"]
    by (simp add: sint_up_scast is_up)
  show ?thesis
    using assms(3)
    by (simp add: addCarvedFileInfo_def buf obj attempt_exec_insert_files
        sql_string_body_doubled addCarved_row_def Let_def)
qed

lemma addCarvedFileInfo_success:
  assumes "NUL \<notin> set fileName"
    and "addCarvedFileInfo db fsObjId fileName sz = Inr (0, objId, db')"
  obtains s r where "m_db db = Some s" "has_tables s"
    "new_obj_id s = Some r" "objId = Some r"
    "length (addCarved_sql fsObjId r (doubled_quotes fileName) sz) < 1024"
    "r \<notin> set (map fr_obj_id (tsk_files s))"
    "db' = db\<lparr>m_db := Some (s\<lparr>tsk_objects := tsk_objects s @
                    [\<lparr>o_obj_id = r, o_par_obj_id = SInt (sint fsObjId),
                      o_type = object_type_code DB_OBJECT_TYPE_FILE\<rparr>],
                  tsk_files := tsk_files s @ [addCarved_row fsObjId r (text_cell (encoding s) fileName) sz],
                  last_insert_rowid := int (length (tsk_files s)) + 1\<rparr>)\<rparr>"
proof (rule addObject_cases [of db DB_OBJECT_TYPE_FILE "scast fsObjId"])
  assume fail: "addObject db DB_OBJECT_TYPE_FILE (scast fsObjId) = (1, None, db)"
  obtain buf where "addCarved_name fileName = Some buf"
    using addCarved_name_buf by blast
  with fail assms(2) show ?thesis
    by (simp add: addCarvedFileInfo_def)
next
  fix s r
  assume ok: "m_db db = Some s" "has_tables s"
    "new_obj_id s = Some r"
  from assms(2) addCarvedFileInfo_result [OF assms(1) ok, of fsObjId sz] ok that [of s r]
  show ?thesis
    by (simp add: Let_def split: if_splits)
qed

lemma addCarvedFileInfo_refused:
  assumes "case m_db db of None \<Rightarrow> True | Some s \<Rightarrow> \<not> has_tables s \<or> new_obj_id s = None"
  shows "addCarvedFileInfo db fsObjId fileName sz = Inr (1, None, db)"
proof -
  obtain buf where "addCarved_name fileName = Some buf"
    using addCarved_name_buf by blast
  with addObject_refused [OF assms, of DB_OBJECT_TYPE_FILE "scast fsObjId"] show ?thesis
    by (simp add: addCarvedFileInfo_def)
qed

lemma addCarvedFileInfo_total:
  "\<exists>rc objId db'. addCarvedFileInfo db fsObjId fileName sz = Inr (rc, objId, db')"
proof -
  obtain buf where buf: "addCarved_name fileName = Some buf"
    "c_str buf = Some (takeWhile (\<lambda>c. c \<noteq> NUL) buf)"
    using addCarved_name_buf by blast
  show ?thesis
  proof (rule addObject_cases [of db DB_OBJECT_TYPE_FILE "scast fsObjId"])
    assume "addObject db DB_OBJECT_TYPE_FILE (scast fsObjId) = (1, None, db)"
    with buf show ?thesis by (simp add: addCarvedFileInfo_def)
  next
    fix s r
    assume "addObject db DB_OBJECT_TYPE_FILE (scast fsObjId) =
         (0, Some r,
          db\<lparr>m_db := Some (s\<lparr>tsk_objects := tsk_objects s @
                                [\<lparr>o_obj_id = r, o_par_obj_id = SInt (sint (scast fsObjId :: 64 word)),
                                  o_type = object_type_code DB_OBJECT_TYPE_FILE\<rparr>],
                              last_insert_rowid := r\<rparr>)\<rparr>)"
    with buf show ?thesis
      by (simp add: addCarvedFileInfo_def split: prod.splits)
  qed
qed


text \<open>The shape of every result of \<open>addCarvedFileInfo\<close>.\<close>

lemma addCarvedFileInfo_shape:
  assumes "addCarvedFileInfo db fsObjId fileName sz = Inr (rc, objId, db')"
  shows "m_selectFileIdByMetaAddr db' = m_selectFileIdByMetaAddr db
    \<and> (case objId of
         None \<Rightarrow> db' = db \<and> rc = 1
       | Some r \<Rightarrow>
           (\<exists>s s'. m_db db = Some s \<and> m_db db' = Some s'
                \<and> new_obj_id s = Some r
                \<and> tsk_objects s' = tsk_objects s @
                     [\<lparr>o_obj_id = r, o_par_obj_id = SInt (sint fsObjId),
                       o_type = object_type_code DB_OBJECT_TYPE_FILE\<rparr>]
                \<and> (if rc = 0 then length (tsk_files s') = Suc (length (tsk_files s))
                    else tsk_files s' = tsk_files s)))"
proof -
  obtain buf where buf: "addCarved_name fileName = Some buf"
    "c_str buf = Some (takeWhile (\<lambda>c. c \<noteq> NUL) buf)"
    using addCarved_name_buf by blast
  show ?thesis
  proof (rule addObject_cases [of db DB_OBJECT_TYPE_FILE "scast fsObjId"])
    assume "addObject db DB_OBJECT_TYPE_FILE (scast fsObjId) = (1, None, db)"
    with assms buf show ?thesis
      by (simp add: addCarvedFileInfo_def)
  next
    fix s r
    assume ok: "m_db db = Some s" "has_tables s"
      "new_obj_id s = Some r"
      "addObject db DB_OBJECT_TYPE_FILE (scast fsObjId) =
         (0, Some r,
          db\<lparr>m_db := Some (s\<lparr>tsk_objects := tsk_objects s @
                                [\<lparr>o_obj_id = r, o_par_obj_id = SInt (sint (scast fsObjId :: 64 word)),
                                  o_type = object_type_code DB_OBJECT_TYPE_FILE\<rparr>],
                              last_insert_rowid := r\<rparr>)\<rparr>)"
    have "sint (scast fsObjId :: 64 word) = sint fsObjId"
      by (simp add: sint_up_scast is_up)
    with assms buf ok show ?thesis
      by (auto simp: addCarvedFileInfo_def attempt_exec_insert_files
          split: option.splits if_splits)
  qed
qed

text \<open>What \<open>addFile\<close> does on an open store with tables, when the terminator of the
  name survives.\<close>

lemma addFile_result:
  assumes "f_name fs_file = Some nm"
    and "NUL \<notin> set (fn_name nm)" and "NUL \<notin> set (attr_chars fs_attr)"
    and "\<not> (0 < attr_nlen_of fs_attr \<and> all_quotes (fn_name nm) \<and> all_quotes (attr_chars fs_attr))"
    and "m_db db = Some s" and "has_tables s"
    and "new_obj_id s = Some r"
  shows "addFile db fs_file fs_attr path fsObjId parObjId =
     (let s1 = s\<lparr>tsk_objects := tsk_objects s @
                    [\<lparr>o_obj_id = r, o_par_obj_id = SInt (sint parObjId),
                      o_type = object_type_code DB_OBJECT_TYPE_FILE\<rparr>],
                  last_insert_rowid := r\<rparr>
      in if length (addFile_sql fsObjId r (addFile_type fs_attr) (addFile_idx fs_attr)
                      (doubled_quotes (fn_name nm @ display_suffix fs_attr)) nm
                      (addFile_meta fs_file)) < 1024
            \<and> r \<notin> set (map fr_obj_id (tsk_files s))
         then Inr (0, Some r,
                   db\<lparr>m_db := Some (s1\<lparr>tsk_files := tsk_files s @
                                          [addFile_row fsObjId r (addFile_type fs_attr)
                                             (addFile_idx fs_attr)
                                             (text_cell (encoding s) (fn_name nm @ display_suffix fs_attr)) nm
                                             (addFile_meta fs_file)],
                                        last_insert_rowid := int (length (tsk_files s)) + 1\<rparr>)\<rparr>)
         else Inr (1, Some r, db\<lparr>m_db := Some s1\<rparr>))"
proof -
  obtain buf where buf: "addFile_name (fn_name nm) fs_attr = Some buf"
      "c_str buf = Some (doubled_quotes (fn_name nm @ display_suffix fs_attr))"
    using addFile_name_c_str [OF assms(2,3)] assms(4) by auto
  have obj: "addObject db DB_OBJECT_TYPE_FILE parObjId =
         (0, Some r,
          db\<lparr>m_db := Some (s\<lparr>tsk_objects := tsk_objects s @
                                [\<lparr>o_obj_id = r, o_par_obj_id = SInt (sint parObjId),
                                  o_type = object_type_code DB_OBJECT_TYPE_FILE\<rparr>],
                              last_insert_rowid := r\<rparr>)\<rparr>)"
    by (rule addObject_ok [OF assms(5-7)])
  show ?thesis
    using assms(6)
    by (simp add: addFile_def assms(1) buf obj attempt_exec_insert_files
        sql_string_body_doubled addFile_row_def Let_def del: doubled_quotes_append)
qed

text \<open>And when it does not survive.\<close>

lemma addFile_overread:
  assumes "f_name fs_file = Some nm"
    and "NUL \<notin> set (fn_name nm)" and "NUL \<notin> set (attr_chars fs_attr)"
    and "0 < attr_nlen_of fs_attr" and "all_quotes (fn_name nm)"
    and "all_quotes (attr_chars fs_attr)"
    and "m_db db = Some s" and "has_tables s"
    and "new_obj_id s = Some r"
  shows "addFile db fs_file fs_attr path fsObjId parObjId = Inl ReadPastAllocation"
proof -
  obtain buf where buf: "addFile_name (fn_name nm) fs_attr = Some buf" "c_str buf = None"
    using addFile_name_c_str [OF assms(2,3)] assms(4-6) by auto
  show ?thesis
    using addObject_ok [OF assms(7-9), of DB_OBJECT_TYPE_FILE parObjId]
    by (simp add: addFile_def assms(1) buf Let_def)
qed

lemma addFile_success:
  assumes "f_name fs_file = Some nm"
    and "NUL \<notin> set (fn_name nm)" and "NUL \<notin> set (attr_chars fs_attr)"
    and "\<not> (0 < attr_nlen_of fs_attr \<and> all_quotes (fn_name nm) \<and> all_quotes (attr_chars fs_attr))"
    and "addFile db fs_file fs_attr path fsObjId parObjId = Inr (0, objId, db')"
  obtains s r where "m_db db = Some s" "has_tables s"
    "new_obj_id s = Some r" "objId = Some r"
    "length (addFile_sql fsObjId r (addFile_type fs_attr) (addFile_idx fs_attr)
               (doubled_quotes (fn_name nm @ display_suffix fs_attr)) nm
               (addFile_meta fs_file)) < 1024"
    "r \<notin> set (map fr_obj_id (tsk_files s))"
    "db' = db\<lparr>m_db := Some (s\<lparr>tsk_objects := tsk_objects s @
                    [\<lparr>o_obj_id = r, o_par_obj_id = SInt (sint parObjId),
                      o_type = object_type_code DB_OBJECT_TYPE_FILE\<rparr>],
                  tsk_files := tsk_files s @
                    [addFile_row fsObjId r (addFile_type fs_attr) (addFile_idx fs_attr)
                       (text_cell (encoding s) (fn_name nm @ display_suffix fs_attr)) nm (addFile_meta fs_file)],
                  last_insert_rowid := int (length (tsk_files s)) + 1\<rparr>)\<rparr>"
proof (rule addObject_cases [of db DB_OBJECT_TYPE_FILE parObjId])
  assume fail: "addObject db DB_OBJECT_TYPE_FILE parObjId = (1, None, db)"
  obtain buf where "addFile_name (fn_name nm) fs_attr = Some buf"
    using addFile_name_Some by blast
  with fail assms(1,5) show ?thesis
    by (simp add: addFile_def Let_def)
next
  fix s r
  assume ok: "m_db db = Some s" "has_tables s"
    "new_obj_id s = Some r"
  from assms(5) addFile_result [OF assms(1-4) ok, of path fsObjId parObjId] ok that [of s r]
  show ?thesis
    by (simp add: Let_def split: if_splits)
qed

lemma addFile_refused:
  assumes "f_name fs_file = Some nm"
    and "case m_db db of None \<Rightarrow> True | Some s \<Rightarrow> \<not> has_tables s \<or> new_obj_id s = None"
  shows "addFile db fs_file fs_attr path fsObjId parObjId = Inr (1, None, db)"
proof -
  obtain buf where "addFile_name (fn_name nm) fs_attr = Some buf"
    using addFile_name_Some by blast
  with addObject_refused [OF assms(2), of DB_OBJECT_TYPE_FILE parObjId] assms(1) show ?thesis
    by (simp add: addFile_def Let_def)
qed

text \<open>The shape of every result of \<open>addFile\<close>.\<close>

lemma addFile_shape:
  assumes "addFile db fs_file fs_attr path fsObjId parObjId = Inr (rc, objId, db')"
  shows "m_selectFileIdByMetaAddr db' = m_selectFileIdByMetaAddr db
    \<and> (case objId of
         None \<Rightarrow> db' = db \<and> (rc = 0 \<longrightarrow> f_name fs_file = None)
       | Some r \<Rightarrow>
           f_name fs_file \<noteq> None
           \<and> (\<exists>s s'. m_db db = Some s \<and> m_db db' = Some s'
                \<and> new_obj_id s = Some r
                \<and> tsk_objects s' = tsk_objects s @
                     [\<lparr>o_obj_id = r, o_par_obj_id = SInt (sint parObjId),
                       o_type = object_type_code DB_OBJECT_TYPE_FILE\<rparr>]
                \<and> (if rc = 0 then length (tsk_files s') = Suc (length (tsk_files s))
                    else tsk_files s' = tsk_files s)))"
proof (cases "f_name fs_file")
  case None
  with assms show ?thesis by (simp add: addFile_def)
next
  case (Some nm)
  obtain buf where buf: "addFile_name (fn_name nm) fs_attr = Some buf"
    using addFile_name_Some by blast
  show ?thesis
  proof (rule addObject_cases [of db DB_OBJECT_TYPE_FILE parObjId])
    assume "addObject db DB_OBJECT_TYPE_FILE parObjId = (1, None, db)"
    with assms Some buf show ?thesis
      by (simp add: addFile_def Let_def)
  next
    fix s r
    assume ok: "m_db db = Some s" "has_tables s"
      "new_obj_id s = Some r"
      "addObject db DB_OBJECT_TYPE_FILE parObjId =
         (0, Some r,
          db\<lparr>m_db := Some (s\<lparr>tsk_objects := tsk_objects s @
                                [\<lparr>o_obj_id = r, o_par_obj_id = SInt (sint parObjId),
                                  o_type = object_type_code DB_OBJECT_TYPE_FILE\<rparr>],
                              last_insert_rowid := r\<rparr>)\<rparr>)"
    show ?thesis
    proof (cases "c_str buf")
      case None
      with assms Some buf ok show ?thesis
        by (simp add: addFile_def Let_def)
    next
      case (Some name)
      with assms \<open>f_name fs_file = Some nm\<close> buf ok show ?thesis
        by (auto simp: addFile_def Let_def attempt_exec_insert_files
            split: option.splits if_splits)
    qed
  qed
qed

lemma addFsFile_root:
  "f_name fs_file = Some nm \<Longrightarrow> fsi_root_inum (f_fs_info fs_file) = fn_meta_addr nm \<Longrightarrow>
   addFsFile db fs_file fs_attr path fsObjId = addFile db fs_file fs_attr path fsObjId fsObjId"
  by (simp add: addFsFile_def)

text \<open>The lookup of \<open>addFsFile\<close> for a record that is not the root directory.\<close>

lemma addFsFile_lookup_found:
  assumes "f_name fs_file = Some nm" and "fsi_root_inum (f_fs_info fs_file) \<noteq> fn_meta_addr nm"
    and "m_db db = Some s" and "m_selectFileIdByMetaAddr db = Some st"
    and "select_file_id_rows (Some (sint (fn_par_addr nm))) (Some (sint fsObjId)) s = p # ps"
  shows "addFsFile db fs_file fs_attr path fsObjId =
           addFile (db\<lparr>m_selectFileIdByMetaAddr :=
                          Some (st\<lparr>bound1 := Some (sint (fn_par_addr nm)),
                                    bound2 := Some (sint fsObjId),
                                    steps := Suc (steps st),
                                    current_row := Some p\<rparr>)\<rparr>)
             fs_file fs_attr path fsObjId (word_of_int (fr_obj_id p))"
  using assms
  by (simp add: addFsFile_def sqlite3_reset_def sqlite3_bind_int64_def sqlite3_step_def
      sqlite3_column_int64_def attempt_def SQLITE_OK_def SQLITE_ROW_def)

lemma addFsFile_lookup_empty:
  assumes "f_name fs_file = Some nm" and "fsi_root_inum (f_fs_info fs_file) \<noteq> fn_meta_addr nm"
    and "(case m_db db of None \<Rightarrow> []
          | Some s \<Rightarrow> select_file_id_rows (Some (sint (fn_par_addr nm))) (Some (sint fsObjId)) s)
         = []"
  shows "\<exists>db'. addFsFile db fs_file fs_attr path fsObjId = Inr (1, None, db')
           \<and> m_db db' = m_db db"
  using assms
  by (auto simp: addFsFile_def sqlite3_reset_def sqlite3_bind_int64_def sqlite3_step_def
      attempt_def SQLITE_OK_def SQLITE_ROW_def SQLITE_MISUSE_def SQLITE_DONE_def
      split: option.splits list.splits)

text \<open>Every result of \<open>addFsFile\<close> is an early failure or a result of \<open>addFile\<close>.\<close>

lemma addFsFile_cases:
  assumes "addFsFile db fs_file fs_attr path fsObjId = Inr (rc, objId, db')"
  shows "(rc = 1 \<and> objId = None \<and> m_db db' = m_db db)
     \<or> (\<exists>db0 par. m_db db0 = m_db db
           \<and> addFile db0 fs_file fs_attr path fsObjId par = Inr (rc, objId, db'))"
proof (cases "f_name fs_file")
  case None
  with assms have "addFile db fs_file fs_attr path fsObjId 0 = Inr (rc, objId, db')"
    by (simp add: addFsFile_def addFile_def)
  then show ?thesis by blast
next
  case (Some nm)
  show ?thesis
  proof (cases "fsi_root_inum (f_fs_info fs_file) = fn_meta_addr nm")
    case True
    with assms Some show ?thesis
      by (auto simp: addFsFile_root)
  next
    case False
    show ?thesis
    proof (cases "(case m_db db of None \<Rightarrow> []
          | Some s \<Rightarrow> select_file_id_rows (Some (sint (fn_par_addr nm))) (Some (sint fsObjId)) s)
         = []")
      case True
      from addFsFile_lookup_empty [OF Some False True]
      obtain d where "addFsFile db fs_file fs_attr path fsObjId = Inr (1, None, d)"
        "m_db d = m_db db" by blast
      with assms show ?thesis by simp
    next
      case rows: False
      then obtain s p ps where s: "m_db db = Some s"
        "select_file_id_rows (Some (sint (fn_par_addr nm))) (Some (sint fsObjId)) s = p # ps"
        by (auto split: option.splits simp: neq_Nil_conv)
      show ?thesis
      proof (cases "m_selectFileIdByMetaAddr db")
        case None
        with assms \<open>f_name fs_file = Some nm\<close> False show ?thesis
          by (auto simp: addFsFile_def sqlite3_reset_def sqlite3_bind_int64_def attempt_def
              SQLITE_OK_def SQLITE_MISUSE_def)
      next
        case (Some st)
        from assms addFsFile_lookup_found [OF \<open>f_name fs_file = Some nm\<close> False s(1) Some s(2)]
        have "addFile (db\<lparr>m_selectFileIdByMetaAddr :=
                          Some (st\<lparr>bound1 := Some (sint (fn_par_addr nm)),
                                    bound2 := Some (sint fsObjId),
                                    steps := Suc (steps st),
                                    current_row := Some p\<rparr>)\<rparr>)
             fs_file fs_attr path fsObjId (word_of_int (fr_obj_id p)) = Inr (rc, objId, db')"
          by simp
        moreover have "m_db (db\<lparr>m_selectFileIdByMetaAddr :=
                          Some (st\<lparr>bound1 := Some (sint (fn_par_addr nm)),
                                    bound2 := Some (sint fsObjId),
                                    steps := Suc (steps st),
                                    current_row := Some p\<rparr>)\<rparr>) = m_db db"
          by simp
        ultimately show ?thesis by blast
      qed
    qed
  qed
qed

section \<open>The example session\<close>

lemma example_session_eq:
  "example_session =
     \<lparr>m_utf8 = True, m_blkMapFlag = False, m_db = Some example_tables,
      m_selectFileIdByMetaAddr =
        Some \<lparr>bound1 = None, bound2 = None, steps = 0, current_row = None\<rparr>\<rparr>"
  by (simp add: example_session_def example_tables_def fresh_session_eq addImageInfo_def
      addVsInfo_def addVolumeInfo_def addFsInfo_def addObject_def attempt_exec_def
      insert_objects_def insert_image_info_def insert_vs_info_def insert_vs_parts_def
      insert_fs_info_def new_obj_id_def next_rowid_def addObject_sql_def addVolumeInfo_sql_def dec_eval
      sql_unsigned_def example_vs_def example_part_def example_fs_def quote_def)

lemma no_attr [simp]:
  "attr_nlen_of None = 0" "attr_chars None = []" "display_suffix None = []"
  "addFile_type None = 0" "addFile_idx None = 0"
  by (simp_all add: attr_nlen_of_def attr_chars_def display_suffix_def addFile_type_def
      addFile_idx_def)

lemma example_next_rowid:
  "new_obj_id example_tables = Some 5"
  by (simp add: example_tables_def new_obj_id_def next_rowid_def)

lemma example_tables_facts:
  "m_db example_session = Some example_tables" "has_tables example_tables"
  "tsk_files example_tables = []" "encoding example_tables = UTF8"
  by (simp_all add: example_session_eq) (simp_all add: example_tables_def)

lemma example_root_ingested:
  "addFsFile example_session example_root None [] 4 = Inr (0, Some 5, example_session_root)"
proof -
  let ?nm = "\<lparr>fn_name = ''.'', fn_meta_addr = 5, fn_par_addr = 5, fn_type = 3, fn_flags = 1\<rparr>"
  have n: "f_name example_root = Some ?nm" by (simp add: example_root_def)
  have r: "fsi_root_inum (f_fs_info example_root) = fn_meta_addr ?nm"
    by (simp add: example_root_def example_fs_def)
  have z: "NUL \<notin> set (fn_name ?nm)" "NUL \<notin> set (attr_chars None)"
    "\<not> (0 < attr_nlen_of None \<and> all_quotes (fn_name ?nm) \<and> all_quotes (attr_chars None))"
    by (simp_all add: NUL_def)
  have d: "m_db example_session = Some example_tables" "has_tables example_tables"
    by (simp_all add: example_session_eq) (simp add: example_tables_def)
  have q: "doubled_quotes (fn_name ?nm @ display_suffix None) = ''.''"
    using doubled_quotes_plain [of "''.''"] by (simp add: quote_def)
  have m: "addFile_meta example_root = no_meta"
    by (simp add: addFile_meta_def example_root_def)
  have l: "length (addFile_sql 4 5 0 0 ''.'' ?nm no_meta) < 1024"
    by (simp add: addFile_sql_def files_insert_head_def dec_eval DB_FILES_TYPE_FS_def
        no_meta_def)
  have f: "5 \<notin> set (map fr_obj_id (tsk_files example_tables))"
    by (simp add: example_tables_def)
  show ?thesis
    unfolding addFsFile_root [OF n r]
    using addFile_result [OF n z d example_next_rowid, of "[]" 4 4, unfolded Let_def q m] l f
    by (simp add: Let_def example_session_root_def example_root_row_def addFile_row_def
        no_meta_def sql_unsigned_def example_tables_def)
qed

lemma example_session_root_db:
  "m_db example_session_root =
     Some (example_tables\<lparr>tsk_objects := tsk_objects example_tables @
             [\<lparr>o_obj_id = 5, o_par_obj_id = SInt 4, o_type = 4\<rparr>],
           tsk_files := [example_root_row], last_insert_rowid := 1\<rparr>)"
  "m_selectFileIdByMetaAddr example_session_root =
     Some \<lparr>bound1 = None, bound2 = None, steps = 0, current_row = None\<rparr>"
  by (simp_all add: example_session_root_def example_session_eq)

lemma example_carved_ingested:
  "addCarvedFileInfo example_session 4 ''carve_00001234.jpg'' 2048 =
     Inr (0, Some 5,
          example_session\<lparr>m_db := Some (example_tables\<lparr>tsk_objects := tsk_objects example_tables @
                [\<lparr>o_obj_id = 5, o_par_obj_id = SInt 4,
                  o_type = object_type_code DB_OBJECT_TYPE_FILE\<rparr>],
              tsk_files := [addCarved_row 4 5 (SText ''carve_00001234.jpg'') 2048],
              last_insert_rowid := 1\<rparr>)\<rparr>)"
proof -
  have n: "NUL \<notin> set ''carve_00001234.jpg''" by (simp add: NUL_def)
  have q: "doubled_quotes ''carve_00001234.jpg'' = ''carve_00001234.jpg''"
    by (rule doubled_quotes_plain) (simp add: quote_def)
  have l: "length (addCarved_sql 4 5 ''carve_00001234.jpg'' 2048) < 1024"
    by (simp add: addCarved_sql_def files_insert_head_def dec_eval DB_FILES_TYPE_CARVED_def
        TSK_FS_NAME_TYPE_REG_def TSK_FS_META_TYPE_REG_def TSK_FS_NAME_FLAG_UNALLOC_def)
  show ?thesis
    using addCarvedFileInfo_result [OF n example_tables_facts(1,2) example_next_rowid,
        of 4 2048, unfolded q] l
    by (simp add: Let_def example_tables_facts)
qed

lemma example_quote_stream_counted:
  "attr_nlen_of (Some example_quote_stream) = 1"
  "attr_chars (Some example_quote_stream) = [quote]"
  by (simp_all add: attr_nlen_of_def attr_chars_def example_quote_stream_def
      TSK_FS_ATTR_TYPE_NTFS_IDXROOT_def)

lemma example_quoted_doubled:
  "doubled_quotes example_quoted_name = ''it'' @ [quote, quote] @ ''s''"
  by (simp add: example_quoted_name_def quote_def)

lemma example_stream_counted:
  "attr_nlen_of (Some example_stream) = 6"
  "attr_chars (Some example_stream) = ''user'' @ [quote] @ ''s''"
  "display_suffix (Some example_stream) = '':user'' @ [quote] @ ''s''"
  "addFile_type (Some example_stream) = 128" "addFile_idx (Some example_stream) = 1"
  by (simp_all add: attr_nlen_of_def attr_chars_def display_suffix_def example_stream_def
      TSK_FS_ATTR_TYPE_NTFS_IDXROOT_def addFile_type_def addFile_idx_def)

lemma example_display_doubled:
  "doubled_quotes (example_quoted_name @ display_suffix (Some example_stream))
     = ''it'' @ [quote, quote] @ ''s:user'' @ [quote, quote] @ ''s''"
  by (simp add: example_quoted_name_def example_stream_counted) (simp add: quote_def)

lemma example_quoted_carved:
  "addCarvedFileInfo example_session 4 example_quoted_name 10 =
     Inr (0, Some 5,
          example_session\<lparr>m_db := Some (example_tables\<lparr>tsk_objects := tsk_objects example_tables @
                [\<lparr>o_obj_id = 5, o_par_obj_id = SInt 4,
                  o_type = object_type_code DB_OBJECT_TYPE_FILE\<rparr>],
              tsk_files := [addCarved_row 4 5 (SText example_quoted_name) 10],
              last_insert_rowid := 1\<rparr>)\<rparr>)"
proof -
  have n: "NUL \<notin> set example_quoted_name"
    by (simp add: example_quoted_name_def NUL_def quote_def)
  have l: "length (addCarved_sql 4 5 (''it'' @ [quote, quote] @ ''s'') 10) < 1024"
    by (simp add: addCarved_sql_def files_insert_head_def dec_eval DB_FILES_TYPE_CARVED_def
        TSK_FS_NAME_TYPE_REG_def TSK_FS_META_TYPE_REG_def TSK_FS_NAME_FLAG_UNALLOC_def)
  show ?thesis
    using addCarvedFileInfo_result [OF n example_tables_facts(1,2) example_next_rowid,
        of 4 10, unfolded example_quoted_doubled] l
    by (simp add: Let_def example_tables_facts)
qed

lemma example_quoted_file_ingested:
  "addFile example_session_root example_quoted_file (Some example_stream) [] 4 5 =
     Inr (0, Some 6,
          example_session_root\<lparr>m_db := Some (example_tables\<lparr>tsk_objects :=
                tsk_objects example_tables @
                [\<lparr>o_obj_id = 5, o_par_obj_id = SInt 4, o_type = 4\<rparr>,
                 \<lparr>o_obj_id = 6, o_par_obj_id = SInt 5,
                  o_type = object_type_code DB_OBJECT_TYPE_FILE\<rparr>],
              tsk_files := [example_root_row,
                addFile_row 4 6 128 1
                  (SText (example_quoted_name @ display_suffix (Some example_stream)))
                  \<lparr>fn_name = example_quoted_name, fn_meta_addr = 66, fn_par_addr = 5,
                    fn_type = 5, fn_flags = 1\<rparr> no_meta],
              last_insert_rowid := 2\<rparr>)\<rparr>)"
proof -
  let ?nm = "\<lparr>fn_name = example_quoted_name, fn_meta_addr = 66, fn_par_addr = 5,
              fn_type = 5, fn_flags = 1\<rparr>"
  let ?s = "example_tables\<lparr>tsk_objects := tsk_objects example_tables @
             [\<lparr>o_obj_id = 5, o_par_obj_id = SInt 4, o_type = 4\<rparr>],
           tsk_files := [example_root_row], last_insert_rowid := 1\<rparr>"
  have n: "f_name example_quoted_file = Some ?nm" by (simp add: example_quoted_file_def)
  have z: "NUL \<notin> set (fn_name ?nm)" "NUL \<notin> set (attr_chars (Some example_stream))"
    "\<not> (0 < attr_nlen_of (Some example_stream) \<and> all_quotes (fn_name ?nm)
        \<and> all_quotes (attr_chars (Some example_stream)))"
    by (simp_all add: example_stream_counted example_quoted_name_def all_quotes_def)
      (simp_all add: NUL_def quote_def)
  have t: "has_tables ?s" "new_obj_id ?s = Some 6"
    by (simp_all add: example_tables_def new_obj_id_def next_rowid_def)
  have m: "addFile_meta example_quoted_file = no_meta"
    by (simp add: addFile_meta_def example_quoted_file_def)
  have q: "doubled_quotes (fn_name ?nm @ display_suffix (Some example_stream))
     = ''it'' @ [quote, quote] @ ''s:user'' @ [quote, quote] @ ''s''"
    using example_display_doubled by simp
  have l: "length (addFile_sql 4 6 128 1
      (''it'' @ [quote, quote] @ ''s:user'' @ [quote, quote] @ ''s'') ?nm no_meta) < 1024"
    by (simp add: addFile_sql_def files_insert_head_def dec_eval DB_FILES_TYPE_FS_def
        no_meta_def)
  have f: "6 \<notin> set (map fr_obj_id (tsk_files ?s))"
    by (simp add: example_root_row_def)
  show ?thesis
    using addFile_result [OF n z example_session_root_db(1) t, where path = "[]"
        and fsObjId = 4 and parObjId = 5, unfolded q, unfolded m example_stream_counted(4,5)]
      l f
    by (simp add: Let_def example_tables_def)
qed

section \<open>Parent resolution\<close>

text \<open>
  C1. For a named record whose metadata address is not the root address of its file
  system, \<open>addFsFile\<close> resolves the parent with the prepared query, keyed by the
  record's parent address and the file system's object id, over the rows of
  \<open>tsk_files\<close>. When the query finds no row (or cannot run), the call returns 1, assigns
  no object id and leaves the tables as they were: no skip and no made-up parent.
  When it finds rows, the call is \<open>addFile\<close> with the \<open>obj_id\<close> of the first matching
  row as the parent.
\<close>

theorem orphan_reference_is_error:
  assumes "f_name fs_file = Some nm" and "fsi_root_inum (f_fs_info fs_file) \<noteq> fn_meta_addr nm"
  shows "((case m_db db of None \<Rightarrow> []
           | Some s \<Rightarrow> select_file_id_rows (Some (sint (fn_par_addr nm))) (Some (sint fsObjId)) s)
          = []
          \<longrightarrow> (\<exists>db'. addFsFile db fs_file fs_attr path fsObjId = Inr (1, None, db')
                 \<and> m_db db' = m_db db))
    \<and> (\<forall>s st p ps.
          m_db db = Some s \<and> m_selectFileIdByMetaAddr db = Some st
          \<and> select_file_id_rows (Some (sint (fn_par_addr nm))) (Some (sint fsObjId)) s = p # ps
          \<longrightarrow> addFsFile db fs_file fs_attr path fsObjId =
                addFile (db\<lparr>m_selectFileIdByMetaAddr :=
                               Some (st\<lparr>bound1 := Some (sint (fn_par_addr nm)),
                                         bound2 := Some (sint fsObjId),
                                         steps := Suc (steps st),
                                         current_row := Some p\<rparr>)\<rparr>)
                  fs_file fs_attr path fsObjId (word_of_int (fr_obj_id p)))"
  using addFsFile_lookup_empty [OF assms] addFsFile_lookup_found [OF assms]
  by blast

text \<open>
  In the example session with the root directory ingested, a record whose parent
  address 77 was never ingested is refused, and a child of the root directory is
  passed on with the root directory's object id.
\<close>

theorem orphan_reference_is_error_witness:
  "(\<exists>db'. addFsFile example_session_root example_orphan None [] 4 = Inr (1, None, db')
         \<and> m_db db' = m_db example_session_root)
   \<and> addFsFile example_session_root example_child None [] 4 =
       addFile (example_session_root\<lparr>m_selectFileIdByMetaAddr :=
                  Some \<lparr>bound1 = Some 5, bound2 = Some 4, steps = 1,
                        current_row = Some example_root_row\<rparr>\<rparr>)
         example_child None [] 4 5"
proof -
  let ?o = "\<lparr>fn_name = ''lost.txt'', fn_meta_addr = 70, fn_par_addr = 77, fn_type = 5,
             fn_flags = 1\<rparr>"
  let ?c = "\<lparr>fn_name = ''report.docx'', fn_meta_addr = 64, fn_par_addr = 5, fn_type = 5,
             fn_flags = 1\<rparr>"
  have o: "f_name example_orphan = Some ?o"
    "fsi_root_inum (f_fs_info example_orphan) \<noteq> fn_meta_addr ?o"
    by (simp_all add: example_orphan_def example_fs_def)
  have c: "f_name example_child = Some ?c"
    "fsi_root_inum (f_fs_info example_child) \<noteq> fn_meta_addr ?c"
    by (simp_all add: example_child_def example_fs_def)
  have none: "(case m_db example_session_root of None \<Rightarrow> []
       | Some s \<Rightarrow> select_file_id_rows (Some (sint (fn_par_addr ?o))) (Some (sint (4 :: 64 word))) s)
      = []"
    by (simp add: example_session_root_db select_file_id_rows_def example_root_row_def)
  have found: "select_file_id_rows (Some (sint (fn_par_addr ?c))) (Some (sint (4 :: 64 word)))
       (example_tables\<lparr>tsk_objects := tsk_objects example_tables @
             [\<lparr>o_obj_id = 5, o_par_obj_id = SInt 4, o_type = 4\<rparr>],
           tsk_files := [example_root_row], last_insert_rowid := 1\<rparr>) = example_root_row # []"
    by (simp add: select_file_id_rows_def example_root_row_def)
  from orphan_reference_is_error [OF o, where db = example_session_root and fsObjId = 4
      and fs_attr = None and path = "[]"] none
  have first: "\<exists>db'. addFsFile example_session_root example_orphan None [] 4 = Inr (1, None, db')
         \<and> m_db db' = m_db example_session_root"
    by blast
  from orphan_reference_is_error [OF c, where db = example_session_root and fsObjId = 4
      and fs_attr = None and path = "[]"]
    example_session_root_db found
  have "addFsFile example_session_root example_child None [] 4 =
       addFile (example_session_root\<lparr>m_selectFileIdByMetaAddr :=
                  Some (\<lparr>bound1 = None, bound2 = None, steps = 0, current_row = None\<rparr>
                         \<lparr>bound1 := Some (sint (fn_par_addr ?c)),
                          bound2 := Some (sint (4 :: 64 word)),
                          steps := Suc (steps \<lparr>bound1 = None, bound2 = None, steps = 0,
                                               current_row = None\<rparr>),
                          current_row := Some example_root_row\<rparr>)\<rparr>)
         example_child None [] 4 (word_of_int (fr_obj_id example_root_row))"
    by blast
  then have second: "addFsFile example_session_root example_child None [] 4 =
       addFile (example_session_root\<lparr>m_selectFileIdByMetaAddr :=
                  Some \<lparr>bound1 = Some 5, bound2 = Some 4, steps = 1,
                        current_row = Some example_root_row\<rparr>\<rparr>)
         example_child None [] 4 5"
    by (simp add: example_root_row_def)
  from first second show ?thesis by blast
qed

text \<open>
  C2. For a named record whose metadata address equals the root address of its file
  system, \<open>addFsFile\<close> leaves the prepared statement untouched (no reset, no binding,
  no step), whatever it returns; an object id it assigns belongs to a new object
  whose parent is the file system's object id; and when it returns 0 it has assigned
  one and added a row to \<open>tsk_files\<close>. Without an open store, without tables or
  without a row id left, it returns 1 and changes nothing. Otherwise, for names that
  are C strings and leave the terminator of the name buffer in place, it records the
  new object under the file system's object id, and then: when the statement fits the
  buffer and the object id is not yet in \<open>tsk_files\<close>, it returns 0 with the File
  row appended, and returns 1 with no row written in the other case.
\<close>

theorem root_directory_parent:
  assumes "f_name fs_file = Some nm" and "fsi_root_inum (f_fs_info fs_file) = fn_meta_addr nm"
  shows "(\<forall>rc objId db'. addFsFile db fs_file fs_attr path fsObjId = Inr (rc, objId, db') \<longrightarrow>
            m_selectFileIdByMetaAddr db' = m_selectFileIdByMetaAddr db
            \<and> (rc = 0 \<longrightarrow> objId \<noteq> None)
            \<and> (\<forall>r. objId = Some r \<longrightarrow>
                  (\<exists>s s'. m_db db = Some s \<and> m_db db' = Some s'
                     \<and> tsk_objects s' = tsk_objects s @
                          [\<lparr>o_obj_id = r, o_par_obj_id = SInt (sint fsObjId),
                            o_type = object_type_code DB_OBJECT_TYPE_FILE\<rparr>]
                     \<and> (if rc = 0 then length (tsk_files s') = Suc (length (tsk_files s))
                         else tsk_files s' = tsk_files s))))
    \<and> ((case m_db db of None \<Rightarrow> True | Some s \<Rightarrow> \<not> has_tables s \<or> new_obj_id s = None)
          \<longrightarrow> addFsFile db fs_file fs_attr path fsObjId = Inr (1, None, db))
    \<and> (\<forall>s r. m_db db = Some s \<and> has_tables s \<and> new_obj_id s = Some r
          \<and> NUL \<notin> set (fn_name nm) \<and> NUL \<notin> set (attr_chars fs_attr)
          \<and> \<not> (0 < attr_nlen_of fs_attr \<and> all_quotes (fn_name nm)
                \<and> all_quotes (attr_chars fs_attr)) \<longrightarrow>
          addFsFile db fs_file fs_attr path fsObjId =
            (if length (addFile_sql fsObjId r (addFile_type fs_attr) (addFile_idx fs_attr)
                          (doubled_quotes (fn_name nm @ display_suffix fs_attr)) nm
                          (addFile_meta fs_file)) < 1024
                \<and> r \<notin> set (map fr_obj_id (tsk_files s))
             then Inr (0, Some r,
                    db\<lparr>m_db := Some (s\<lparr>tsk_objects := tsk_objects s @
                            [\<lparr>o_obj_id = r, o_par_obj_id = SInt (sint fsObjId),
                              o_type = object_type_code DB_OBJECT_TYPE_FILE\<rparr>],
                          tsk_files := tsk_files s @
                            [addFile_row fsObjId r (addFile_type fs_attr) (addFile_idx fs_attr)
                               (text_cell (encoding s) (fn_name nm @ display_suffix fs_attr))
                               nm (addFile_meta fs_file)],
                          last_insert_rowid := int (length (tsk_files s)) + 1\<rparr>)\<rparr>)
             else Inr (1, Some r,
                    db\<lparr>m_db := Some (s\<lparr>tsk_objects := tsk_objects s @
                            [\<lparr>o_obj_id = r, o_par_obj_id = SInt (sint fsObjId),
                              o_type = object_type_code DB_OBJECT_TYPE_FILE\<rparr>],
                          last_insert_rowid := r\<rparr>)\<rparr>)))"
proof (intro conjI allI impI)
  fix rc objId db'
  assume "addFsFile db fs_file fs_attr path fsObjId = Inr (rc, objId, db')"
  with assms have r: "addFile db fs_file fs_attr path fsObjId fsObjId = Inr (rc, objId, db')"
    by (simp add: addFsFile_root)
  note sh = addFile_shape [OF r]
  from sh show "m_selectFileIdByMetaAddr db' = m_selectFileIdByMetaAddr db" by simp
  show "objId \<noteq> None" if "rc = 0"
    using sh that assms(1) by (cases objId) auto
  fix r'
  assume "objId = Some r'"
  with sh show "\<exists>s s'. m_db db = Some s \<and> m_db db' = Some s'
       \<and> tsk_objects s' = tsk_objects s @
            [\<lparr>o_obj_id = r', o_par_obj_id = SInt (sint fsObjId),
              o_type = object_type_code DB_OBJECT_TYPE_FILE\<rparr>]
       \<and> (if rc = 0 then length (tsk_files s') = Suc (length (tsk_files s))
           else tsk_files s' = tsk_files s)"
    by (cases "rc = 0") auto
next
  assume "case m_db db of None \<Rightarrow> True | Some s \<Rightarrow> \<not> has_tables s \<or> new_obj_id s = None"
  from addFile_refused [OF assms(1) this]
  show "addFsFile db fs_file fs_attr path fsObjId = Inr (1, None, db)"
    by (simp add: addFsFile_root [OF assms])
next
  fix s r
  assume "m_db db = Some s \<and> has_tables s \<and> new_obj_id s = Some r
          \<and> NUL \<notin> set (fn_name nm) \<and> NUL \<notin> set (attr_chars fs_attr)
          \<and> \<not> (0 < attr_nlen_of fs_attr \<and> all_quotes (fn_name nm)
                \<and> all_quotes (attr_chars fs_attr))"
  then have h: "NUL \<notin> set (fn_name nm)" "NUL \<notin> set (attr_chars fs_attr)"
    "\<not> (0 < attr_nlen_of fs_attr \<and> all_quotes (fn_name nm) \<and> all_quotes (attr_chars fs_attr))"
    "m_db db = Some s" "has_tables s" "new_obj_id s = Some r"
    by simp_all
  show "addFsFile db fs_file fs_attr path fsObjId =
            (if length (addFile_sql fsObjId r (addFile_type fs_attr) (addFile_idx fs_attr)
                          (doubled_quotes (fn_name nm @ display_suffix fs_attr)) nm
                          (addFile_meta fs_file)) < 1024
                \<and> r \<notin> set (map fr_obj_id (tsk_files s))
             then Inr (0, Some r,
                    db\<lparr>m_db := Some (s\<lparr>tsk_objects := tsk_objects s @
                            [\<lparr>o_obj_id = r, o_par_obj_id = SInt (sint fsObjId),
                              o_type = object_type_code DB_OBJECT_TYPE_FILE\<rparr>],
                          tsk_files := tsk_files s @
                            [addFile_row fsObjId r (addFile_type fs_attr) (addFile_idx fs_attr)
                               (text_cell (encoding s) (fn_name nm @ display_suffix fs_attr))
                               nm (addFile_meta fs_file)],
                          last_insert_rowid := int (length (tsk_files s)) + 1\<rparr>)\<rparr>)
             else Inr (1, Some r,
                    db\<lparr>m_db := Some (s\<lparr>tsk_objects := tsk_objects s @
                            [\<lparr>o_obj_id = r, o_par_obj_id = SInt (sint fsObjId),
                              o_type = object_type_code DB_OBJECT_TYPE_FILE\<rparr>],
                          last_insert_rowid := r\<rparr>)\<rparr>))"
    unfolding addFsFile_root [OF assms] addFile_result [OF assms(1) h]
    by (simp add: Let_def del: doubled_quotes_append)
qed

text \<open>
  The root directory of file system 4 gets the object id 5 and the parent 4, and its
  row; on an object that was never opened the call is refused.
\<close>

theorem root_directory_parent_witness:
  "addFsFile example_session example_root None [] 4 = Inr (0, Some 5, example_session_root)
   \<and> m_selectFileIdByMetaAddr example_session_root = m_selectFileIdByMetaAddr example_session
   \<and> (\<exists>s s'. m_db example_session = Some s \<and> m_db example_session_root = Some s'
         \<and> tsk_objects s' = tsk_objects s @
              [\<lparr>o_obj_id = 5, o_par_obj_id = SInt 4,
                o_type = object_type_code DB_OBJECT_TYPE_FILE\<rparr>]
         \<and> length (tsk_files s') = Suc (length (tsk_files s)))
   \<and> map_option tsk_files (m_db example_session_root) = Some [example_root_row]
   \<and> addFsFile (TskDbSqlite_new False) example_root None [] 4
        = Inr (1, None, TskDbSqlite_new False)"
proof -
  let ?nm = "\<lparr>fn_name = ''.'', fn_meta_addr = 5, fn_par_addr = 5, fn_type = 3, fn_flags = 1\<rparr>"
  have n: "f_name example_root = Some ?nm" by (simp add: example_root_def)
  have r: "fsi_root_inum (f_fs_info example_root) = fn_meta_addr ?nm"
    by (simp add: example_root_def example_fs_def)
  note t = root_directory_parent [OF n r]
  have h: "m_db example_session = Some example_tables \<and> has_tables example_tables
      \<and> new_obj_id example_tables = Some 5
      \<and> NUL \<notin> set (fn_name ?nm) \<and> NUL \<notin> set (attr_chars None)
      \<and> \<not> (0 < attr_nlen_of None \<and> all_quotes (fn_name ?nm) \<and> all_quotes (attr_chars None))"
    by (simp add: example_tables_facts example_next_rowid NUL_def)
  have q: "doubled_quotes (fn_name ?nm @ display_suffix None) = ''.''"
    using doubled_quotes_plain [of "''.''"] by (simp add: quote_def)
  have m: "addFile_meta example_root = no_meta"
    by (simp add: addFile_meta_def example_root_def)
  have l: "length (addFile_sql 4 5 0 0 ''.'' ?nm no_meta) < 1024"
    by (simp add: addFile_sql_def files_insert_head_def dec_eval DB_FILES_TYPE_FS_def
        no_meta_def)
  have f: "5 \<notin> set (map fr_obj_id (tsk_files example_tables))"
    by (simp add: example_tables_def)
  have stored: "addFsFile example_session example_root None [] 4
      = Inr (0, Some 5, example_session_root)"
    using t [where db = example_session and fs_attr = None and path = "[]" and fsObjId = 4,
        THEN conjunct2, THEN conjunct2, rule_format, OF h, unfolded q m] l f
    by (simp add: example_session_root_def example_root_row_def addFile_row_def
        no_meta_def sql_unsigned_def example_tables_def)
  from t [where db = example_session and fs_attr = None and path = "[]" and fsObjId = 4,
      THEN conjunct1, rule_format, OF stored]
  have shape: "m_selectFileIdByMetaAddr example_session_root
        = m_selectFileIdByMetaAddr example_session"
    "\<exists>s s'. m_db example_session = Some s \<and> m_db example_session_root = Some s'
         \<and> tsk_objects s' = tsk_objects s @
              [\<lparr>o_obj_id = 5, o_par_obj_id = SInt 4,
                o_type = object_type_code DB_OBJECT_TYPE_FILE\<rparr>]
         \<and> length (tsk_files s') = Suc (length (tsk_files s))"
    by simp_all
  have row: "map_option tsk_files (m_db example_session_root) = Some [example_root_row]"
    by (simp add: example_session_root_db)
  have closed: "case m_db (TskDbSqlite_new False) of None \<Rightarrow> True
      | Some s \<Rightarrow> \<not> has_tables s \<or> new_obj_id s = None"
    by (simp add: TskDbSqlite_new_def)
  from t [where db = "TskDbSqlite_new False" and fs_attr = None and path = "[]"
      and fsObjId = 4, THEN conjunct2, THEN conjunct1] closed
  have refused: "addFsFile (TskDbSqlite_new False) example_root None [] 4
        = Inr (1, None, TskDbSqlite_new False)"
    by blast
  from stored shape row refused show ?thesis by (intro conjI)
qed

section \<open>Unnamed records\<close>

text \<open>
  C7. A record without a name makes \<open>addFsFile\<close> and \<open>addFile\<close> return 0 with no
  object id assigned and the state unchanged. It is the only such case: when either
  function returns 0 for a named record, it has assigned an object id and the object
  and file tables have one row more each.
\<close>

theorem unnamed_record_is_skipped:
  "(f_name fs_file = None \<longrightarrow>
      addFsFile db fs_file fs_attr path fsObjId = Inr (0, None, db)
      \<and> addFile db fs_file fs_attr path fsObjId parObjId = Inr (0, None, db))
   \<and> (f_name fs_file \<noteq> None
       \<and> (addFsFile db fs_file fs_attr path fsObjId = Inr (0, objId, db')
          \<or> addFile db fs_file fs_attr path fsObjId parObjId = Inr (0, objId, db'))
      \<longrightarrow> objId \<noteq> None
          \<and> (\<exists>s s'. m_db db = Some s \<and> m_db db' = Some s'
                \<and> length (tsk_objects s') = Suc (length (tsk_objects s))
                \<and> length (tsk_files s') = Suc (length (tsk_files s))))"
proof -
  have named: "objId \<noteq> None
          \<and> (\<exists>s s'. m_db d = Some s \<and> m_db db' = Some s'
                \<and> length (tsk_objects s') = Suc (length (tsk_objects s))
                \<and> length (tsk_files s') = Suc (length (tsk_files s)))"
    if "f_name fs_file \<noteq> None" "addFile d fs_file fs_attr path fsObjId par = Inr (0, objId, db')"
    for d par
    using addFile_shape [OF that(2)] that(1)
    by (cases objId) auto
  have "objId \<noteq> None
          \<and> (\<exists>s s'. m_db db = Some s \<and> m_db db' = Some s'
                \<and> length (tsk_objects s') = Suc (length (tsk_objects s))
                \<and> length (tsk_files s') = Suc (length (tsk_files s)))"
    if "f_name fs_file \<noteq> None" "addFsFile db fs_file fs_attr path fsObjId = Inr (0, objId, db')"
  proof -
    from addFsFile_cases [OF that(2)] obtain db0 par where
      "m_db db0 = m_db db" "addFile db0 fs_file fs_attr path fsObjId par = Inr (0, objId, db')"
      by auto
    with named [OF that(1), of db0 par] show ?thesis by simp
  qed
  with named show ?thesis
    by (auto simp: addFsFile_def addFile_def)
qed

text \<open>The unnamed example record is skipped; the named root directory is stored.\<close>

theorem unnamed_record_is_skipped_witness:
  "addFsFile example_session example_unnamed None [] 4 = Inr (0, None, example_session)
   \<and> addFile example_session example_unnamed None [] 4 4 = Inr (0, None, example_session)
   \<and> addFsFile example_session example_root None [] 4 = Inr (0, Some 5, example_session_root)
   \<and> (\<exists>s s'. m_db example_session = Some s \<and> m_db example_session_root = Some s'
         \<and> length (tsk_objects s') = Suc (length (tsk_objects s))
         \<and> length (tsk_files s') = Suc (length (tsk_files s)))"
proof -
  have u: "f_name example_unnamed = None" by (simp add: example_unnamed_def)
  have n: "f_name example_root \<noteq> None" by (simp add: example_root_def)
  from unnamed_record_is_skipped [where fs_file = example_unnamed and db = example_session
      and fs_attr = None and path = "[]" and fsObjId = 4 and parObjId = 4] u
  have "addFsFile example_session example_unnamed None [] 4 = Inr (0, None, example_session)
     \<and> addFile example_session example_unnamed None [] 4 4 = Inr (0, None, example_session)"
    by blast
  moreover from unnamed_record_is_skipped
      [where fs_file = example_root and db = example_session and fs_attr = None
        and path = "[]" and fsObjId = 4 and parObjId = 4 and objId = "Some 5"
        and db' = example_session_root]
    n example_root_ingested
  have "\<exists>s s'. m_db example_session = Some s \<and> m_db example_session_root = Some s'
         \<and> length (tsk_objects s') = Suc (length (tsk_objects s))
         \<and> length (tsk_files s') = Suc (length (tsk_files s))"
    by blast
  ultimately show ?thesis using example_root_ingested by blast
qed

section \<open>Carved files\<close>

text \<open>
  C6, as the specification states it, fails. A size of \<open>2^64 - 1\<close> is printed as an
  unsigned numeral beyond the engine's integers and stored as a floating-point value.
  A name of 1000 bytes makes the statement longer than the buffer: the call returns 1
  after the object was allocated, and no row of \<open>tsk_files\<close> is written.
\<close>

theorem addCarvedFileInfo_not_every_call:
  "(case addCarvedFileInfo (fresh_session False) 4 ''carve_00001234.jpg'' 18446744073709551615 of
      Inr (rc, objId, db') \<Rightarrow>
        rc = 0 \<and> map_option (map fr_size \<circ> tsk_files) (m_db db') = Some [SReal 18446744073709551615]
    | Inl _ \<Rightarrow> False)
   \<and> (case addCarvedFileInfo (fresh_session False) 4 (replicate 1000 CHR ''c'') 2048 of
      Inr (rc, objId, db') \<Rightarrow>
        rc = 1 \<and> objId = Some 1 \<and> map_option tsk_files (m_db db') = Some []
    | Inl _ \<Rightarrow> False)"
proof -
  let ?s = "\<lparr>encoding = UTF8, rowid_draws = no_draws,
             tsk_db_info = Some [TSK_SCHEMA_VER],
             has_tables = True, tsk_objects = [], tsk_image_info = [], tsk_vs_info = [],
             tsk_vs_parts = [], tsk_fs_info = [], tsk_files = [],
             tsk_file_layout = None, last_insert_rowid = 1\<rparr>"
  define long where "long = replicate 1000 CHR ''c''"
  have a: "m_db (fresh_session False) = Some ?s" by (simp add: fresh_session_eq)
  have b: "has_tables ?s" by simp
  have c: "new_obj_id ?s = Some 1" by (simp add: new_obj_id_def next_rowid_def)
  have n1: "NUL \<notin> set ''carve_00001234.jpg''" by (simp add: NUL_def)
  have n2: "NUL \<notin> set long" by (simp add: NUL_def long_def)
  have q1: "doubled_quotes ''carve_00001234.jpg'' = ''carve_00001234.jpg''"
    by (rule doubled_quotes_plain) (simp add: quote_def)
  have q2: "doubled_quotes long = long"
    by (rule doubled_quotes_plain) (simp add: quote_def long_def)
  have l1: "length (addCarved_sql 4 1 ''carve_00001234.jpg'' 18446744073709551615) < 1024"
    by (simp add: addCarved_sql_def files_insert_head_def dec_eval DB_FILES_TYPE_CARVED_def
        TSK_FS_NAME_TYPE_REG_def TSK_FS_META_TYPE_REG_def TSK_FS_NAME_FLAG_UNALLOC_def)
  have l2: "\<not> length (addCarved_sql 4 1 long 2048) < 1024"
    by (simp add: addCarved_sql_def files_insert_head_def long_def)
  have first: "addCarvedFileInfo (fresh_session False) 4 ''carve_00001234.jpg''
        18446744073709551615 =
      Inr (0, Some 1, (fresh_session False)\<lparr>m_db := Some (?s\<lparr>tsk_objects :=
             [\<lparr>o_obj_id = 1, o_par_obj_id = SInt 4,
               o_type = object_type_code DB_OBJECT_TYPE_FILE\<rparr>],
             tsk_files := [addCarved_row 4 1 (SText ''carve_00001234.jpg'') 18446744073709551615],
             last_insert_rowid := 1\<rparr>)\<rparr>)"
    using addCarvedFileInfo_result [OF n1 a b c, of 4 18446744073709551615, unfolded q1] l1
    by (simp add: Let_def)
  have second: "addCarvedFileInfo (fresh_session False) 4 long 2048 =
      Inr (1, Some 1, (fresh_session False)\<lparr>m_db := Some (?s\<lparr>tsk_objects :=
             [\<lparr>o_obj_id = 1, o_par_obj_id = SInt 4,
               o_type = object_type_code DB_OBJECT_TYPE_FILE\<rparr>],
             last_insert_rowid := 1\<rparr>)\<rparr>)"
    using addCarvedFileInfo_result [OF n2 a b c, of 4 2048, unfolded q2] l2
    by (simp add: Let_def)
  show ?thesis
    unfolding long_def [symmetric] first second
    by (simp add: addCarved_row_def sql_unsigned_def)
qed

text \<open>
  C6, amended. For a C string as the name, \<open>addCarvedFileInfo\<close> always returns, and
  never touches the prepared statement (no lookup). Without an open store, without
  tables or without a row id left it returns 1 and changes nothing. Otherwise it
  allocates an object whose parent is exactly the given file system id, and then: when
  the statement fits the buffer of 1024 bytes and the object id is not yet in
  \<open>tsk_files\<close>, it returns 0 and has appended one row: kind carved, attribute type and
  id, metadata address, the four times, mode, uid and gid \<open>NULL\<close>, directory and
  metadata type regular file, both flag fields unallocated, the name (as bytes in a
  UTF-8 database, converted in a UTF-16 database) and the size (exactly when it is
  below \<open>2^63\<close>, as a floating-point value otherwise); in the other case it returns 1
  with the object allocated and no row written.
\<close>

theorem addCarvedFileInfo_stores_carved_row:
  assumes "NUL \<notin> set fileName"
  shows "(\<exists>rc objId db'. addCarvedFileInfo db fsObjId fileName sz = Inr (rc, objId, db')
            \<and> m_selectFileIdByMetaAddr db' = m_selectFileIdByMetaAddr db)
    \<and> ((case m_db db of None \<Rightarrow> True | Some s \<Rightarrow> \<not> has_tables s \<or> new_obj_id s = None)
          \<longrightarrow> addCarvedFileInfo db fsObjId fileName sz = Inr (1, None, db))
    \<and> (\<forall>s r. m_db db = Some s \<and> has_tables s \<and> new_obj_id s = Some r \<longrightarrow>
          addCarvedFileInfo db fsObjId fileName sz =
            (if length (addCarved_sql fsObjId r (doubled_quotes fileName) sz) < 1024
                \<and> r \<notin> set (map fr_obj_id (tsk_files s))
             then Inr (0, Some r,
                    db\<lparr>m_db := Some (s\<lparr>tsk_objects := tsk_objects s @
                            [\<lparr>o_obj_id = r, o_par_obj_id = SInt (sint fsObjId),
                              o_type = object_type_code DB_OBJECT_TYPE_FILE\<rparr>],
                          tsk_files := tsk_files s @
                            [\<lparr>fr_fs_obj_id = SInt (sint fsObjId), fr_obj_id = r,
                              fr_type = SInt DB_FILES_TYPE_CARVED,
                              fr_attr_type = SNull, fr_attr_id = SNull,
                              fr_name = (case encoding s of
                                           UTF8 \<Rightarrow> SText fileName
                                         | UTF16 \<Rightarrow> SText16 fileName),
                              fr_meta_addr = SNull,
                              fr_dir_type = SInt TSK_FS_NAME_TYPE_REG,
                              fr_meta_type = SInt TSK_FS_META_TYPE_REG,
                              fr_dir_flags = SInt TSK_FS_NAME_FLAG_UNALLOC,
                              fr_meta_flags = SInt TSK_FS_NAME_FLAG_UNALLOC,
                              fr_size = (if unat sz < 2 ^ 63 then SInt (int (unat sz))
                                         else SReal (unat sz)),
                              fr_crtime = SNull, fr_ctime = SNull, fr_atime = SNull,
                              fr_mtime = SNull, fr_mode = SNull, fr_gid = SNull,
                              fr_uid = SNull\<rparr>],
                          last_insert_rowid := int (length (tsk_files s)) + 1\<rparr>)\<rparr>)
             else Inr (1, Some r,
                    db\<lparr>m_db := Some (s\<lparr>tsk_objects := tsk_objects s @
                            [\<lparr>o_obj_id = r, o_par_obj_id = SInt (sint fsObjId),
                              o_type = object_type_code DB_OBJECT_TYPE_FILE\<rparr>],
                          last_insert_rowid := r\<rparr>)\<rparr>)))"
proof (intro conjI allI impI)
  from addCarvedFileInfo_total obtain rc objId db' where
    r: "addCarvedFileInfo db fsObjId fileName sz = Inr (rc, objId, db')" by blast
  from addCarvedFileInfo_shape [OF r]
  have "m_selectFileIdByMetaAddr db' = m_selectFileIdByMetaAddr db" by simp
  with r show "\<exists>rc objId db'. addCarvedFileInfo db fsObjId fileName sz = Inr (rc, objId, db')
            \<and> m_selectFileIdByMetaAddr db' = m_selectFileIdByMetaAddr db"
    by blast
next
  assume "case m_db db of None \<Rightarrow> True | Some s \<Rightarrow> \<not> has_tables s \<or> new_obj_id s = None"
  then show "addCarvedFileInfo db fsObjId fileName sz = Inr (1, None, db)"
    by (rule addCarvedFileInfo_refused)
next
  fix s r
  assume a: "m_db db = Some s \<and> has_tables s \<and> new_obj_id s = Some r"
  then have b: "m_db db = Some s" "has_tables s" "new_obj_id s = Some r" by simp_all
  have cell: "text_cell (encoding s) fileName =
      (case encoding s of UTF8 \<Rightarrow> SText fileName | UTF16 \<Rightarrow> SText16 fileName)"
    by (cases "encoding s") simp_all
  show "addCarvedFileInfo db fsObjId fileName sz =
            (if length (addCarved_sql fsObjId r (doubled_quotes fileName) sz) < 1024
                \<and> r \<notin> set (map fr_obj_id (tsk_files s))
             then Inr (0, Some r,
                    db\<lparr>m_db := Some (s\<lparr>tsk_objects := tsk_objects s @
                            [\<lparr>o_obj_id = r, o_par_obj_id = SInt (sint fsObjId),
                              o_type = object_type_code DB_OBJECT_TYPE_FILE\<rparr>],
                          tsk_files := tsk_files s @
                            [\<lparr>fr_fs_obj_id = SInt (sint fsObjId), fr_obj_id = r,
                              fr_type = SInt DB_FILES_TYPE_CARVED,
                              fr_attr_type = SNull, fr_attr_id = SNull,
                              fr_name = (case encoding s of
                                           UTF8 \<Rightarrow> SText fileName
                                         | UTF16 \<Rightarrow> SText16 fileName),
                              fr_meta_addr = SNull,
                              fr_dir_type = SInt TSK_FS_NAME_TYPE_REG,
                              fr_meta_type = SInt TSK_FS_META_TYPE_REG,
                              fr_dir_flags = SInt TSK_FS_NAME_FLAG_UNALLOC,
                              fr_meta_flags = SInt TSK_FS_NAME_FLAG_UNALLOC,
                              fr_size = (if unat sz < 2 ^ 63 then SInt (int (unat sz))
                                         else SReal (unat sz)),
                              fr_crtime = SNull, fr_ctime = SNull, fr_atime = SNull,
                              fr_mtime = SNull, fr_mode = SNull, fr_gid = SNull,
                              fr_uid = SNull\<rparr>],
                          last_insert_rowid := int (length (tsk_files s)) + 1\<rparr>)\<rparr>)
             else Inr (1, Some r,
                    db\<lparr>m_db := Some (s\<lparr>tsk_objects := tsk_objects s @
                            [\<lparr>o_obj_id = r, o_par_obj_id = SInt (sint fsObjId),
                              o_type = object_type_code DB_OBJECT_TYPE_FILE\<rparr>],
                          last_insert_rowid := r\<rparr>)\<rparr>))"
    unfolding addCarvedFileInfo_result [OF assms b] cell
    by (simp add: Let_def addCarved_row_def sql_unsigned_def)
qed

text \<open>
  On an object that was never opened the call is refused; in the example session the
  carved file \<open>carve_00001234.jpg\<close> of 2048 bytes under file system 4 is stored; and a
  name of 1000 bytes leaves the object 5 without a row.
\<close>

theorem addCarvedFileInfo_stores_carved_row_witness:
  "addCarvedFileInfo (TskDbSqlite_new False) 4 ''carve_00001234.jpg'' 2048
     = Inr (1, None, TskDbSqlite_new False)
   \<and> addCarvedFileInfo example_session 4 ''carve_00001234.jpg'' 2048
     = Inr (0, Some 5,
         example_session\<lparr>m_db := Some (example_tables\<lparr>tsk_objects :=
             tsk_objects example_tables @
               [\<lparr>o_obj_id = 5, o_par_obj_id = SInt 4,
                 o_type = object_type_code DB_OBJECT_TYPE_FILE\<rparr>],
             tsk_files :=
               [\<lparr>fr_fs_obj_id = SInt 4, fr_obj_id = 5, fr_type = SInt DB_FILES_TYPE_CARVED,
                 fr_attr_type = SNull, fr_attr_id = SNull,
                 fr_name = SText ''carve_00001234.jpg'', fr_meta_addr = SNull,
                 fr_dir_type = SInt TSK_FS_NAME_TYPE_REG,
                 fr_meta_type = SInt TSK_FS_META_TYPE_REG,
                 fr_dir_flags = SInt TSK_FS_NAME_FLAG_UNALLOC,
                 fr_meta_flags = SInt TSK_FS_NAME_FLAG_UNALLOC,
                 fr_size = SInt 2048,
                 fr_crtime = SNull, fr_ctime = SNull, fr_atime = SNull, fr_mtime = SNull,
                 fr_mode = SNull, fr_gid = SNull, fr_uid = SNull\<rparr>],
             last_insert_rowid := 1\<rparr>)\<rparr>)
   \<and> addCarvedFileInfo example_session 4 (replicate 1000 CHR ''c'') 2048
     = Inr (1, Some 5,
         example_session\<lparr>m_db := Some (example_tables\<lparr>tsk_objects :=
             tsk_objects example_tables @
               [\<lparr>o_obj_id = 5, o_par_obj_id = SInt 4,
                 o_type = object_type_code DB_OBJECT_TYPE_FILE\<rparr>],
             last_insert_rowid := 5\<rparr>)\<rparr>)"
proof -
  define long where "long = replicate 1000 CHR ''c''"
  have n1: "NUL \<notin> set ''carve_00001234.jpg''" by (simp add: NUL_def)
  have n2: "NUL \<notin> set long" by (simp add: NUL_def long_def)
  have q1: "doubled_quotes ''carve_00001234.jpg'' = ''carve_00001234.jpg''"
    by (rule doubled_quotes_plain) (simp add: quote_def)
  have q2: "doubled_quotes long = long"
    by (rule doubled_quotes_plain) (simp add: quote_def long_def)
  have l1: "length (addCarved_sql 4 5 ''carve_00001234.jpg'' 2048) < 1024"
    by (simp add: addCarved_sql_def files_insert_head_def dec_eval DB_FILES_TYPE_CARVED_def
        TSK_FS_NAME_TYPE_REG_def TSK_FS_META_TYPE_REG_def TSK_FS_NAME_FLAG_UNALLOC_def)
  have l2: "\<not> length (addCarved_sql 4 5 long 2048) < 1024"
    by (simp add: addCarved_sql_def files_insert_head_def long_def)
  have closed: "case m_db (TskDbSqlite_new False) of None \<Rightarrow> True
      | Some s \<Rightarrow> \<not> has_tables s \<or> new_obj_id s = None"
    by (simp add: TskDbSqlite_new_def)
  have e: "m_db example_session = Some example_tables \<and> has_tables example_tables
      \<and> new_obj_id example_tables = Some 5"
    by (simp add: example_tables_facts example_next_rowid)
  have first: "addCarvedFileInfo (TskDbSqlite_new False) 4 ''carve_00001234.jpg'' 2048
     = Inr (1, None, TskDbSqlite_new False)"
    using addCarvedFileInfo_stores_carved_row [OF n1, where db = "TskDbSqlite_new False"
        and fsObjId = 4 and sz = 2048, THEN conjunct2, THEN conjunct1] closed
    by blast
  have second: "addCarvedFileInfo example_session 4 ''carve_00001234.jpg'' 2048
     = Inr (0, Some 5,
         example_session\<lparr>m_db := Some (example_tables\<lparr>tsk_objects :=
             tsk_objects example_tables @
               [\<lparr>o_obj_id = 5, o_par_obj_id = SInt 4,
                 o_type = object_type_code DB_OBJECT_TYPE_FILE\<rparr>],
             tsk_files :=
               [\<lparr>fr_fs_obj_id = SInt 4, fr_obj_id = 5, fr_type = SInt DB_FILES_TYPE_CARVED,
                 fr_attr_type = SNull, fr_attr_id = SNull,
                 fr_name = SText ''carve_00001234.jpg'', fr_meta_addr = SNull,
                 fr_dir_type = SInt TSK_FS_NAME_TYPE_REG,
                 fr_meta_type = SInt TSK_FS_META_TYPE_REG,
                 fr_dir_flags = SInt TSK_FS_NAME_FLAG_UNALLOC,
                 fr_meta_flags = SInt TSK_FS_NAME_FLAG_UNALLOC,
                 fr_size = SInt 2048,
                 fr_crtime = SNull, fr_ctime = SNull, fr_atime = SNull, fr_mtime = SNull,
                 fr_mode = SNull, fr_gid = SNull, fr_uid = SNull\<rparr>],
             last_insert_rowid := 1\<rparr>)\<rparr>)"
    using addCarvedFileInfo_stores_carved_row [OF n1, where db = example_session
        and fsObjId = 4 and sz = 2048, THEN conjunct2, THEN conjunct2, rule_format, OF e,
        unfolded q1] l1
    by (simp add: example_tables_facts)
  have third: "addCarvedFileInfo example_session 4 long 2048
     = Inr (1, Some 5,
         example_session\<lparr>m_db := Some (example_tables\<lparr>tsk_objects :=
             tsk_objects example_tables @
               [\<lparr>o_obj_id = 5, o_par_obj_id = SInt 4,
                 o_type = object_type_code DB_OBJECT_TYPE_FILE\<rparr>],
             last_insert_rowid := 5\<rparr>)\<rparr>)"
    using addCarvedFileInfo_stores_carved_row [OF n2, where db = example_session
        and fsObjId = 4 and sz = 2048, THEN conjunct2, THEN conjunct2, rule_format, OF e,
        unfolded q2] l2
    by simp
  from first second third show ?thesis
    unfolding long_def by (intro conjI)
qed


section \<open>Stored names\<close>

text \<open>
  C4, as the specification states it (names of any length), fails: for a carved file
  whose name is 500 quotes the doubled name has 1000 bytes, the statement does not fit
  the 1024 byte buffer, the call returns 1 and no row of \<open>tsk_files\<close> is written.
\<close>

theorem long_name_is_not_stored:
  "NUL \<notin> set (replicate 500 quote)
   \<and> (case addCarvedFileInfo example_session 4 (replicate 500 quote) 10 of
        Inr (rc, objId, db') \<Rightarrow>
          rc = 1 \<and> objId = Some 5 \<and> map_option tsk_files (m_db db') = Some []
      | Inl _ \<Rightarrow> False)"
proof -
  define long where "long = replicate 500 quote"
  have n: "NUL \<notin> set long" by (simp add: long_def NUL_def quote_def)
  have q: "doubled_quotes long = replicate 1000 quote"
    by (simp add: long_def doubled_quotes_all_quotes)
  have l: "\<not> length (addCarved_sql 4 5 (replicate 1000 quote) 10) < 1024"
    by (simp add: addCarved_sql_def files_insert_head_def)
  have "addCarvedFileInfo example_session 4 long 10 =
      Inr (1, Some 5, example_session\<lparr>m_db := Some (example_tables\<lparr>tsk_objects :=
             tsk_objects example_tables @
             [\<lparr>o_obj_id = 5, o_par_obj_id = SInt 4,
               o_type = object_type_code DB_OBJECT_TYPE_FILE\<rparr>],
             last_insert_rowid := 5\<rparr>)\<rparr>)"
    using addCarvedFileInfo_result [OF n example_tables_facts(1,2) example_next_rowid,
        of 4 10, unfolded q] l
    by (simp add: Let_def)
  with n show ?thesis
    unfolding long_def by (simp add: example_tables_facts)
qed

text \<open>
  C4, amended. For a file name and a stream name that are C strings, unless a stream
  name is appended and every byte of both names is a quote: the text that
  \<open>addCarvedFileInfo\<close> and \<open>addFile\<close> put between the quotes of the statement is the
  name (for \<open>addFile\<close> with the colon and the stream name it appends) with every quote
  doubled and every other byte kept, and decoding that text as SQLite does gives back
  the original bytes. A call that returns 0 has handed exactly those original bytes
  to the engine as the name of the new row, and its statement was shorter than 1024
  characters; a database with the text encoding UTF-8 keeps the bytes as they are,
  one with UTF-16 stores their conversion. On an open store with tables, a row id
  left and the object id not yet in \<open>tsk_files\<close>, the call returns 0 and stores the
  name when the statement is shorter than 1024 characters, and returns 1 with no row
  written when it is not.
\<close>

theorem doubled_name_round_trip:
  assumes "NUL \<notin> set fname" and "NUL \<notin> set (attr_chars fs_attr)"
    and "\<not> (0 < attr_nlen_of fs_attr \<and> all_quotes fname \<and> all_quotes (attr_chars fs_attr))"
  shows "(\<exists>buf. addCarved_name fname = Some buf \<and> c_str buf = Some (doubled_quotes fname))
    \<and> (\<exists>buf. addFile_name fname fs_attr = Some buf
           \<and> c_str buf = Some (doubled_quotes (fname @ display_suffix fs_attr)))
    \<and> sql_string_body (doubled_quotes fname) = Some fname
    \<and> sql_string_body (doubled_quotes (fname @ display_suffix fs_attr))
        = Some (fname @ display_suffix fs_attr)
    \<and> (addCarvedFileInfo db fsObjId' fname sz = Inr (0, objId, db') \<longrightarrow>
          (\<exists>s s' r. m_db db = Some s \<and> m_db db' = Some s' \<and> objId = Some r
             \<and> map fr_name (tsk_files s') = map fr_name (tsk_files s) @
                  [case encoding s of UTF8 \<Rightarrow> SText fname | UTF16 \<Rightarrow> SText16 fname]
             \<and> length (addCarved_sql fsObjId' r (doubled_quotes fname) sz) < 1024))
    \<and> (f_name fs_file = Some nm \<and> fn_name nm = fname
        \<and> addFile db fs_file fs_attr path fsObjId parObjId = Inr (0, objId, db') \<longrightarrow>
          (\<exists>s s' r. m_db db = Some s \<and> m_db db' = Some s' \<and> objId = Some r
             \<and> map fr_name (tsk_files s') = map fr_name (tsk_files s) @
                  [case encoding s of
                     UTF8 \<Rightarrow> SText (fname @ display_suffix fs_attr)
                   | UTF16 \<Rightarrow> SText16 (fname @ display_suffix fs_attr)]
             \<and> length (addFile_sql fsObjId r (addFile_type fs_attr) (addFile_idx fs_attr)
                         (doubled_quotes (fname @ display_suffix fs_attr)) nm
                         (addFile_meta fs_file)) < 1024))
    \<and> (\<forall>s r. m_db db = Some s \<and> has_tables s \<and> new_obj_id s = Some r
          \<and> r \<notin> set (map fr_obj_id (tsk_files s)) \<longrightarrow>
          (\<exists>db1 s1. m_db db1 = Some s1
             \<and> (if length (addCarved_sql fsObjId' r (doubled_quotes fname) sz) < 1024
                 then addCarvedFileInfo db fsObjId' fname sz = Inr (0, Some r, db1)
                      \<and> map fr_name (tsk_files s1) = map fr_name (tsk_files s) @
                           [case encoding s of UTF8 \<Rightarrow> SText fname | UTF16 \<Rightarrow> SText16 fname]
                 else addCarvedFileInfo db fsObjId' fname sz = Inr (1, Some r, db1)
                      \<and> tsk_files s1 = tsk_files s)))
    \<and> (\<forall>s r. f_name fs_file = Some nm \<and> fn_name nm = fname
          \<and> m_db db = Some s \<and> has_tables s \<and> new_obj_id s = Some r
          \<and> r \<notin> set (map fr_obj_id (tsk_files s)) \<longrightarrow>
          (\<exists>db1 s1. m_db db1 = Some s1
             \<and> (if length (addFile_sql fsObjId r (addFile_type fs_attr) (addFile_idx fs_attr)
                             (doubled_quotes (fname @ display_suffix fs_attr)) nm
                             (addFile_meta fs_file)) < 1024
                 then addFile db fs_file fs_attr path fsObjId parObjId = Inr (0, Some r, db1)
                      \<and> map fr_name (tsk_files s1) = map fr_name (tsk_files s) @
                           [case encoding s of
                              UTF8 \<Rightarrow> SText (fname @ display_suffix fs_attr)
                            | UTF16 \<Rightarrow> SText16 (fname @ display_suffix fs_attr)]
                 else addFile db fs_file fs_attr path fsObjId parObjId = Inr (1, Some r, db1)
                      \<and> tsk_files s1 = tsk_files s)))"
proof -
  have carved: "\<exists>s s' r. m_db db = Some s \<and> m_db db' = Some s' \<and> objId = Some r
             \<and> map fr_name (tsk_files s') = map fr_name (tsk_files s) @
                  [case encoding s of UTF8 \<Rightarrow> SText fname | UTF16 \<Rightarrow> SText16 fname]
             \<and> length (addCarved_sql fsObjId' r (doubled_quotes fname) sz) < 1024"
    if ok: "addCarvedFileInfo db fsObjId' fname sz = Inr (0, objId, db')"
  proof -
    from addCarvedFileInfo_success [OF assms(1) ok] obtain s r where
      "m_db db = Some s" "objId = Some r"
      "length (addCarved_sql fsObjId' r (doubled_quotes fname) sz) < 1024"
      "db' = db\<lparr>m_db := Some (s\<lparr>tsk_objects := tsk_objects s @
                    [\<lparr>o_obj_id = r, o_par_obj_id = SInt (sint fsObjId'),
                      o_type = object_type_code DB_OBJECT_TYPE_FILE\<rparr>],
                  tsk_files := tsk_files s @
                    [addCarved_row fsObjId' r (text_cell (encoding s) fname) sz],
                  last_insert_rowid := int (length (tsk_files s)) + 1\<rparr>)\<rparr>"
      by blast
    then show ?thesis by (simp add: addCarved_row_def text_cell_cases)
  qed
  have named: "\<exists>s s' r. m_db db = Some s \<and> m_db db' = Some s' \<and> objId = Some r
             \<and> map fr_name (tsk_files s') = map fr_name (tsk_files s) @
                  [case encoding s of
                     UTF8 \<Rightarrow> SText (fname @ display_suffix fs_attr)
                   | UTF16 \<Rightarrow> SText16 (fname @ display_suffix fs_attr)]
             \<and> length (addFile_sql fsObjId r (addFile_type fs_attr) (addFile_idx fs_attr)
                         (doubled_quotes (fname @ display_suffix fs_attr)) nm
                         (addFile_meta fs_file)) < 1024"
    if nm: "f_name fs_file = Some nm" "fn_name nm = fname"
      and ok: "addFile db fs_file fs_attr path fsObjId parObjId = Inr (0, objId, db')"
  proof -
    from assms nm(2) have a: "NUL \<notin> set (fn_name nm)"
      "\<not> (0 < attr_nlen_of fs_attr \<and> all_quotes (fn_name nm) \<and> all_quotes (attr_chars fs_attr))"
      by simp_all
    from addFile_success [OF nm(1) a(1) assms(2) a(2) ok] obtain s r where
      "m_db db = Some s" "objId = Some r"
      "length (addFile_sql fsObjId r (addFile_type fs_attr) (addFile_idx fs_attr)
               (doubled_quotes (fn_name nm @ display_suffix fs_attr)) nm
               (addFile_meta fs_file)) < 1024"
      "db' = db\<lparr>m_db := Some (s\<lparr>tsk_objects := tsk_objects s @
                    [\<lparr>o_obj_id = r, o_par_obj_id = SInt (sint parObjId),
                      o_type = object_type_code DB_OBJECT_TYPE_FILE\<rparr>],
                  tsk_files := tsk_files s @
                    [addFile_row fsObjId r (addFile_type fs_attr) (addFile_idx fs_attr)
                       (text_cell (encoding s) (fn_name nm @ display_suffix fs_attr)) nm
                       (addFile_meta fs_file)],
                  last_insert_rowid := int (length (tsk_files s)) + 1\<rparr>)\<rparr>"
      by blast
    with nm(2) show ?thesis
      by (simp add: addFile_row_def text_cell_cases del: doubled_quotes_append)
  qed
  have carved_exact: "\<exists>db1 s1. m_db db1 = Some s1
             \<and> (if length (addCarved_sql fsObjId' r (doubled_quotes fname) sz) < 1024
                 then addCarvedFileInfo db fsObjId' fname sz = Inr (0, Some r, db1)
                      \<and> map fr_name (tsk_files s1) = map fr_name (tsk_files s) @
                           [case encoding s of UTF8 \<Rightarrow> SText fname | UTF16 \<Rightarrow> SText16 fname]
                 else addCarvedFileInfo db fsObjId' fname sz = Inr (1, Some r, db1)
                      \<and> tsk_files s1 = tsk_files s)"
    if b: "m_db db = Some s" "has_tables s" "new_obj_id s = Some r"
      and f: "r \<notin> set (map fr_obj_id (tsk_files s))" for s r
    using addCarvedFileInfo_result [OF assms(1) b, of fsObjId' sz] f
    by (cases "length (addCarved_sql fsObjId' r (doubled_quotes fname) sz) < 1024")
      (simp_all add: Let_def addCarved_row_def text_cell_cases)
  have named_exact: "\<exists>db1 s1. m_db db1 = Some s1
             \<and> (if length (addFile_sql fsObjId r (addFile_type fs_attr) (addFile_idx fs_attr)
                             (doubled_quotes (fname @ display_suffix fs_attr)) nm
                             (addFile_meta fs_file)) < 1024
                 then addFile db fs_file fs_attr path fsObjId parObjId = Inr (0, Some r, db1)
                      \<and> map fr_name (tsk_files s1) = map fr_name (tsk_files s) @
                           [case encoding s of
                              UTF8 \<Rightarrow> SText (fname @ display_suffix fs_attr)
                            | UTF16 \<Rightarrow> SText16 (fname @ display_suffix fs_attr)]
                 else addFile db fs_file fs_attr path fsObjId parObjId = Inr (1, Some r, db1)
                      \<and> tsk_files s1 = tsk_files s)"
    if nm: "f_name fs_file = Some nm" "fn_name nm = fname"
      and b: "m_db db = Some s" "has_tables s" "new_obj_id s = Some r"
      and f: "r \<notin> set (map fr_obj_id (tsk_files s))" for s r
  proof -
    from assms nm(2) have a: "NUL \<notin> set (fn_name nm)"
      "\<not> (0 < attr_nlen_of fs_attr \<and> all_quotes (fn_name nm) \<and> all_quotes (attr_chars fs_attr))"
      by simp_all
    from addFile_result [OF nm(1) a(1) assms(2) a(2) b, of path fsObjId parObjId] f nm(2)
    show ?thesis
      by (cases "length (addFile_sql fsObjId r (addFile_type fs_attr) (addFile_idx fs_attr)
                             (doubled_quotes (fname @ display_suffix fs_attr)) nm
                             (addFile_meta fs_file)) < 1024")
        (simp_all add: Let_def addFile_row_def text_cell_cases del: doubled_quotes_append)
  qed
  from addFile_name_c_str [OF assms(1,2)] assms(3)
  have "\<exists>buf. addFile_name fname fs_attr = Some buf
           \<and> c_str buf = Some (doubled_quotes (fname @ display_suffix fs_attr))"
    by auto
  with addCarved_name_c_str [OF assms(1)] carved named carved_exact named_exact show ?thesis
    by (simp only: sql_string_body_doubled) blast
qed


text \<open>
  The file \<open>it's\<close>, carved and as a file with the stream \<open>user's\<close>: the text is
  \<open>it''s:user''s\<close> and the stored name \<open>it's:user's\<close>; in a session opened by
  the constructor for wide paths the name is stored converted. A carved file whose
  name is 500 quotes is allocated the object 5 and gets no row.
\<close>

theorem doubled_name_round_trip_witness:
  "(\<exists>buf. addFile_name example_quoted_name (Some example_stream) = Some buf
       \<and> c_str buf = Some (''it'' @ [quote, quote] @ ''s:user'' @ [quote, quote] @ ''s''))
   \<and> sql_string_body (''it'' @ [quote, quote] @ ''s:user'' @ [quote, quote] @ ''s'')
       = Some (''it'' @ [quote] @ ''s:user'' @ [quote] @ ''s'')
   \<and> (\<exists>db' s'. addCarvedFileInfo example_session 4 example_quoted_name 10
          = Inr (0, Some 5, db')
        \<and> m_db db' = Some s'
        \<and> map fr_name (tsk_files s') = [SText (''it'' @ [quote] @ ''s'')])
   \<and> (\<exists>db' s'. addFile example_session_root example_quoted_file (Some example_stream) [] 4 5
          = Inr (0, Some 6, db')
        \<and> m_db db' = Some s'
        \<and> map fr_name (tsk_files s')
            = [SText ''.'', SText (''it'' @ [quote] @ ''s:user'' @ [quote] @ ''s'')])
   \<and> (\<exists>db' s'. addCarvedFileInfo example_session 4 (replicate 500 quote) 10
          = Inr (1, Some 5, db')
        \<and> m_db db' = Some s' \<and> tsk_files s' = [])
   \<and> (\<exists>db' s'. addFile (fresh_session_wide False) example_quoted_file (Some example_stream)
            [] 4 4
          = Inr (0, Some 1, db')
        \<and> m_db db' = Some s'
        \<and> map fr_name (tsk_files s')
            = [SText16 (''it'' @ [quote] @ ''s:user'' @ [quote] @ ''s'')])"
proof -
  let ?nm = "\<lparr>fn_name = example_quoted_name, fn_meta_addr = 66, fn_par_addr = 5,
              fn_type = 5, fn_flags = 1\<rparr>"
  have n: "f_name example_quoted_file = Some ?nm \<and> fn_name ?nm = example_quoted_name"
    by (simp add: example_quoted_file_def)
  have z: "NUL \<notin> set example_quoted_name" "NUL \<notin> set (attr_chars (Some example_stream))"
    "\<not> (0 < attr_nlen_of (Some example_stream) \<and> all_quotes example_quoted_name
        \<and> all_quotes (attr_chars (Some example_stream)))"
    by (simp_all add: example_stream_counted example_quoted_name_def all_quotes_def)
      (simp_all add: NUL_def quote_def)
  have names: "example_quoted_name = ''it'' @ [quote] @ ''s''"
    "example_quoted_name @ display_suffix (Some example_stream)
       = ''it'' @ [quote] @ ''s:user'' @ [quote] @ ''s''"
    by (simp_all add: example_quoted_name_def example_stream_counted)
  note a = doubled_name_round_trip [OF z]
  have 1: "\<exists>buf. addFile_name example_quoted_name (Some example_stream) = Some buf
       \<and> c_str buf = Some (''it'' @ [quote, quote] @ ''s:user'' @ [quote, quote] @ ''s'')"
    using a [THEN conjunct2, THEN conjunct1] unfolding example_display_doubled .
  have 2: "sql_string_body (''it'' @ [quote, quote] @ ''s:user'' @ [quote, quote] @ ''s'')
       = Some (''it'' @ [quote] @ ''s:user'' @ [quote] @ ''s'')"
    using a [THEN conjunct2, THEN conjunct2, THEN conjunct2, THEN conjunct1,
        unfolded example_display_doubled, unfolded names(2)] .
  from a [THEN conjunct2, THEN conjunct2, THEN conjunct2, THEN conjunct2, THEN conjunct1,
      THEN mp, OF example_quoted_carved]
  obtain s s' where c: "m_db example_session = Some s"
    "m_db (example_session\<lparr>m_db := Some (example_tables\<lparr>tsk_objects :=
                tsk_objects example_tables @
                [\<lparr>o_obj_id = 5, o_par_obj_id = SInt 4,
                  o_type = object_type_code DB_OBJECT_TYPE_FILE\<rparr>],
              tsk_files := [addCarved_row 4 5 (SText example_quoted_name) 10],
              last_insert_rowid := 1\<rparr>)\<rparr>) = Some s'"
    "map fr_name (tsk_files s') = map fr_name (tsk_files s) @
       [case encoding s of UTF8 \<Rightarrow> SText example_quoted_name
        | UTF16 \<Rightarrow> SText16 example_quoted_name]"
    by blast
  from c(1) have "s = example_tables" by (simp add: example_tables_facts)
  with c(3) have c': "map fr_name (tsk_files s') = [SText (''it'' @ [quote] @ ''s'')]"
    by (simp add: example_tables_facts names(1))
  have 3: "\<exists>db' s'. addCarvedFileInfo example_session 4 example_quoted_name 10
          = Inr (0, Some 5, db')
        \<and> m_db db' = Some s' \<and> map fr_name (tsk_files s') = [SText (''it'' @ [quote] @ ''s'')]"
    by (intro exI conjI) (rule example_quoted_carved, rule c(2), rule c')
  from a [THEN conjunct2, THEN conjunct2, THEN conjunct2, THEN conjunct2, THEN conjunct2,
      THEN conjunct1, THEN mp,
      OF conjI [OF n [THEN conjunct1] conjI [OF n [THEN conjunct2]
        example_quoted_file_ingested]]]
  obtain t t' where d: "m_db example_session_root = Some t"
    "m_db (example_session_root\<lparr>m_db := Some (example_tables\<lparr>tsk_objects :=
                tsk_objects example_tables @
                [\<lparr>o_obj_id = 5, o_par_obj_id = SInt 4, o_type = 4\<rparr>,
                 \<lparr>o_obj_id = 6, o_par_obj_id = SInt 5,
                  o_type = object_type_code DB_OBJECT_TYPE_FILE\<rparr>],
              tsk_files := [example_root_row,
                addFile_row 4 6 128 1
                  (SText (example_quoted_name @ display_suffix (Some example_stream)))
                  \<lparr>fn_name = example_quoted_name, fn_meta_addr = 66, fn_par_addr = 5,
                    fn_type = 5, fn_flags = 1\<rparr> no_meta],
              last_insert_rowid := 2\<rparr>)\<rparr>) = Some t'"
    "map fr_name (tsk_files t')
       = map fr_name (tsk_files t) @
         [case encoding t of
            UTF8 \<Rightarrow> SText (example_quoted_name @ display_suffix (Some example_stream))
          | UTF16 \<Rightarrow> SText16 (example_quoted_name @ display_suffix (Some example_stream))]"
    by blast
  from d(1) have "map fr_name (tsk_files t) = [SText ''.'']" "encoding t = UTF8"
    by (auto simp: example_session_root_db example_root_row_def example_tables_facts)
  with d(3) have d': "map fr_name (tsk_files t')
      = [SText ''.'', SText (''it'' @ [quote] @ ''s:user'' @ [quote] @ ''s'')]"
    by (simp add: names(2))
  have 4: "\<exists>db' s'. addFile example_session_root example_quoted_file (Some example_stream) [] 4 5
          = Inr (0, Some 6, db')
        \<and> m_db db' = Some s'
        \<and> map fr_name (tsk_files s')
            = [SText ''.'', SText (''it'' @ [quote] @ ''s:user'' @ [quote] @ ''s'')]"
    by (intro exI conjI) (rule example_quoted_file_ingested, rule d(2), rule d')
  define long where "long = replicate 500 quote"
  have ln: "NUL \<notin> set long" "NUL \<notin> set (attr_chars None)"
    "\<not> (0 < attr_nlen_of None \<and> all_quotes long \<and> all_quotes (attr_chars None))"
    by (simp_all add: long_def NUL_def quote_def)
  have lq: "doubled_quotes long = replicate 1000 quote"
    by (simp add: long_def doubled_quotes_all_quotes)
  have ll: "\<not> length (addCarved_sql 4 5 (replicate 1000 quote) 10) < 1024"
    by (simp add: addCarved_sql_def files_insert_head_def)
  have e: "m_db example_session = Some example_tables \<and> has_tables example_tables
      \<and> new_obj_id example_tables = Some 5
      \<and> 5 \<notin> set (map fr_obj_id (tsk_files example_tables))"
    by (simp add: example_tables_facts example_next_rowid)
  from doubled_name_round_trip [OF ln, where db = example_session and fsObjId' = 4 and sz = 10,
      THEN conjunct2, THEN conjunct2, THEN conjunct2, THEN conjunct2, THEN conjunct2,
      THEN conjunct2, THEN conjunct1, rule_format, OF e, unfolded lq] ll
  have 5: "\<exists>db' s'. addCarvedFileInfo example_session 4 long 10 = Inr (1, Some 5, db')
        \<and> m_db db' = Some s' \<and> tsk_files s' = []"
    by (simp add: example_tables_facts) blast
  let ?w = "\<lparr>encoding = UTF16, rowid_draws = no_draws,
             tsk_db_info = Some [TSK_SCHEMA_VER],
             has_tables = True, tsk_objects = [], tsk_image_info = [], tsk_vs_info = [],
             tsk_vs_parts = [], tsk_fs_info = [], tsk_files = [],
             tsk_file_layout = None, last_insert_rowid = 1\<rparr>"
  have w: "f_name example_quoted_file = Some ?nm \<and> fn_name ?nm = example_quoted_name
      \<and> m_db (fresh_session_wide False) = Some ?w \<and> has_tables ?w
      \<and> new_obj_id ?w = Some 1 \<and> 1 \<notin> set (map fr_obj_id (tsk_files ?w))"
    by (simp add: example_quoted_file_def fresh_session_wide_eq new_obj_id_empty)
  have m: "addFile_meta example_quoted_file = no_meta"
    by (simp add: addFile_meta_def example_quoted_file_def)
  have wl: "length (addFile_sql 4 1 128 1
      (''it'' @ [quote, quote] @ ''s:user'' @ [quote, quote] @ ''s'') ?nm no_meta) < 1024"
    by (simp add: addFile_sql_def files_insert_head_def dec_eval DB_FILES_TYPE_FS_def
        no_meta_def)
  from a [where db = "fresh_session_wide False" and fs_file = example_quoted_file
      and nm = ?nm and fsObjId = 4 and parObjId = 4 and path = "[]",
      THEN conjunct2, THEN conjunct2, THEN conjunct2, THEN conjunct2, THEN conjunct2,
      THEN conjunct2, THEN conjunct2, rule_format, OF w,
      unfolded example_display_doubled, unfolded m example_stream_counted(4,5)] wl
  have "\<exists>db1 s1. m_db db1 = Some s1
        \<and> addFile (fresh_session_wide False) example_quoted_file (Some example_stream)
            [] 4 4 = Inr (0, Some 1, db1)
        \<and> map fr_name (tsk_files s1)
            = [SText16 (''it'' @ [quote] @ ''s:user'' @ [quote] @ ''s'')]"
    by (simp add: names(2))
  then obtain db1 s1 where x: "m_db db1 = Some s1"
    "addFile (fresh_session_wide False) example_quoted_file (Some example_stream)
            [] 4 4 = Inr (0, Some 1, db1)"
    "map fr_name (tsk_files s1)
            = [SText16 (''it'' @ [quote] @ ''s:user'' @ [quote] @ ''s'')]"
    by (elim exE conjE)
  have 6: "\<exists>db' s'. addFile (fresh_session_wide False) example_quoted_file (Some example_stream)
            [] 4 4
          = Inr (0, Some 1, db')
        \<and> m_db db' = Some s'
        \<and> map fr_name (tsk_files s')
            = [SText16 (''it'' @ [quote] @ ''s:user'' @ [quote] @ ''s'')]"
    by (intro exI conjI) (rule x(2), rule x(1), rule x(3))
  from 1 2 3 4 5 6 show ?thesis
    unfolding long_def by (intro conjI)
qed


text \<open>
  C8 holds only while some byte of the two names is not a quote. For the file name
  \<open>'\<close> with a stream named \<open>'\<close>, \<open>nlen\<close> is 4 and the buffer has 5 bytes; the two
  doubled quotes and the colon, which \<open>nlen\<close> does not count, fill all 5, so no
  terminator is left and \<open>snprintf\<close> reads past the allocation: the stored name
  is not determined by the two names.
\<close>

theorem addFile_quote_names_read_past_buffer:
  "addFile_name [quote] (Some example_quote_stream)
     = Some [quote, quote, CHR '':'', quote, quote]
   \<and> c_str [quote, quote, CHR '':'', quote, quote] = None
   \<and> addFile example_session_root example_quote_file (Some example_quote_stream) [] 4 5
     = Inl ReadPastAllocation"
proof -
  let ?nm = "\<lparr>fn_name = [quote], fn_meta_addr = 65, fn_par_addr = 5, fn_type = 5,
              fn_flags = 1\<rparr>"
  have n: "f_name example_quote_file = Some ?nm" by (simp add: example_quote_file_def)
  have z: "NUL \<notin> set (fn_name ?nm)" "NUL \<notin> set (attr_chars (Some example_quote_stream))"
    by (simp_all add: example_quote_stream_counted) (simp_all add: NUL_def quote_def)
  have a: "0 < attr_nlen_of (Some example_quote_stream)" "all_quotes (fn_name ?nm)"
    "all_quotes (attr_chars (Some example_quote_stream))"
    by (simp_all add: example_quote_stream_counted all_quotes_def)
  have t: "has_tables (example_tables\<lparr>tsk_objects := tsk_objects example_tables @
             [\<lparr>o_obj_id = 5, o_par_obj_id = SInt 4, o_type = 4\<rparr>],
           tsk_files := [example_root_row], last_insert_rowid := 1\<rparr>)"
    "new_obj_id (example_tables\<lparr>tsk_objects := tsk_objects example_tables @
             [\<lparr>o_obj_id = 5, o_par_obj_id = SInt 4, o_type = 4\<rparr>],
           tsk_files := [example_root_row], last_insert_rowid := 1\<rparr>) = Some 6"
    by (simp_all add: example_tables_def new_obj_id_def next_rowid_def)
  have buf: "addFile_name [quote] (Some example_quote_stream)
     = Some [quote, quote, CHR '':'', quote, quote]"
    by (simp add: addFile_name_eq example_quote_stream_counted display_suffix_def
        colon_not_quote)
  have "c_str [quote, quote, CHR '':'', quote, quote] = None"
    by (simp add: c_str_def NUL_def quote_def)
  with buf addFile_overread [OF n z a example_session_root_db(1) t, where path = "[]"
      and fsObjId = 4 and parObjId = 5]
  show ?thesis by simp
qed

section \<open>Allocation runs\<close>

lemma next_rowid_new: "next_rowid ids draws = Some r \<Longrightarrow> r \<notin> set ids"
proof
  assume a: "next_rowid ids draws = Some r" and r: "r \<in> set ids"
  then have ne: "ids \<noteq> []" by auto
  show False
  proof (cases "Max (set ids) < 2 ^ 63 - 1")
    case True
    with a ne have "r = Max (set ids) + 1" by (simp add: next_rowid_def)
    moreover have "r \<le> Max (set ids)" using r by simp
    ultimately show False by simp
  next
    case False
    from a have "(if ids = [] then Some 1
         else if Max (set ids) < 2 ^ 63 - 1 then Some (Max (set ids) + 1)
         else find (\<lambda>v. v \<notin> set ids) (map (\<lambda>k. draws k mod 2 ^ 62 + 1) [0..<100])) = Some r"
      unfolding next_rowid_def .
    with ne False
    have "find (\<lambda>v. v \<notin> set ids) (map (\<lambda>k. draws k mod 2 ^ 62 + 1) [0..<100]) = Some r"
      by (simp only: if_False)
    then have "r \<notin> set ids" by (auto simp: find_Some_iff)
    with r show False by simp
  qed
qed

lemma next_rowid_below:
  assumes "next_rowid ids draws = Some r" and "\<forall>j \<in> set ids. j < 2 ^ 63 - 1"
  shows "(ids = [] \<longrightarrow> r = 1) \<and> (ids \<noteq> [] \<longrightarrow> r = Max (set ids) + 1)"
proof (cases "ids = []")
  case True
  with assms(1) show ?thesis by (simp add: next_rowid_def)
next
  case False
  then have "Max (set ids) \<in> set ids" by (intro Max_in) simp_all
  with assms(2) have "Max (set ids) < 2 ^ 63 - 1" by blast
  with assms(1) False show ?thesis by (simp add: next_rowid_def)
qed

lemma next_rowid_greater:
  assumes "next_rowid ids draws = Some r" and "\<forall>j \<in> set ids. j < 2 ^ 63 - 1"
    and "j \<in> set ids"
  shows "j < r"
proof -
  from assms(3) have ne: "ids \<noteq> []" by auto
  with next_rowid_below [OF assms(1,2)] have "r = Max (set ids) + 1" by simp
  moreover have "j \<le> Max (set ids)" using assms(3) by simp
  ultimately show ?thesis by simp
qed

lemma attempt_exec_object_ids:
  assumes "\<And>s s'. run s = Some s' \<Longrightarrow> tsk_objects s' = tsk_objects s"
  shows "object_ids (snd (attempt_exec db sql run)) = object_ids db"
  using assms
  by (auto simp: attempt_exec_def object_ids_def split: option.splits)

lemma addObject_step:
  assumes "addObject db t p = (rc, objId, db')"
  shows "allocation_step db objId db'"
proof (rule addObject_cases [of db t p])
  assume "addObject db t p = (1, None, db)"
  with assms show ?thesis by (simp add: allocation_step_def)
next
  fix s r
  assume "m_db db = Some s" "new_obj_id s = Some r"
    "addObject db t p =
       (0, Some r,
        db\<lparr>m_db := Some (s\<lparr>tsk_objects := tsk_objects s @
                              [\<lparr>o_obj_id = r, o_par_obj_id = SInt (sint p),
                                o_type = object_type_code t\<rparr>],
                            last_insert_rowid := r\<rparr>)\<rparr>)"
  note ok = this
  from assms ok(3) have "objId = Some r"
    "db' = db\<lparr>m_db := Some (s\<lparr>tsk_objects := tsk_objects s @
                              [\<lparr>o_obj_id = r, o_par_obj_id = SInt (sint p),
                                o_type = object_type_code t\<rparr>],
                            last_insert_rowid := r\<rparr>)\<rparr>"
    by simp_all
  with ok(1,2) show ?thesis
    by (simp add: allocation_step_def object_ids_def)
qed

lemma allocation_step_then_exec:
  assumes "allocation_step db objId db1"
    and "\<And>s s'. run s = Some s' \<Longrightarrow> tsk_objects s' = tsk_objects s"
  shows "allocation_step db objId (snd (attempt_exec db1 sql run))"
  using assms(1) attempt_exec_object_ids [OF assms(2), where db = db1 and sql = sql]
  by (simp add: allocation_step_def split: option.splits)

lemma inserts_keep_objects:
  "insert_image_info row s = Some s' \<Longrightarrow> tsk_objects s' = tsk_objects s"
  "insert_vs_info row s = Some s' \<Longrightarrow> tsk_objects s' = tsk_objects s"
  "insert_vs_parts i row s = Some s' \<Longrightarrow> tsk_objects s' = tsk_objects s"
  "insert_fs_info i row s = Some s' \<Longrightarrow> tsk_objects s' = tsk_objects s"
  by (auto simp: insert_image_info_def insert_vs_info_def insert_vs_parts_def
      insert_fs_info_def split: if_splits)

lemma step_after_exec:
  assumes "attempt_exec db1 sql run = (rc, db')" and "allocation_step db objId db1"
    and "\<And>s s'. run s = Some s' \<Longrightarrow> tsk_objects s' = tsk_objects s"
  shows "allocation_step db objId db'"
proof -
  from assms(1) have "db' = snd (attempt_exec db1 sql run)" by simp
  with allocation_step_then_exec [OF assms(2,3)] show ?thesis by simp
qed

lemmas exec_insert_steps =
  step_after_exec [OF _ _ inserts_keep_objects(1)]
  step_after_exec [OF _ _ inserts_keep_objects(2)]
  step_after_exec [OF _ _ inserts_keep_objects(3)]
  step_after_exec [OF _ _ inserts_keep_objects(4)]

lemma addImageInfo_step:
  assumes "addImageInfo db type ssize = (rc, objId, db')"
  shows "allocation_step db objId db'"
proof (cases "m_db db")
  case None
  with assms show ?thesis
    by (auto simp: addImageInfo_def attempt_exec_def allocation_step_def)
next
  case (Some s)
  show ?thesis
  proof (cases "insert_objects SNull (object_type_code DB_OBJECT_TYPE_IMG) s")
    case None
    with assms Some show ?thesis
      by (auto simp: addImageInfo_def attempt_exec_def allocation_step_def
          split: if_splits)
  next
    case ins: (Some s1)
    then obtain r where r: "new_obj_id s = Some r"
      "s1 = s\<lparr>tsk_objects := tsk_objects s @
                 [\<lparr>o_obj_id = r, o_par_obj_id = SNull,
                   o_type = object_type_code DB_OBJECT_TYPE_IMG\<rparr>],
               last_insert_rowid := r\<rparr>"
      by (auto simp: insert_objects_def split: if_splits option.splits)
    have first: "attempt_exec db
             (''INSERT INTO tsk_objects (obj_id, par_obj_id, type) VALUES (NULL, NULL, ''
                @ dec_int (object_type_code DB_OBJECT_TYPE_IMG) @ '');'')
             (insert_objects SNull (object_type_code DB_OBJECT_TYPE_IMG))
          = (0, db\<lparr>m_db := Some s1\<rparr>)"
      using Some ins by (simp add: attempt_exec_def dec_eval)
    have st: "allocation_step db (Some r) (db\<lparr>m_db := Some s1\<rparr>)"
      using Some r by (simp add: allocation_step_def object_ids_def)
    from assms first r(2) have "objId = Some r"
      "db' = snd (attempt_exec (db\<lparr>m_db := Some s1\<rparr>)
                         (''INSERT INTO tsk_image_info (obj_id, type, ssize) VALUES (''
                            @ dec_int r @ '', '' @ dec_int (sint type) @ '', ''
                            @ dec_int (sint ssize) @ '');'')
                         (insert_image_info [SInt r, SInt (sint type), SInt (sint ssize)]))"
      by (auto simp: addImageInfo_def split: prod.splits)
    with allocation_step_then_exec [OF st inserts_keep_objects(1)] show ?thesis
      by simp
  qed
qed

lemma addVsInfo_step:
  assumes "addVsInfo db vs_info parObjId = (rc, objId, db')"
  shows "allocation_step db objId db'"
proof -
  obtain rc1 o1 db1 where a: "addObject db DB_OBJECT_TYPE_VS parObjId = (rc1, o1, db1)"
    by (cases "addObject db DB_OBJECT_TYPE_VS parObjId") auto
  from assms a addObject_step [OF a] show ?thesis
    by (auto simp: addVsInfo_def split: option.splits if_splits prod.splits
        intro: exec_insert_steps)
qed

lemma addFsInfo_step:
  assumes "addFsInfo db fs_info parObjId = (rc, objId, db')"
  shows "allocation_step db objId db'"
proof -
  obtain rc1 o1 db1 where a: "addObject db DB_OBJECT_TYPE_FS parObjId = (rc1, o1, db1)"
    by (cases "addObject db DB_OBJECT_TYPE_FS parObjId") auto
  from assms a addObject_step [OF a] show ?thesis
    by (auto simp: addFsInfo_def split: option.splits if_splits prod.splits
        intro: exec_insert_steps)
qed

lemma addVolumeInfo_step:
  assumes "addVolumeInfo db vs_part parObjId = Inr (rc, objId, db')"
  shows "allocation_step db objId db'"
proof -
  obtain rc1 o1 db1 where a: "addObject db DB_OBJECT_TYPE_VOL parObjId = (rc1, o1, db1)"
    by (cases "addObject db DB_OBJECT_TYPE_VOL parObjId") auto
  from assms a addObject_step [OF a] show ?thesis
    by (auto simp: addVolumeInfo_def split: option.splits if_splits prod.splits
        intro: exec_insert_steps)
qed

lemma addFile_step:
  assumes "addFile db fs_file fs_attr path fsObjId parObjId = Inr (rc, objId, db')"
  shows "allocation_step db objId db'"
  using addFile_shape [OF assms]
  by (auto simp: allocation_step_def object_ids_def split: option.splits)

lemma addCarvedFileInfo_step:
  assumes "addCarvedFileInfo db fsObjId fileName sz = Inr (rc, objId, db')"
  shows "allocation_step db objId db'"
  using addCarvedFileInfo_shape [OF assms]
  by (auto simp: allocation_step_def object_ids_def split: option.splits)

lemma addFsFile_step:
  assumes "addFsFile db fs_file fs_attr path fsObjId = Inr (rc, objId, db')"
  shows "allocation_step db objId db'"
proof -
  from addFsFile_cases [OF assms] show ?thesis
  proof
    assume "rc = 1 \<and> objId = None \<and> m_db db' = m_db db"
    then show ?thesis by (simp add: allocation_step_def object_ids_def)
  next
    assume "\<exists>db0 par. m_db db0 = m_db db
        \<and> addFile db0 fs_file fs_attr path fsObjId par = Inr (rc, objId, db')"
    then obtain db0 par where d: "m_db db0 = m_db db"
      "addFile db0 fs_file fs_attr path fsObjId par = Inr (rc, objId, db')" by blast
    from d(1) have "object_ids db0 = object_ids db" by (simp add: object_ids_def)
    with addFile_step [OF d(2)] d(1) show ?thesis
      by (simp add: allocation_step_def split: option.splits)
  qed
qed

lemma allocate_step:
  "allocate db a = Inr (rc, objId, db') \<Longrightarrow> allocation_step db objId db'"
  by (cases a)
    (auto intro: addImageInfo_step addVsInfo_step addVolumeInfo_step addFsInfo_step
      addFsFile_step addFile_step addCarvedFileInfo_step)

text \<open>
  In every run, an id assigned is new: it is not in the registry before the run and
  was not assigned earlier in the run.
\<close>

lemma returned_ids_new:
  "distinct (returned_ids db as) \<and> set (returned_ids db as) \<inter> set (object_ids db) = {}"
proof (induction as arbitrary: db)
  case Nil
  show ?case by simp
next
  case (Cons a as)
  show ?case
  proof (cases "allocate db a")
    case (Inl f)
    then show ?thesis by simp
  next
    case (Inr res)
    then obtain rc objId db' where res: "allocate db a = Inr (rc, objId, db')"
      by (cases res) auto
    note st = allocate_step [OF res]
    note ih = Cons.IH [of db']
    show ?thesis
    proof (cases objId)
      case None
      with res st ih show ?thesis
        by (simp add: allocation_step_def)
    next
      case (Some r)
      with st obtain s where s: "m_db db = Some s" "new_obj_id s = Some r"
        and ids: "object_ids db' = object_ids db @ [r]"
        by (auto simp: allocation_step_def)
      from s have "next_rowid (object_ids db) (rowid_draws s (object_ids db)) = Some r"
        by (simp add: new_obj_id_def object_ids_def)
      then have "r \<notin> set (object_ids db)" by (rule next_rowid_new)
      with ih ids res Some show ?thesis by auto
    qed
  qed
qed

text \<open>
  In a run that stays below the largest rowid, every id assigned is larger than every
  id in the registry before the run and than every id assigned earlier in the run.
\<close>

lemma returned_ids_increasing:
  assumes "\<forall>j \<in> set (object_ids db). j + int (length as) < 2 ^ 63 - 1"
    and "int (length as) < 2 ^ 63 - 1"
  shows "sorted_wrt (<) (returned_ids db as)
   \<and> (\<forall>i \<in> set (returned_ids db as). \<forall>j \<in> set (object_ids db). j < i)"
  using assms
proof (induction as arbitrary: db)
  case Nil
  show ?case by simp
next
  case (Cons a as)
  from Cons.prems have small: "\<forall>j \<in> set (object_ids db). j + int (length as) < 2 ^ 63 - 1"
    and len: "int (length as) < 2 ^ 63 - 1"
    and below: "\<forall>j \<in> set (object_ids db). j < 2 ^ 63 - 1"
    by auto
  show ?case
  proof (cases "allocate db a")
    case (Inl f)
    then show ?thesis by simp
  next
    case (Inr res)
    then obtain rc objId db' where res: "allocate db a = Inr (rc, objId, db')"
      by (cases res) auto
    note st = allocate_step [OF res]
    show ?thesis
    proof (cases objId)
      case None
      with st have "object_ids db' = object_ids db" by (simp add: allocation_step_def)
      with Cons.IH [of db'] small len res None show ?thesis by simp
    next
      case (Some r)
      with st obtain s where s: "m_db db = Some s" "new_obj_id s = Some r"
        and ids: "object_ids db' = object_ids db @ [r]"
        by (auto simp: allocation_step_def)
      from s have nr: "next_rowid (object_ids db) (rowid_draws s (object_ids db)) = Some r"
        by (simp add: new_obj_id_def object_ids_def)
      note r = next_rowid_below [OF nr below]
      have rsmall: "r + int (length as) < 2 ^ 63 - 1"
      proof (cases "object_ids db = []")
        case True
        with r have "r = 1" by simp
        with Cons.prems(2) show ?thesis by simp
      next
        case False
        with r have "r = Max (set (object_ids db)) + 1" by simp
        moreover have "Max (set (object_ids db)) \<in> set (object_ids db)"
          using False by (intro Max_in) simp_all
        ultimately show ?thesis using Cons.prems(1) by fastforce
      qed
      with small ids have "\<forall>j \<in> set (object_ids db'). j + int (length as) < 2 ^ 63 - 1"
        by auto
      from Cons.IH [OF this len] ids
      have ih: "sorted_wrt (<) (returned_ids db' as)"
        "\<forall>i \<in> set (returned_ids db' as). r < i"
        "\<forall>i \<in> set (returned_ids db' as). \<forall>j \<in> set (object_ids db). j < i"
        by simp_all
      have "\<forall>j \<in> set (object_ids db). j < r"
        using next_rowid_greater [OF nr below] by blast
      with ih res Some show ?thesis by auto
    qed
  qed
qed

text \<open>The run of the example session assigns the ids 1 to 4.\<close>

lemma example_run_ids:
  "returned_ids (fresh_session False)
     [ImageInfo 0 512, VsInfo example_vs 1, VolumeInfo example_part 2, FsInfo example_fs 3]
   = [1, 2, 3, 4]"
  by (simp add: fresh_session_eq addImageInfo_def
      addVsInfo_def addVolumeInfo_def addFsInfo_def addObject_def attempt_exec_def
      insert_objects_def insert_image_info_def insert_vs_info_def insert_vs_parts_def
      insert_fs_info_def new_obj_id_def next_rowid_def addObject_sql_def addVolumeInfo_sql_def
      dec_eval sql_unsigned_def example_vs_def example_part_def example_fs_def quote_def)

text \<open>
  With the largest rowid in use the engine draws: the draw 6 gives the rowid 7, a
  draw that is in use is passed over, and 100 draws in use make the insert fail.
\<close>

lemma next_rowid_at_largest:
  "next_rowid [9223372036854775807] (\<lambda>k. 6) = Some 7"
  "next_rowid [7, 9223372036854775807] (\<lambda>k. if k = 0 then 6 else 41) = Some 42"
  "next_rowid [7, 9223372036854775807] (\<lambda>k. 6) = None"
proof -
  have u: "[0..<100] = 0 # 1 # [2..<100]"
    by (simp add: upt_conv_Cons)
  show "next_rowid [9223372036854775807] (\<lambda>k. 6) = Some 7"
    by (simp add: next_rowid_def u)
  show "next_rowid [7, 9223372036854775807] (\<lambda>k. if k = 0 then 6 else 41) = Some 42"
    by (simp add: next_rowid_def u)
  show "next_rowid [7, 9223372036854775807] (\<lambda>k. 6) = None"
    by (simp add: next_rowid_def find_None_iff)
qed

text \<open>
  A description with one apostrophe: the object 3 is allocated, the statement is
  refused, the call returns 1 and no row of \<open>tsk_vs_parts\<close> is written.
\<close>

lemma apostrophe_description_is_refused:
  "(case addImageInfo (fresh_session False) 0 512 of
      (_, _, db1) \<Rightarrow>
        (case addVsInfo db1 example_vs 1 of
           (_, _, db2) \<Rightarrow>
             (case addVolumeInfo db2 example_apostrophe_part 2 of
                Inl _ \<Rightarrow> None
              | Inr (rc, objId, db3) \<Rightarrow>
                  Some (rc, objId, object_ids db3, map_option tsk_vs_parts (m_db db3)))))
   = Some (1, Some 3, [1, 2, 3], Some [])"
  by (simp add: fresh_session_eq addImageInfo_def
      addVsInfo_def addVolumeInfo_def addObject_def attempt_exec_def
      insert_objects_def insert_image_info_def insert_vs_info_def
      new_obj_id_def next_rowid_def addObject_sql_def addVolumeInfo_sql_def dec_eval
      sql_unsigned_def example_vs_def example_apostrophe_part_def quote_def plain_text_def
      odd_quotes_def object_ids_def)

text \<open>
  C5 holds for the runs above, which stay below the largest rowid, and fails where
  \<open>addVolumeInfo\<close> meets a partition description with a quote, which it does not
  double. For the description
  \<open>x',0);DELETE FROM tsk_objects;--\<close> the text handed to \<open>sqlite3_exec\<close> is an
  \<open>INSERT\<close> that ends after \<open>'x',0)\<close>, followed by a \<open>DELETE\<close> of the whole
  registry and a comment; the model stops there with \<open>ForeignStatement\<close>. With the
  registry emptied the next allocation is given the row id 1 again.
\<close>

theorem hostile_description_is_foreign_sql:
  "addVolumeInfo_sql 3 example_hostile_part =
     ''INSERT INTO tsk_vs_parts (obj_id, addr, start, length, desc, flags)VALUES (3, 2,2048,204800,''
       @ [quote] @ ''x'' @ [quote] @ '',0);DELETE FROM tsk_objects;--'' @ [quote] @ '',1)''
   \<and> sql_string_body (vp_desc example_hostile_part) = None
   \<and> (case addImageInfo (fresh_session False) 0 512 of
        (_, _, db1) \<Rightarrow>
          (case addVsInfo db1 example_vs 1 of
             (_, _, db2) \<Rightarrow> addVolumeInfo db2 example_hostile_part 2))
       = Inl ForeignStatement"
  by (simp add: fresh_session_eq addImageInfo_def
      addVsInfo_def addVolumeInfo_def addObject_def attempt_exec_def
      insert_objects_def insert_image_info_def insert_vs_info_def
      new_obj_id_def next_rowid_def addObject_sql_def addVolumeInfo_sql_def dec_eval
      sql_unsigned_def example_vs_def example_hostile_part_def quote_def plain_text_def)

end
